theory Spec2Isabelle
  imports Complex_Main "HOL-Library.Word"
begin

section \<open>JavaScript strings\<close>

text \<open>
  A JavaScript string is a sequence of 16-bit code units. Literals of the source are
  written \<open>js ''...''\<close>: the ASCII text, one code unit per character.
\<close>

type_synonym jschar = "16 word"
type_synonym jsstring = "jschar list"

definition js :: "string \<Rightarrow> jsstring" where
  "js s = map of_char s"

text \<open>
  ECMAScript WhiteSpace and LineTerminator code points. \<open>String.prototype.trim\<close> strips
  them and the regular expression class \<open>\s\<close> matches exactly them.
\<close>

definition is_ws :: "jschar \<Rightarrow> bool" where
  "is_ws c = (c = 0x09 \<or> c = 0x0A \<or> c = 0x0B \<or> c = 0x0C \<or> c = 0x0D \<or> c = 0x20
     \<or> c = 0xA0 \<or> c = 0x1680 \<or> (0x2000 \<le> c \<and> c \<le> 0x200A) \<or> c = 0x2028 \<or> c = 0x2029
     \<or> c = 0x202F \<or> c = 0x205F \<or> c = 0x3000 \<or> c = 0xFEFF)"

definition trimStart :: "jsstring \<Rightarrow> jsstring" where
  "trimStart s = dropWhile is_ws s"

definition trimEnd :: "jsstring \<Rightarrow> jsstring" where
  "trimEnd s = rev (dropWhile is_ws (rev s))"

definition trim :: "jsstring \<Rightarrow> jsstring" where
  "trim s = trimEnd (trimStart s)"

text \<open>\<open>s.split("\n")\<close>: the pieces between line feeds; never the empty list.\<close>

fun split_nl :: "jsstring \<Rightarrow> jsstring list" where
  "split_nl [] = [[]]"
| "split_nl (c # cs) =
     (if c = 0x0A then [] # split_nl cs
      else (case split_nl cs of l # ls \<Rightarrow> (c # l) # ls | [] \<Rightarrow> [[c]]))"

text \<open>
  \<open>s.split(/\s+/)\<close>: the pieces between maximal runs of white space. A run at either
  end of the string leaves an empty piece there, and the empty string gives one empty
  piece. \<open>split_ws_from cur s\<close> carries the piece being read.
\<close>

function split_ws_from :: "jsstring \<Rightarrow> jsstring \<Rightarrow> jsstring list" where
  "split_ws_from cur [] = [cur]"
| "split_ws_from cur (c # cs) =
     (if is_ws c then cur # split_ws_from [] (dropWhile is_ws cs)
      else split_ws_from (cur @ [c]) cs)"
  by pat_completeness auto
termination
  by (relation "measure (\<lambda>(cur, s). length s)")
     (auto simp: le_imp_less_Suc length_dropWhile_le)

definition split_ws :: "jsstring \<Rightarrow> jsstring list" where
  "split_ws s = split_ws_from [] s"

text \<open>\<open>s.startsWith(p)\<close>, \<open>s.endsWith(p)\<close> and \<open>s.includes(p)\<close>.\<close>

fun startsWith :: "jsstring \<Rightarrow> jsstring \<Rightarrow> bool" where
  "startsWith s [] = True"
| "startsWith [] (p # ps) = False"
| "startsWith (c # cs) (p # ps) = (c = p \<and> startsWith cs ps)"

definition endsWith :: "jsstring \<Rightarrow> jsstring \<Rightarrow> bool" where
  "endsWith s p = startsWith (rev s) (rev p)"

fun str_includes :: "jsstring \<Rightarrow> jsstring \<Rightarrow> bool" where
  "str_includes [] p = (p = [])"
| "str_includes (c # cs) p = (startsWith (c # cs) p \<or> str_includes cs p)"

text \<open>\<open>xs.join(sep)\<close> on an array of strings.\<close>

fun join :: "jsstring \<Rightarrow> jsstring list \<Rightarrow> jsstring" where
  "join sep [] = []"
| "join sep [x] = x"
| "join sep (x # y # ys) = x @ sep @ join sep (y # ys)"

text \<open>Decimal digits of a natural number, as \<open>String(n)\<close> prints a small integer.\<close>

fun string_of_nat :: "nat \<Rightarrow> jsstring" where
  "string_of_nat n =
     (if n < 10 then [of_nat (48 + n)]
      else string_of_nat (n div 10) @ [of_nat (48 + n mod 10)])"

text \<open>The quote characters of the source's template literals.\<close>

definition dquote :: jsstring where
  "dquote = [0x22]"

definition squote :: jsstring where
  "squote = [0x27]"

definition backtick :: jsstring where
  "backtick = [0x60]"

section \<open>Values\<close>

text \<open>
  A JavaScript number is a double: not-a-number, an infinity, or a finite value, kept
  here as the rational it denotes. Printing one is left to the host (\<open>Number_toString\<close>
  below).
\<close>

datatype jsnum = NaN | PosInf | NegInf | Fin rat

datatype jsval =
    Undefined
  | Null
  | Bool bool
  | Num jsnum
  | Str jsstring
  | Arr "jsval list"
  | Obj "(jsstring \<times> jsval) list"

text \<open>\<open>v[k]\<close> on a plain object: the property's value, or \<open>undefined\<close>.\<close>

fun get_prop :: "jsval \<Rightarrow> jsstring \<Rightarrow> jsval" where
  "get_prop (Obj kvs) k = (case map_of kvs k of Some v \<Rightarrow> v | None \<Rightarrow> Undefined)"
| "get_prop v k = Undefined"

text \<open>Truthiness, as the conditions \<open>if (x)\<close> and \<open>x ? a : b\<close> read a value.\<close>

fun truthy :: "jsval \<Rightarrow> bool" where
  "truthy Undefined = False"
| "truthy Null = False"
| "truthy (Bool b) = b"
| "truthy (Num n) = (n \<noteq> NaN \<and> n \<noteq> Fin 0)"
| "truthy (Str s) = (s \<noteq> [])"
| "truthy (Arr xs) = True"
| "truthy (Obj kvs) = True"

section \<open>Errors\<close>

text \<open>
  A thrown value: whether it is a \<open>SyntaxError\<close>, its \<open>message\<close>, and the two
  properties the source reads or writes on it: \<open>stderr\<close> (set by the promisified
  \<open>exec\<close> on a failed command) and \<open>inputLine\<close> (set by \<open>parseNdJson\<close>).
\<close>

record jserror =
  is_SyntaxError :: bool
  message :: jsstring
  stderr_prop :: "jsstring option"
  inputLine :: "jsstring option"

definition new_Error :: "jsstring \<Rightarrow> jserror" where
  "new_Error msg =
     \<lparr>is_SyntaxError = False, message = msg, stderr_prop = None, inputLine = None\<rparr>"

section \<open>The argument schemas' combinators\<close>

text \<open>
  The part of Zod that \<open>schemas.ts\<close> uses: \<open>z.string()\<close> with \<open>startsWith\<close>,
  \<open>z.boolean()\<close>, \<open>z.number().int().positive()\<close>, \<open>z.array(..).min(n)\<close>, \<open>z.enum\<close>,
  \<open>z.literal\<close>, \<open>.optional()\<close>, \<open>.default(v)\<close> and \<open>z.object\<close>. \<open>.describe\<close> attaches
  documentation only and is left out.
\<close>

datatype zcheck = StartsWith jsstring | IsInt | Positive | Min nat

datatype zod =
    ZString "zcheck list"
  | ZBoolean
  | ZNumber "zcheck list"
  | ZArray zod "zcheck list"
  | ZEnum "jsstring list"
  | ZLiteral jsval
  | ZOptional zod
  | ZDefault zod jsval
  | ZObject "(jsstring \<times> zod) list"

fun string_check :: "jsstring \<Rightarrow> zcheck \<Rightarrow> bool" where
  "string_check s (StartsWith p) = startsWith s p"
| "string_check s c = True"

fun number_check :: "jsnum \<Rightarrow> zcheck \<Rightarrow> bool" where
  "number_check (Fin r) IsInt = (of_int \<lfloor>r\<rfloor> = r)"
| "number_check n IsInt = False"
| "number_check (Fin r) Positive = (0 < r)"
| "number_check PosInf Positive = True"
| "number_check n Positive = False"
| "number_check n c = True"

fun array_check :: "jsval list \<Rightarrow> zcheck \<Rightarrow> bool" where
  "array_check xs (Min n) = (n \<le> length xs)"
| "array_check xs c = True"

text \<open>
  \<open>schema.safeParse(v)\<close>: \<open>Some\<close> of the parsed data on success, \<open>None\<close> on failure. An
  object schema strips the keys it does not name and reads a missing key as
  \<open>undefined\<close>; a default replaces \<open>undefined\<close> before the inner schema is tried.
\<close>

fun safeParse :: "zod \<Rightarrow> jsval \<Rightarrow> jsval option" where
  "safeParse (ZString cs) v =
     (case v of Str s \<Rightarrow> if list_all (string_check s) cs then Some v else None
      | _ \<Rightarrow> None)"
| "safeParse ZBoolean v = (case v of Bool b \<Rightarrow> Some v | _ \<Rightarrow> None)"
| "safeParse (ZNumber cs) v =
     (case v of Num n \<Rightarrow> if n \<noteq> NaN \<and> list_all (number_check n) cs then Some v else None
      | _ \<Rightarrow> None)"
| "safeParse (ZArray el cs) v =
     (case v of
        Arr xs \<Rightarrow>
          (case those (map (safeParse el) xs) of
             Some ys \<Rightarrow> if list_all (array_check xs) cs then Some (Arr ys) else None
           | None \<Rightarrow> None)
      | _ \<Rightarrow> None)"
| "safeParse (ZEnum vs) v =
     (case v of Str s \<Rightarrow> if s \<in> set vs then Some v else None | _ \<Rightarrow> None)"
| "safeParse (ZLiteral l) v = (if v = l then Some v else None)"
| "safeParse (ZOptional z) v = (if v = Undefined then Some Undefined else safeParse z v)"
| "safeParse (ZDefault z d) v = safeParse z (if v = Undefined then d else v)"
| "safeParse (ZObject shape) v =
     (case v of
        Obj kvs \<Rightarrow>
          map_option Obj
            (those (map (\<lambda>kz. map_option (Pair (fst kz)) (safeParse (snd kz) (get_prop v (fst kz))))
                      shape))
      | _ \<Rightarrow> None)"

section \<open>The host\<close>

text \<open>
  What the program takes from Node and from the libraries it imports, as parameters:
  the outcome of running a shell command with the promisified \<open>child_process.exec\<close>
  (a rejection, or stdout and stderr), \<open>JSON.parse\<close> (a thrown error or the value),
  \<open>JSON.stringify\<close>, the printing of a number in a template literal, the message of a
  failed \<open>safeParse\<close>, and \<open>process.env["W3_LOGIN_EMAIL"]\<close>.
\<close>

record env =
  exec :: "jsstring \<Rightarrow> jserror + (jsstring \<times> jsstring)"
  JSON_parse :: "jsstring \<Rightarrow> jserror + jsval"
  JSON_stringify :: "jsval \<Rightarrow> jsstring"
  Number_toString :: "jsnum \<Rightarrow> jsstring"
  ZodError_message :: "zod \<Rightarrow> jsval \<Rightarrow> jsstring"
  W3_LOGIN_EMAIL :: jsval

section \<open>Effects\<close>

text \<open>
  A computation returns the events it caused, in order, and either the error it threw
  or its value. The events are the lines the logger writes to stderr and the shell
  commands started.
\<close>

datatype level = DEBUG | INFO | WARN | ERROR

datatype logarg = LogStr jsstring | LogErr jserror

datatype event = Log level "logarg list" | Exec jsstring

type_synonym 'a io = "event list \<times> (jserror + 'a)"

definition io_return :: "'a \<Rightarrow> 'a io" where
  "io_return x = ([], Inr x)"

definition io_throw :: "jserror \<Rightarrow> 'a io" where
  "io_throw e = ([], Inl e)"

definition io_bind :: "'a io \<Rightarrow> ('a \<Rightarrow> 'b io) \<Rightarrow> 'b io" where
  "io_bind m f =
     (case snd m of
        Inl e \<Rightarrow> (fst m, Inl e)
      | Inr x \<Rightarrow> (fst m @ fst (f x), snd (f x)))"

definition io_then :: "'a io \<Rightarrow> 'b io \<Rightarrow> 'b io" where
  "io_then m k = io_bind m (\<lambda>_. k)"

text \<open>\<open>try { m } catch (e) { h e }\<close>\<close>

definition io_catch :: "'a io \<Rightarrow> (jserror \<Rightarrow> 'a io) \<Rightarrow> 'a io" where
  "io_catch m h =
     (case snd m of
        Inl e \<Rightarrow> (fst m @ fst (h e), snd (h e))
      | Inr x \<Rightarrow> m)"

definition logger :: "level \<Rightarrow> logarg list \<Rightarrow> unit io" where
  "logger l args = ([Log l args], Inr ())"

definition execPromise :: "env \<Rightarrow> jsstring \<Rightarrow> (jsstring \<times> jsstring) io" where
  "execPromise env cmd = ([Exec cmd], exec env cmd)"

text \<open>The shell commands a computation started.\<close>

fun is_Exec :: "event \<Rightarrow> bool" where
  "is_Exec (Exec c) = True"
| "is_Exec (Log l a) = False"

definition execs :: "'a io \<Rightarrow> event list" where
  "execs m = filter is_Exec (fst m)"

definition logs :: "'a io \<Rightarrow> event list" where
  "logs m = filter (\<lambda>e. \<not> is_Exec e) (fst m)"

section \<open>utils.ts\<close>

definition runW3Command :: "env \<Rightarrow> jsstring \<Rightarrow> (jsstring \<times> jsstring) io" where
  "runW3Command env command =
     (let fullCommand = js ''w3 '' @ command in
      io_then (logger DEBUG [LogStr (js ''Executing: '' @ fullCommand)])
        (io_catch
           (io_bind (execPromise env fullCommand) (\<lambda>(stdout, stderr).
              io_then
                (if stderr \<noteq> []
                 then logger WARN [LogStr (js ''w3 command stderr: '' @ stderr)]
                 else io_return ())
                (io_then
                   (logger DEBUG
                      [LogStr (js ''w3 command stdout: '' @ take 100 stdout @ js ''...'')])
                   (io_return (stdout, stderr)))))
           (\<lambda>error.
              io_then
                (logger ERROR
                   [LogStr (js ''Error executing w3 command '' @ squote @ command @ squote
                            @ js '':''),
                    LogErr error])
                (let errorMessage =
                       (if (case stderr_prop error of Some s \<Rightarrow> s \<noteq> [] | None \<Rightarrow> False)
                        then message error @ js ''\<newline>Stderr: '' @ the (stderr_prop error)
                        else message error)
                 in io_throw
                      (new_Error (js ''Failed to execute '' @ squote @ js ''w3 '' @ command
                                  @ squote @ js '': '' @ errorMessage))))))"

text \<open>
  \<open>lines.map((line, index) => f index line)\<close> for an effectful \<open>f\<close>: left to right, and
  the first throw ends the map.
\<close>

fun map_io_from :: "nat \<Rightarrow> (nat \<Rightarrow> 'a \<Rightarrow> 'b io) \<Rightarrow> 'a list \<Rightarrow> 'b list io" where
  "map_io_from i f [] = io_return []"
| "map_io_from i f (x # xs) =
     io_bind (f i x) (\<lambda>y. io_bind (map_io_from (Suc i) f xs) (\<lambda>ys. io_return (y # ys)))"

text \<open>The lines \<open>parseNdJson\<close> keeps: \<open>ndjson.trim().split("\n").filter(..)\<close>.\<close>

definition ndjson_lines :: "jsstring \<Rightarrow> jsstring list" where
  "ndjson_lines ndjson = filter (\<lambda>line. trim line \<noteq> []) (split_nl (trim ndjson))"

text \<open>The body of the \<open>map\<close> callback: parse one line; on a throw, log and re-throw.\<close>

definition parse_line :: "env \<Rightarrow> nat \<Rightarrow> jsstring \<Rightarrow> jsval io" where
  "parse_line env index line =
     io_catch
       (case JSON_parse env line of Inl e \<Rightarrow> io_throw e | Inr v \<Rightarrow> io_return v)
       (\<lambda>e.
          let e' = (if is_SyntaxError e \<and> str_includes (message e) (js ''Unexpected token'')
                    then e\<lparr>inputLine := Some line\<rparr> else e)
          in io_then
               (logger ERROR
                  [LogStr (js ''Failed to parse NDJSON line #'' @ string_of_nat (index + 1)
                           @ js ''. Error: '' @ message e' @ js ''. Line content: '' @ dquote
                           @ take 100 line @ (if length line > 100 then js ''...'' else [])
                           @ dquote)])
               (io_throw e'))"

definition parseNdJson :: "env \<Rightarrow> jsstring \<Rightarrow> jsval list io" where
  "parseNdJson env ndjson =
     (let lines = ndjson_lines ndjson in
      io_catch (map_io_from 0 (parse_line env) lines)
        (\<lambda>e.
           io_then
             (logger ERROR
                [LogStr (js ''Failed to parse NDJSON output. Error: '' @ message e
                         @ js ''. Full NDJSON (start): '' @ take 200 ndjson @ js ''...'')])
             (io_throw
                (new_Error (js ''Failed to parse NDJSON output. Error: '' @ message e
                            @ js ''. Please check w3cli output format.'')))))"

section \<open>schemas.ts\<close>

definition W3LoginArgsSchema :: zod where
  "W3LoginArgsSchema = ZObject []"

definition W3SpaceLsArgsSchema :: zod where
  "W3SpaceLsArgsSchema = ZObject []"

definition W3SpaceUseArgsSchema :: zod where
  "W3SpaceUseArgsSchema = ZObject [(js ''spaceDid'', ZString [StartsWith (js ''did:key:'')])]"

definition W3SpaceCreateArgsSchema :: zod where
  "W3SpaceCreateArgsSchema = ZObject [(js ''name'', ZOptional (ZString []))]"

definition W3UpArgsSchema :: zod where
  "W3UpArgsSchema =
     ZObject [(js ''paths'', ZArray (ZString []) [Min 1]),
              (js ''noWrap'', ZDefault (ZOptional ZBoolean) (Bool False)),
              (js ''hidden'', ZDefault (ZOptional ZBoolean) (Bool False))]"

definition W3LsArgsSchema :: zod where
  "W3LsArgsSchema = ZObject [(js ''json'', ZDefault (ZOptional ZBoolean) (Bool True))]"

definition W3RmArgsSchema :: zod where
  "W3RmArgsSchema =
     ZObject [(js ''cid'', ZString []),
              (js ''removeShards'', ZDefault (ZOptional ZBoolean) (Bool False))]"

definition W3OpenArgsSchema :: zod where
  "W3OpenArgsSchema = ZObject [(js ''cid'', ZString []), (js ''path'', ZOptional (ZString []))]"

definition W3SpaceInfoArgsSchema :: zod where
  "W3SpaceInfoArgsSchema =
     ZObject [(js ''spaceDid'', ZOptional (ZString [StartsWith (js ''did:key:'')])),
              (js ''json'', ZDefault (ZOptional ZBoolean) (Bool True))]"

definition W3SpaceAddArgsSchema :: zod where
  "W3SpaceAddArgsSchema = ZObject [(js ''proof'', ZString [])]"

definition W3DelegationCreateArgsSchema :: zod where
  "W3DelegationCreateArgsSchema =
     ZObject [(js ''audienceDid'', ZString []),
              (js ''capabilities'', ZArray (ZString []) [Min 1]),
              (js ''name'', ZOptional (ZString [])),
              (js ''type'', ZOptional (ZEnum [js ''device'', js ''app'', js ''service''])),
              (js ''output'', ZOptional (ZString [])),
              (js ''base64'', ZDefault (ZOptional ZBoolean) (Bool False))]"

definition W3DelegationLsArgsSchema :: zod where
  "W3DelegationLsArgsSchema = ZObject [(js ''json'', ZDefault (ZOptional ZBoolean) (Bool True))]"

definition W3DelegationRevokeArgsSchema :: zod where
  "W3DelegationRevokeArgsSchema =
     ZObject [(js ''delegationCid'', ZString []), (js ''proof'', ZOptional (ZString []))]"

definition W3ProofAddArgsSchema :: zod where
  "W3ProofAddArgsSchema = ZObject [(js ''proofPath'', ZString [])]"

definition W3ProofLsArgsSchema :: zod where
  "W3ProofLsArgsSchema = ZObject [(js ''json'', ZDefault (ZOptional ZBoolean) (Bool True))]"

definition W3KeyCreateArgsSchema :: zod where
  "W3KeyCreateArgsSchema = ZObject [(js ''json'', ZDefault (ZOptional ZBoolean) (Bool False))]"

definition W3BridgeGenerateTokensArgsSchema :: zod where
  "W3BridgeGenerateTokensArgsSchema =
     ZObject [(js ''capabilities'', ZArray (ZString []) [Min 1]),
              (js ''expiration'', ZOptional (ZNumber [IsInt, Positive])),
              (js ''json'', ZDefault (ZOptional ZBoolean) (Bool True))]"

definition W3CanBlobAddArgsSchema :: zod where
  "W3CanBlobAddArgsSchema = ZObject [(js ''path'', ZString [])]"

definition W3CanBlobLsArgsSchema :: zod where
  "W3CanBlobLsArgsSchema =
     ZObject [(js ''json'', ZDefault (ZOptional ZBoolean) (Bool True)),
              (js ''size'', ZOptional (ZNumber [IsInt, Positive])),
              (js ''cursor'', ZOptional (ZString []))]"

definition W3CanBlobRmArgsSchema :: zod where
  "W3CanBlobRmArgsSchema = ZObject [(js ''multihash'', ZString [])]"

definition W3CanIndexAddArgsSchema :: zod where
  "W3CanIndexAddArgsSchema = ZObject [(js ''cid'', ZString [])]"

definition W3CanUploadAddArgsSchema :: zod where
  "W3CanUploadAddArgsSchema =
     ZObject [(js ''rootCid'', ZString []), (js ''shardCids'', ZArray (ZString []) [Min 1])]"

definition W3CanUploadLsArgsSchema :: zod where
  "W3CanUploadLsArgsSchema =
     ZObject [(js ''json'', ZDefault (ZOptional ZBoolean) (Bool True)),
              (js ''shards'', ZDefault (ZOptional ZBoolean) (Bool False)),
              (js ''size'', ZOptional (ZNumber [IsInt, Positive])),
              (js ''cursor'', ZOptional (ZString [])),
              (js ''pre'', ZDefault (ZOptional ZBoolean) (Bool False))]"

definition W3CanUploadRmArgsSchema :: zod where
  "W3CanUploadRmArgsSchema = ZObject [(js ''rootCid'', ZString [])]"

definition W3PlanGetArgsSchema :: zod where
  "W3PlanGetArgsSchema = ZObject [(js ''accountId'', ZOptional (ZString []))]"

definition W3AccountLsArgsSchema :: zod where
  "W3AccountLsArgsSchema = ZObject []"

definition W3SpaceProvisionArgsSchema :: zod where
  "W3SpaceProvisionArgsSchema =
     ZObject [(js ''customerId'', ZString []),
              (js ''spaceDid'', ZString [StartsWith (js ''did:key:'')])]"

definition W3CouponCreateArgsSchema :: zod where
  "W3CouponCreateArgsSchema = ZObject [(js ''claimCode'', ZString [])]"

definition W3UsageReportArgsSchema :: zod where
  "W3UsageReportArgsSchema =
     ZObject [(js ''spaceDid'', ZOptional (ZString [StartsWith (js ''did:key:'')])),
              (js ''json'', ZDefault (ZOptional ZBoolean) (Bool True))]"

definition W3CanAccessClaimArgsSchema :: zod where
  "W3CanAccessClaimArgsSchema = ZObject [(js ''proof'', ZString [])]"

definition W3CanStoreAddArgsSchema :: zod where
  "W3CanStoreAddArgsSchema = ZObject [(js ''path'', ZString [])]"

definition W3CanStoreLsArgsSchema :: zod where
  "W3CanStoreLsArgsSchema =
     ZObject [(js ''json'', ZDefault (ZOptional ZBoolean) (Bool True)),
              (js ''size'', ZOptional (ZNumber [IsInt, Positive])),
              (js ''cursor'', ZOptional (ZString []))]"

definition W3CanStoreRmArgsSchema :: zod where
  "W3CanStoreRmArgsSchema = ZObject [(js ''carCid'', ZString [])]"

definition W3CanFilecoinInfoArgsSchema :: zod where
  "W3CanFilecoinInfoArgsSchema = ZObject [(js ''pieceCid'', ZString [])]"

definition W3ResetArgsSchema :: zod where
  "W3ResetArgsSchema = ZObject [(js ''confirmReset'', ZLiteral (Str (js ''yes-i-am-sure'')))]"

text \<open>
  The module's exports, as \<open>import * as Schemas\<close> gives them: name and value. (A module
  namespace lists its keys in code unit order; nothing below depends on the order.)
\<close>

definition Schemas :: "(jsstring \<times> zod) list" where
  "Schemas =
     [(js ''W3LoginArgsSchema'', W3LoginArgsSchema),
      (js ''W3SpaceLsArgsSchema'', W3SpaceLsArgsSchema),
      (js ''W3SpaceUseArgsSchema'', W3SpaceUseArgsSchema),
      (js ''W3SpaceCreateArgsSchema'', W3SpaceCreateArgsSchema),
      (js ''W3UpArgsSchema'', W3UpArgsSchema),
      (js ''W3LsArgsSchema'', W3LsArgsSchema),
      (js ''W3RmArgsSchema'', W3RmArgsSchema),
      (js ''W3OpenArgsSchema'', W3OpenArgsSchema),
      (js ''W3SpaceInfoArgsSchema'', W3SpaceInfoArgsSchema),
      (js ''W3SpaceAddArgsSchema'', W3SpaceAddArgsSchema),
      (js ''W3DelegationCreateArgsSchema'', W3DelegationCreateArgsSchema),
      (js ''W3DelegationLsArgsSchema'', W3DelegationLsArgsSchema),
      (js ''W3DelegationRevokeArgsSchema'', W3DelegationRevokeArgsSchema),
      (js ''W3ProofAddArgsSchema'', W3ProofAddArgsSchema),
      (js ''W3ProofLsArgsSchema'', W3ProofLsArgsSchema),
      (js ''W3KeyCreateArgsSchema'', W3KeyCreateArgsSchema),
      (js ''W3BridgeGenerateTokensArgsSchema'', W3BridgeGenerateTokensArgsSchema),
      (js ''W3CanBlobAddArgsSchema'', W3CanBlobAddArgsSchema),
      (js ''W3CanBlobLsArgsSchema'', W3CanBlobLsArgsSchema),
      (js ''W3CanBlobRmArgsSchema'', W3CanBlobRmArgsSchema),
      (js ''W3CanIndexAddArgsSchema'', W3CanIndexAddArgsSchema),
      (js ''W3CanUploadAddArgsSchema'', W3CanUploadAddArgsSchema),
      (js ''W3CanUploadLsArgsSchema'', W3CanUploadLsArgsSchema),
      (js ''W3CanUploadRmArgsSchema'', W3CanUploadRmArgsSchema),
      (js ''W3PlanGetArgsSchema'', W3PlanGetArgsSchema),
      (js ''W3AccountLsArgsSchema'', W3AccountLsArgsSchema),
      (js ''W3SpaceProvisionArgsSchema'', W3SpaceProvisionArgsSchema),
      (js ''W3CouponCreateArgsSchema'', W3CouponCreateArgsSchema),
      (js ''W3UsageReportArgsSchema'', W3UsageReportArgsSchema),
      (js ''W3CanAccessClaimArgsSchema'', W3CanAccessClaimArgsSchema),
      (js ''W3CanStoreAddArgsSchema'', W3CanStoreAddArgsSchema),
      (js ''W3CanStoreLsArgsSchema'', W3CanStoreLsArgsSchema),
      (js ''W3CanStoreRmArgsSchema'', W3CanStoreRmArgsSchema),
      (js ''W3CanFilecoinInfoArgsSchema'', W3CanFilecoinInfoArgsSchema),
      (js ''W3ResetArgsSchema'', W3ResetArgsSchema)]"

section \<open>tool\_handlers.ts\<close>

text \<open>
  A handler's response: the content parts (each a type and a text) and the optional
  \<open>isError\<close>. Every response the program builds has one part of type \<open>text\<close> whose text
  is \<open>JSON.stringify\<close> of a payload; \<open>text_response\<close> builds it.
\<close>

datatype content_part = ContentPart (part_type: jsstring) (part_text: jsstring)

record response =
  content :: "content_part list"
  isError :: "bool option"

definition text_response :: "env \<Rightarrow> jsval \<Rightarrow> response" where
  "text_response env payload =
     \<lparr>content = [ContentPart (js ''text'') (JSON_stringify env payload)], isError = None\<rparr>"

type_synonym handler = "env \<Rightarrow> jsval \<Rightarrow> response io"

text \<open>\<open>`${v}`\<close>: the string a template literal puts for a value.\<close>

fun template :: "env \<Rightarrow> jsval \<Rightarrow> jsstring" where
  "template env Undefined = js ''undefined''"
| "template env Null = js ''null''"
| "template env (Bool b) = (if b then js ''true'' else js ''false'')"
| "template env (Num n) = Number_toString env n"
| "template env (Str s) = s"
| "template env (Arr xs) =
     join (js '','')
       (map (\<lambda>x. if x = Undefined \<or> x = Null then [] else template env x) xs)"
| "template env (Obj kvs) = js ''[object Object]''"

text \<open>\<open>xs.join(sep)\<close> on an array of values: each is printed, \<open>undefined\<close> and \<open>null\<close> as nothing.\<close>

definition array_join :: "env \<Rightarrow> jsstring \<Rightarrow> jsval list \<Rightarrow> jsstring" where
  "array_join env sep xs =
     join sep (map (\<lambda>x. if x = Undefined \<or> x = Null then [] else template env x) xs)"

text \<open>The elements of an array value (\<open>forEach\<close>, \<open>map\<close> and \<open>join\<close> run over them).\<close>

fun elements :: "jsval \<Rightarrow> jsval list" where
  "elements (Arr xs) = xs"
| "elements v = []"

text \<open>\<open>xs.length > 0 ? xs[0] : {}\<close>\<close>

fun first_or_empty :: "jsval list \<Rightarrow> jsval" where
  "first_or_empty [] = Obj []"
| "first_or_empty (x # xs) = x"

text \<open>\<open>JSON.parse(s)\<close> as a computation that may throw.\<close>

definition JSON_parse_io :: "env \<Rightarrow> jsstring \<Rightarrow> jsval io" where
  "JSON_parse_io env s = (case JSON_parse env s of Inl e \<Rightarrow> io_throw e | Inr v \<Rightarrow> io_return v)"

definition handleW3Login :: handler where
  "handleW3Login env args =
     (let loginEmail = W3_LOGIN_EMAIL env in
      io_then
        (logger INFO
           [LogStr (js ''Initiating login for '' @ template env loginEmail
                    @ js ''. User MUST check email to authorize.'')])
        (io_bind (runW3Command env (js ''login '' @ template env loginEmail))
           (\<lambda>(stdout, stderr).
              let output = js ''Login process initiated for '' @ template env loginEmail
                           @ js ''. Output from w3:\<newline>Stdout: '' @ stdout
                           @ js ''\<newline>Stderr: '' @ stderr
                           @ js ''\<newline>Please check your email to complete the login.''
              in io_return (text_response env (Obj [(js ''message'', Str output)])))))"

text \<open>
  The loop of \<open>handleW3SpaceLs\<close> over the lines of the trimmed stdout, with the array
  \<open>spaces\<close> it pushes to. A record is the object \<open>{ did, name, isCurrent }\<close>.
\<close>

fun space_ls_loop :: "jsstring list \<Rightarrow> jsval list \<Rightarrow> jsval list" where
  "space_ls_loop [] spaces = spaces"
| "space_ls_loop (line # lines) spaces =
     (let trimmedLine = trim line in
      if trimmedLine = [] then space_ls_loop lines spaces
      else
        let isCurrent = startsWith trimmedLine (js ''*'');
            trimmedLine = (if isCurrent then trim (drop 1 trimmedLine) else trimmedLine)
        in (case split_ws trimmedLine of
              [] \<Rightarrow> space_ls_loop lines spaces
            | did # rest \<Rightarrow>
                let name = (if rest \<noteq> [] then Str (join (js '' '') rest) else Undefined)
                in if did \<noteq> [] \<and> startsWith did (js ''did:key:'')
                   then space_ls_loop lines
                          (spaces @ [Obj [(js ''did'', Str did), (js ''name'', name),
                                          (js ''isCurrent'', Bool isCurrent)]])
                   else space_ls_loop lines spaces))"

definition handleW3SpaceLs :: handler where
  "handleW3SpaceLs env args =
     (case safeParse W3SpaceLsArgsSchema args of
        None \<Rightarrow>
          io_throw (new_Error (js ''Invalid arguments for w3_space_ls: ''
                               @ ZodError_message env W3SpaceLsArgsSchema args))
      | Some parsed \<Rightarrow>
          io_bind (runW3Command env (js ''space ls''))
            (\<lambda>(stdout, stderr).
               let spaces = space_ls_loop (split_nl (trim stdout)) []
               in io_return (text_response env (Obj [(js ''spaces'', Arr spaces)]))))"

definition handleW3SpaceUse :: handler where
  "handleW3SpaceUse env args =
     (case safeParse W3SpaceUseArgsSchema args of
        None \<Rightarrow>
          io_throw (new_Error (js ''Invalid arguments for w3_space_use: ''
                               @ ZodError_message env W3SpaceUseArgsSchema args))
      | Some parsed \<Rightarrow>
          let spaceDid = get_prop parsed (js ''spaceDid'') in
          io_bind (runW3Command env (js ''space use '' @ template env spaceDid))
            (\<lambda>(stdout, stderr).
               io_return
                 (text_response env
                    (Obj [(js ''message'',
                           Str (js ''Successfully set current space to ''
                                @ template env spaceDid)),
                          (js ''output'', Str (trim stdout))]))))"

definition handleW3SpaceCreate :: handler where
  "handleW3SpaceCreate env args =
     io_throw
       (new_Error
          (backtick @ js ''w3 space create'' @ backtick
           @ js '' cannot be run via MCP due to interactive recovery key prompts. Please run this command manually in your terminal.''))"

definition handleW3Up :: handler where
  "handleW3Up env args =
     (case safeParse W3UpArgsSchema args of
        None \<Rightarrow>
          io_throw (new_Error (js ''Invalid arguments for w3_up: ''
                               @ ZodError_message env W3UpArgsSchema args))
      | Some parsed \<Rightarrow>
          let paths = get_prop parsed (js ''paths'');
              noWrap = get_prop parsed (js ''noWrap'');
              hidden = get_prop parsed (js ''hidden'');
              quotedPaths =
                join (js '' '') (map (\<lambda>p. dquote @ template env p @ dquote) (elements paths));
              command = js ''up '' @ quotedPaths;
              command = (if truthy noWrap then command @ js '' --no-wrap'' else command);
              command = (if truthy hidden then command @ js '' --hidden'' else command)
          in io_bind (runW3Command env command)
               (\<lambda>(stdout, stderr).
                  io_return
                    (text_response env
                       (Obj [(js ''message'', Str (js ''Upload successful.'')),
                             (js ''output'', Str (trim stdout))]))))"

definition handleW3Ls :: handler where
  "handleW3Ls env args =
     (case safeParse W3LsArgsSchema args of
        None \<Rightarrow>
          io_throw (new_Error (js ''Invalid arguments for w3_ls: ''
                               @ ZodError_message env W3LsArgsSchema args))
      | Some parsed \<Rightarrow>
          let json = get_prop parsed (js ''json'');
              command = (if truthy json then js ''ls --json'' else js ''ls'')
          in io_bind (runW3Command env command)
               (\<lambda>(stdout, stderr).
                  if truthy json
                  then io_bind (parseNdJson env stdout)
                         (\<lambda>uploads.
                            io_return (text_response env (Obj [(js ''uploads'', Arr uploads)])))
                  else io_return
                         (text_response env (Obj [(js ''output'', Str (trim stdout))]))))"

definition handleW3Rm :: handler where
  "handleW3Rm env args =
     (case safeParse W3RmArgsSchema args of
        None \<Rightarrow>
          io_throw (new_Error (js ''Invalid arguments for w3_rm: ''
                               @ ZodError_message env W3RmArgsSchema args))
      | Some parsed \<Rightarrow>
          let cid = get_prop parsed (js ''cid'');
              removeShards = get_prop parsed (js ''removeShards'');
              command = js ''rm '' @ template env cid;
              command = (if truthy removeShards then command @ js '' --shards'' else command)
          in io_bind (runW3Command env command)
               (\<lambda>(stdout, stderr).
                  io_return
                    (text_response env
                       (Obj [(js ''message'',
                              Str (js ''Successfully removed listing for CID ''
                                   @ template env cid @ js ''.'')),
                             (js ''output'', Str (trim stdout))]))))"

definition handleW3Open :: handler where
  "handleW3Open env args =
     (case safeParse W3OpenArgsSchema args of
        None \<Rightarrow>
          io_throw (new_Error (js ''Invalid arguments for w3_open: ''
                               @ ZodError_message env W3OpenArgsSchema args))
      | Some parsed \<Rightarrow>
          let cid = get_prop parsed (js ''cid'');
              path = get_prop parsed (js ''path'');
              baseUrl = js ''https://w3s.link/ipfs/'';
              fullPath = (if truthy path
                          then template env cid @ js ''/'' @ template env path
                          else template env cid);
              url = baseUrl @ fullPath
          in io_return
               (text_response env
                  (Obj [(js ''message'',
                         Str (js ''To view the content, open this URL in your browser: '' @ url)),
                        (js ''url'', Str url)])))"

definition handleW3SpaceInfo :: handler where
  "handleW3SpaceInfo env args =
     (case safeParse W3SpaceInfoArgsSchema args of
        None \<Rightarrow>
          io_throw (new_Error (js ''Invalid arguments for w3_space_info: ''
                               @ ZodError_message env W3SpaceInfoArgsSchema args))
      | Some parsed \<Rightarrow>
          let spaceDid = get_prop parsed (js ''spaceDid'');
              json = get_prop parsed (js ''json'');
              command = js ''space info'';
              command = (if truthy spaceDid
                         then command @ js '' --space '' @ template env spaceDid else command);
              command = (if truthy json then command @ js '' --json'' else command)
          in io_bind (runW3Command env command)
               (\<lambda>(stdout, stderr).
                  if truthy json
                  then io_catch
                         (io_bind (parseNdJson env stdout)
                            (\<lambda>info.
                               io_return
                                 (text_response env
                                    (Obj [(js ''spaceInfo'', first_or_empty info)]))))
                         (\<lambda>e.
                            io_catch
                              (io_bind (JSON_parse_io env stdout)
                                 (\<lambda>singleInfo.
                                    io_return
                                      (text_response env
                                         (Obj [(js ''spaceInfo'', singleInfo)]))))
                              (\<lambda>e2.
                                 io_then
                                   (logger WARN
                                      [LogStr (js ''w3_space_info: Failed to parse output as NDJSON or JSON: ''
                                               @ stdout)])
                                   (io_throw
                                      (new_Error
                                         (js ''Failed to parse JSON output for w3_space_info. Raw output: ''
                                          @ stdout)))))
                  else io_return
                         (text_response env (Obj [(js ''output'', Str (trim stdout))]))))"

definition handleW3SpaceAdd :: handler where
  "handleW3SpaceAdd env args =
     (case safeParse W3SpaceAddArgsSchema args of
        None \<Rightarrow>
          io_throw (new_Error (js ''Invalid arguments for w3_space_add: ''
                               @ ZodError_message env W3SpaceAddArgsSchema args))
      | Some parsed \<Rightarrow>
          let proof = get_prop parsed (js ''proof'') in
          io_bind (runW3Command env (js ''space add '' @ dquote @ template env proof @ dquote))
            (\<lambda>(stdout, stderr).
               io_return
                 (text_response env
                    (Obj [(js ''message'', Str (js ''Space added successfully from proof.'')),
                          (js ''output'', Str (trim stdout))]))))"

definition handleW3DelegationCreate :: handler where
  "handleW3DelegationCreate env args =
     (case safeParse W3DelegationCreateArgsSchema args of
        None \<Rightarrow>
          io_throw (new_Error (js ''Invalid arguments for w3_delegation_create: ''
                               @ ZodError_message env W3DelegationCreateArgsSchema args))
      | Some parsed \<Rightarrow>
          let audienceDid = get_prop parsed (js ''audienceDid'');
              capabilities = get_prop parsed (js ''capabilities'');
              delName = get_prop parsed (js ''name'');
              type = get_prop parsed (js ''type'');
              outFile = get_prop parsed (js ''output'');
              base64 = get_prop parsed (js ''base64'');
              command = js ''delegation create '' @ template env audienceDid;
              command = foldl (\<lambda>command cap. command @ js '' --can '' @ squote @ template env cap @ squote)
                          command (elements capabilities);
              command = (if truthy delName
                         then command @ js '' --name '' @ dquote @ template env delName @ dquote
                         else command);
              command = (if truthy type then command @ js '' --type '' @ template env type else command);
              command = (if truthy outFile
                         then command @ js '' --output '' @ dquote @ template env outFile @ dquote
                         else command);
              command = (if truthy base64 then command @ js '' --base64'' else command)
          in io_bind (runW3Command env (command))
               (\<lambda>(stdout, stderr).
                  let message = (if truthy base64
                                 then js ''Delegation created successfully (base64 output).''
                                 else js ''Delegation created successfully (output file: ''
                                      @ template env outFile @ js '').'')
                  in io_return
                       (text_response env
                          (Obj [(js ''message'', Str message),
                                (js ''output'', Str (trim stdout))]))))"

definition handleW3DelegationLs :: handler where
  "handleW3DelegationLs env args =
     (case safeParse W3DelegationLsArgsSchema args of
        None \<Rightarrow>
          io_throw (new_Error (js ''Invalid arguments for w3_delegation_ls: ''
                               @ ZodError_message env W3DelegationLsArgsSchema args))
      | Some parsed \<Rightarrow>
          let json = get_prop parsed (js ''json'');
              command = (if truthy json then js ''delegation ls --json'' else js ''delegation ls'')
          in io_bind (runW3Command env (command))
               (\<lambda>(stdout, stderr).
                  if truthy json
                  then io_bind (parseNdJson env stdout)
                         (\<lambda>delegations.
                            io_return (text_response env (Obj [(js ''delegations'', Arr delegations)])))
                  else io_return
                         (text_response env (Obj [(js ''output'', Str (trim stdout))]))))"

definition handleW3DelegationRevoke :: handler where
  "handleW3DelegationRevoke env args =
     (case safeParse W3DelegationRevokeArgsSchema args of
        None \<Rightarrow>
          io_throw (new_Error (js ''Invalid arguments for w3_delegation_revoke: ''
                               @ ZodError_message env W3DelegationRevokeArgsSchema args))
      | Some parsed \<Rightarrow>
          let delegationCid = get_prop parsed (js ''delegationCid'');
              proof = get_prop parsed (js ''proof'');
              command = js ''delegation revoke '' @ template env delegationCid;
              command = (if truthy proof
                         then command @ js '' --proof '' @ dquote @ template env proof @ dquote
                         else command)
          in io_bind (runW3Command env (command))
               (\<lambda>(stdout, stderr).
                  io_return
                    (text_response env
                       (Obj [(js ''message'', Str (js ''Successfully revoked delegation ''
                                   @ template env delegationCid @ js ''.'')),
                             (js ''output'', Str (trim stdout))]))))"

definition handleW3ProofAdd :: handler where
  "handleW3ProofAdd env args =
     (case safeParse W3ProofAddArgsSchema args of
        None \<Rightarrow>
          io_throw (new_Error (js ''Invalid arguments for w3_proof_add: ''
                               @ ZodError_message env W3ProofAddArgsSchema args))
      | Some parsed \<Rightarrow>
          let proofPath = get_prop parsed (js ''proofPath'')
          in io_bind (runW3Command env (js ''proof add '' @ dquote @ template env proofPath @ dquote))
               (\<lambda>(stdout, stderr).
                  io_return
                    (text_response env
                       (Obj [(js ''message'', Str (js ''Successfully added proof from ''
                                   @ template env proofPath @ js ''.'')),
                             (js ''output'', Str (trim stdout))]))))"

definition handleW3ProofLs :: handler where
  "handleW3ProofLs env args =
     (case safeParse W3ProofLsArgsSchema args of
        None \<Rightarrow>
          io_throw (new_Error (js ''Invalid arguments for w3_proof_ls: ''
                               @ ZodError_message env W3ProofLsArgsSchema args))
      | Some parsed \<Rightarrow>
          let json = get_prop parsed (js ''json'');
              command = (if truthy json then js ''proof ls --json'' else js ''proof ls'')
          in io_bind (runW3Command env (command))
               (\<lambda>(stdout, stderr).
                  if truthy json
                  then io_bind (parseNdJson env stdout)
                         (\<lambda>proofs.
                            io_return (text_response env (Obj [(js ''proofs'', Arr proofs)])))
                  else io_return
                         (text_response env (Obj [(js ''output'', Str (trim stdout))]))))"

definition handleW3KeyCreate :: handler where
  "handleW3KeyCreate env args =
     (case safeParse W3KeyCreateArgsSchema args of
        None \<Rightarrow>
          io_throw (new_Error (js ''Invalid arguments for w3_key_create: ''
                               @ ZodError_message env W3KeyCreateArgsSchema args))
      | Some parsed \<Rightarrow>
          let json = get_prop parsed (js ''json'');
              command = (if truthy json then js ''key create --json'' else js ''key create'')
          in io_bind (runW3Command env (command))
               (\<lambda>(stdout, stderr).
                  if truthy json
                  then io_catch
                         (io_bind (JSON_parse_io env stdout)
                            (\<lambda>keyData.
                               io_return
                                 (text_response env
                                    (Obj [(js ''message'', Str (js ''New key pair created (JSON format).'')),
                                          (js ''keyData'', keyData)]))))
                         (\<lambda>e.
                            io_then (logger WARN [LogStr (js ''Failed to parse key create JSON, returning raw.'')])
                              (io_return
                                 (text_response env
                                    (Obj [(js ''message'', Str (js ''New key pair created (raw output).'')),
                                          (js ''output'', Str (trim stdout))]))))
                  else io_return
                         (text_response env
                            (Obj [(js ''message'', Str (js ''New key pair created (raw output).'')),
                                  (js ''output'', Str (trim stdout))]))))"

definition handleW3BridgeGenerateTokens :: handler where
  "handleW3BridgeGenerateTokens env args =
     (case safeParse W3BridgeGenerateTokensArgsSchema args of
        None \<Rightarrow>
          io_throw (new_Error (js ''Invalid arguments for w3_bridge_generate_tokens: ''
                               @ ZodError_message env W3BridgeGenerateTokensArgsSchema args))
      | Some parsed \<Rightarrow>
          let capabilities = get_prop parsed (js ''capabilities'');
              expiration = get_prop parsed (js ''expiration'');
              json = get_prop parsed (js ''json'');
              command = js ''bridge generate-tokens'';
              command = foldl (\<lambda>command cap. command @ js '' --can '' @ squote @ template env cap @ squote)
                          command (elements capabilities);
              command = (if expiration \<noteq> Undefined
                         then command @ js '' --expiration '' @ template env expiration
                         else command);
              command = (if truthy json then command @ js '' --json'' else command)
          in io_bind (runW3Command env (command))
               (\<lambda>(stdout, stderr).
                  if truthy json
                  then io_catch
                         (io_bind (JSON_parse_io env stdout)
                            (\<lambda>tokenData.
                               io_return
                                 (text_response env
                                    (Obj [(js ''message'', Str (js ''Bridge tokens generated (JSON format).'')),
                                          (js ''tokenData'', tokenData)]))))
                         (\<lambda>e.
                            io_then (logger WARN [LogStr (js ''Failed to parse bridge tokens JSON, returning raw.'')])
                              (io_return
                                 (text_response env
                                    (Obj [(js ''message'', Str (js ''Bridge tokens generated (raw output).'')),
                                          (js ''output'', Str (trim stdout))]))))
                  else io_return
                         (text_response env
                            (Obj [(js ''message'', Str (js ''Bridge tokens generated (raw output).'')),
                                  (js ''output'', Str (trim stdout))]))))"

text \<open>
  \<open>stdout.match(/Stored\s+(\S+)\s+\((\S+)\)/)\<close>, the two groups of the leftmost match.
  \<open>Stored_at t\<close> tries the pattern at the start of \<open>t\<close>: the word, a run of white
  space, the first group (a maximal run of other characters), a run of white space, an
  opening parenthesis, and the second group, which ends before the last closing
  parenthesis of the run of non-space characters it stands in and is not empty.
\<close>

definition Stored_at :: "jsstring \<Rightarrow> (jsstring \<times> jsstring) option" where
  "Stored_at t =
     (if \<not> startsWith t (js ''Stored'') then None
      else
        let r = drop 6 t;
            r1 = dropWhile is_ws r;
            g1 = takeWhile (\<lambda>c. \<not> is_ws c) r1;
            r2 = dropWhile (\<lambda>c. \<not> is_ws c) r1;
            r3 = dropWhile is_ws r2
        in if length r1 = length r \<or> g1 = [] \<or> length r3 = length r2 then None
           else (case r3 of
                   [] \<Rightarrow> None
                 | c # r4 \<Rightarrow>
                     let run = takeWhile (\<lambda>c. \<not> is_ws c) r4;
                         g2 = rev (drop 1 (dropWhile (\<lambda>c. c \<noteq> 0x29) (rev run)))
                     in if c = 0x28 \<and> 0x29 \<in> set run \<and> g2 \<noteq> [] then Some (g1, g2)
                        else None))"

fun match_Stored :: "jsstring \<Rightarrow> (jsstring \<times> jsstring) option" where
  "match_Stored [] = Stored_at []"
| "match_Stored (c # cs) =
     (case Stored_at (c # cs) of Some groups \<Rightarrow> Some groups | None \<Rightarrow> match_Stored cs)"

definition handleW3CanBlobAdd :: handler where
  "handleW3CanBlobAdd env args =
     (case safeParse W3CanBlobAddArgsSchema args of
        None \<Rightarrow>
          io_throw (new_Error (js ''Invalid arguments for w3_can_blob_add: ''
                               @ ZodError_message env W3CanBlobAddArgsSchema args))
      | Some parsed \<Rightarrow>
          let path = get_prop parsed (js ''path'')
          in io_bind (runW3Command env (js ''can blob add '' @ dquote @ template env path @ dquote))
               (\<lambda>(stdout, stderr).
                  (case match_Stored stdout of
                     None \<Rightarrow>
                       io_then
                         (logger WARN
                            [LogStr (js ''w3_can_blob_add: Could not parse multihash/CID from output: ''
                                     @ stdout)])
                         (io_return
                            (text_response env
                               (Obj [(js ''message'',
                                      Str (js ''Blob added, but output parsing failed.'')),
                                     (js ''output'', Str (trim stdout))])))
                   | Some (multihash, cid) \<Rightarrow>
                       io_return
                         (text_response env
                            (Obj [(js ''message'', Str (js ''Blob added successfully.'')),
                                  (js ''multihash'', Str multihash),
                                  (js ''cid'', Str cid),
                                  (js ''output'', Str (trim stdout))])))))"

definition handleW3CanBlobLs :: handler where
  "handleW3CanBlobLs env args =
     (case safeParse W3CanBlobLsArgsSchema args of
        None \<Rightarrow>
          io_throw (new_Error (js ''Invalid arguments for w3_can_blob_ls: ''
                               @ ZodError_message env W3CanBlobLsArgsSchema args))
      | Some parsed \<Rightarrow>
          let json = get_prop parsed (js ''json'');
              size = get_prop parsed (js ''size'');
              cursor = get_prop parsed (js ''cursor'');
              command = js ''can blob ls'';
              command = (if truthy json then command @ js '' --json'' else command);
              command = (if truthy size then command @ js '' --size '' @ template env size else command);
              command = (if truthy cursor
                         then command @ js '' --cursor '' @ template env cursor else command)
          in io_bind (runW3Command env (command))
               (\<lambda>(stdout, stderr).
                  if truthy json
                  then io_bind (parseNdJson env stdout)
                         (\<lambda>blobs.
                            io_return (text_response env (Obj [(js ''blobs'', Arr blobs)])))
                  else io_return
                         (text_response env (Obj [(js ''output'', Str (trim stdout))]))))"

definition handleW3CanBlobRm :: handler where
  "handleW3CanBlobRm env args =
     (case safeParse W3CanBlobRmArgsSchema args of
        None \<Rightarrow>
          io_throw (new_Error (js ''Invalid arguments for w3_can_blob_rm: ''
                               @ ZodError_message env W3CanBlobRmArgsSchema args))
      | Some parsed \<Rightarrow>
          let multihash = get_prop parsed (js ''multihash'')
          in io_bind (runW3Command env (js ''can blob rm '' @ template env multihash))
               (\<lambda>(stdout, stderr).
                  io_return
                    (text_response env
                       (Obj [(js ''message'', Str (js ''Blob '' @ template env multihash @ js '' removed successfully.'')),
                             (js ''output'', Str (trim stdout))]))))"

definition handleW3CanIndexAdd :: handler where
  "handleW3CanIndexAdd env args =
     (case safeParse W3CanIndexAddArgsSchema args of
        None \<Rightarrow>
          io_throw (new_Error (js ''Invalid arguments for w3_can_index_add: ''
                               @ ZodError_message env W3CanIndexAddArgsSchema args))
      | Some parsed \<Rightarrow>
          let cid = get_prop parsed (js ''cid'')
          in io_bind (runW3Command env (js ''can index add '' @ template env cid))
               (\<lambda>(stdout, stderr).
                  io_return
                    (text_response env
                       (Obj [(js ''message'', Str (js ''Index CID '' @ template env cid @ js '' added successfully.'')),
                             (js ''output'', Str (trim stdout))]))))"

definition handleW3CanUploadAdd :: handler where
  "handleW3CanUploadAdd env args =
     (case safeParse W3CanUploadAddArgsSchema args of
        None \<Rightarrow>
          io_throw (new_Error (js ''Invalid arguments for w3_can_upload_add: ''
                               @ ZodError_message env W3CanUploadAddArgsSchema args))
      | Some parsed \<Rightarrow>
          let rootCid = get_prop parsed (js ''rootCid'');
              shardCids = get_prop parsed (js ''shardCids'');
              shards = array_join env (js '' '') (elements shardCids)
          in io_bind (runW3Command env (js ''can upload add '' @ template env rootCid @ js '' '' @ shards))
               (\<lambda>(stdout, stderr).
                  io_return
                    (text_response env
                       (Obj [(js ''message'', Str (js ''Upload with root '' @ template env rootCid
                                   @ js '' registered successfully.'')),
                             (js ''output'', Str (trim stdout))]))))"

definition handleW3CanUploadLs :: handler where
  "handleW3CanUploadLs env args =
     (case safeParse W3CanUploadLsArgsSchema args of
        None \<Rightarrow>
          io_throw (new_Error (js ''Invalid arguments for w3_can_upload_ls: ''
                               @ ZodError_message env W3CanUploadLsArgsSchema args))
      | Some parsed \<Rightarrow>
          let json = get_prop parsed (js ''json'');
              shards = get_prop parsed (js ''shards'');
              size = get_prop parsed (js ''size'');
              cursor = get_prop parsed (js ''cursor'');
              pre = get_prop parsed (js ''pre'');
              command = js ''can upload ls'';
              command = (if truthy json then command @ js '' --json'' else command);
              command = (if truthy shards then command @ js '' --shards'' else command);
              command = (if truthy size then command @ js '' --size '' @ template env size else command);
              command = (if truthy cursor
                         then command @ js '' --cursor '' @ template env cursor else command);
              command = (if truthy pre then command @ js '' --pre'' else command)
          in io_bind (runW3Command env (command))
               (\<lambda>(stdout, stderr).
                  if truthy json
                  then io_bind (parseNdJson env stdout)
                         (\<lambda>uploads.
                            io_return (text_response env (Obj [(js ''uploads'', Arr uploads)])))
                  else io_return
                         (text_response env (Obj [(js ''output'', Str (trim stdout))]))))"

definition handleW3CanUploadRm :: handler where
  "handleW3CanUploadRm env args =
     (case safeParse W3CanUploadRmArgsSchema args of
        None \<Rightarrow>
          io_throw (new_Error (js ''Invalid arguments for w3_can_upload_rm: ''
                               @ ZodError_message env W3CanUploadRmArgsSchema args))
      | Some parsed \<Rightarrow>
          let rootCid = get_prop parsed (js ''rootCid'')
          in io_bind (runW3Command env (js ''can upload rm '' @ template env rootCid))
               (\<lambda>(stdout, stderr).
                  io_return
                    (text_response env
                       (Obj [(js ''message'', Str (js ''Upload '' @ template env rootCid @ js '' removed successfully.'')),
                             (js ''output'', Str (trim stdout))]))))"

definition handleW3PlanGet :: handler where
  "handleW3PlanGet env args =
     (case safeParse W3PlanGetArgsSchema args of
        None \<Rightarrow>
          io_throw (new_Error (js ''Invalid arguments for w3_plan_get: ''
                               @ ZodError_message env W3PlanGetArgsSchema args))
      | Some parsed \<Rightarrow>
          let accountId = get_prop parsed (js ''accountId'');
              command = js ''plan get'';
              command = (if truthy accountId
                         then command @ js '' --account '' @ template env accountId else command)
          in io_bind (runW3Command env (command))
               (\<lambda>(stdout, stderr).
                  io_catch
                    (io_bind (parseNdJson env stdout)
                       (\<lambda>planData.
                          io_return
                            (text_response env
                               (Obj [(js ''message'', Str (js ''Plan information retrieved.'')),
                                     (js ''planData'', first_or_empty planData)]))))
                    (\<lambda>e.
                       io_then
                         (logger WARN
                            [LogStr (js ''w3_plan_get: Failed to parse output as NDJSON: ''
                                     @ stdout)])
                         (io_throw
                            (new_Error
                               (js ''Failed to parse JSON output for w3_plan_get. Raw output: ''
                                @ stdout))))))"

definition handleW3AccountLs :: handler where
  "handleW3AccountLs env args =
     (case safeParse W3AccountLsArgsSchema args of
        None \<Rightarrow>
          io_throw (new_Error (js ''Invalid arguments for w3_account_ls: ''
                               @ ZodError_message env W3AccountLsArgsSchema args))
      | Some parsed \<Rightarrow>
          io_bind (runW3Command env (js ''account ls''))
               (\<lambda>(stdout, stderr).
                  io_catch
                    (io_bind (parseNdJson env stdout)
                       (\<lambda>accounts.
                          io_return
                            (text_response env
                               (Obj [(js ''message'', Str (js ''Authorized accounts retrieved.'')),
                                     (js ''accounts'', Arr accounts)]))))
                    (\<lambda>e.
                       io_then
                         (logger WARN
                            [LogStr (js ''w3_account_ls: Failed to parse output as NDJSON: ''
                                     @ stdout)])
                         (io_throw
                            (new_Error
                               (js ''Failed to parse JSON output for w3_account_ls. Raw output: ''
                                @ stdout))))))"

definition handleW3SpaceProvision :: handler where
  "handleW3SpaceProvision env args =
     (case safeParse W3SpaceProvisionArgsSchema args of
        None \<Rightarrow>
          io_throw (new_Error (js ''Invalid arguments for w3_space_provision: ''
                               @ ZodError_message env W3SpaceProvisionArgsSchema args))
      | Some parsed \<Rightarrow>
          let customerId = get_prop parsed (js ''customerId'');
              spaceDid = get_prop parsed (js ''spaceDid'')
          in io_bind (runW3Command env (js ''space provision '' @ template env customerId
                                    @ js '' --space '' @ template env spaceDid))
               (\<lambda>(stdout, stderr).
                  io_return
                    (text_response env
                       (Obj [(js ''message'', Str (js ''Space '' @ template env spaceDid @ js '' provisioned for customer ''
                                   @ template env customerId @ js ''.'')),
                             (js ''output'', Str (trim stdout))]))))"

definition handleW3CouponCreate :: handler where
  "handleW3CouponCreate env args =
     (case safeParse W3CouponCreateArgsSchema args of
        None \<Rightarrow>
          io_throw (new_Error (js ''Invalid arguments for w3_coupon_create: ''
                               @ ZodError_message env W3CouponCreateArgsSchema args))
      | Some parsed \<Rightarrow>
          let claimCode = get_prop parsed (js ''claimCode'')
          in io_bind (runW3Command env (js ''coupon create '' @ template env claimCode))
               (\<lambda>(stdout, stderr).
                  io_return
                    (text_response env
                       (Obj [(js ''message'', Str (js ''Attempted to claim coupon.'')),
                             (js ''output'', Str (trim stdout))]))))"

definition handleW3UsageReport :: handler where
  "handleW3UsageReport env args =
     (case safeParse W3UsageReportArgsSchema args of
        None \<Rightarrow>
          io_throw (new_Error (js ''Invalid arguments for w3_usage_report: ''
                               @ ZodError_message env W3UsageReportArgsSchema args))
      | Some parsed \<Rightarrow>
          let spaceDid = get_prop parsed (js ''spaceDid'');
              json = get_prop parsed (js ''json'');
              command = js ''usage report'';
              command = (if truthy spaceDid
                         then command @ js '' --space '' @ template env spaceDid else command);
              command = (if truthy json then command @ js '' --json'' else command)
          in io_bind (runW3Command env (command))
               (\<lambda>(stdout, stderr).
                  if truthy json
                  then io_catch
                         (io_bind (parseNdJson env stdout)
                            (\<lambda>report.
                               io_return
                                 (text_response env
                                    (Obj [(js ''usageReport'', first_or_empty report)]))))
                         (\<lambda>e.
                            io_then
                              (logger WARN
                                 [LogStr (js ''Failed to parse usage report JSON, returning raw.'')])
                              (io_return
                                 (text_response env
                                    (Obj [(js ''output'', Str (trim stdout))]))))
                  else io_return
                         (text_response env (Obj [(js ''output'', Str (trim stdout))]))))"

definition handleW3CanAccessClaim :: handler where
  "handleW3CanAccessClaim env args =
     (case safeParse W3CanAccessClaimArgsSchema args of
        None \<Rightarrow>
          io_throw (new_Error (js ''Invalid arguments for w3_can_access_claim: ''
                               @ ZodError_message env W3CanAccessClaimArgsSchema args))
      | Some parsed \<Rightarrow>
          let proof = get_prop parsed (js ''proof'')
          in io_bind (runW3Command env (js ''can access claim '' @ dquote @ template env proof @ dquote))
               (\<lambda>(stdout, stderr).
                  io_return
                    (text_response env
                       (Obj [(js ''message'', Str (js ''Capability claim attempted.'')),
                             (js ''output'', Str (trim stdout))]))))"

definition handleW3CanStoreAdd :: handler where
  "handleW3CanStoreAdd env args =
     (case safeParse W3CanStoreAddArgsSchema args of
        None \<Rightarrow>
          io_throw (new_Error (js ''Invalid arguments for w3_can_store_add: ''
                               @ ZodError_message env W3CanStoreAddArgsSchema args))
      | Some parsed \<Rightarrow>
          let path = get_prop parsed (js ''path'')
          in io_bind (runW3Command env (js ''can store add '' @ dquote @ template env path @ dquote))
               (\<lambda>(stdout, stderr).
                  io_return
                    (text_response env
                       (Obj [(js ''message'', Str (js ''CAR file stored successfully.'')),
                             (js ''output'', Str (trim stdout))]))))"

definition handleW3CanStoreLs :: handler where
  "handleW3CanStoreLs env args =
     (case safeParse W3CanStoreLsArgsSchema args of
        None \<Rightarrow>
          io_throw (new_Error (js ''Invalid arguments for w3_can_store_ls: ''
                               @ ZodError_message env W3CanStoreLsArgsSchema args))
      | Some parsed \<Rightarrow>
          let json = get_prop parsed (js ''json'');
              size = get_prop parsed (js ''size'');
              cursor = get_prop parsed (js ''cursor'');
              command = js ''can store ls'';
              command = (if truthy json then command @ js '' --json'' else command);
              command = (if truthy size then command @ js '' --size '' @ template env size else command);
              command = (if truthy cursor
                         then command @ js '' --cursor '' @ template env cursor else command)
          in io_bind (runW3Command env (command))
               (\<lambda>(stdout, stderr).
                  if truthy json
                  then io_bind (parseNdJson env stdout)
                         (\<lambda>stores.
                            io_return (text_response env (Obj [(js ''stores'', Arr stores)])))
                  else io_return
                         (text_response env (Obj [(js ''output'', Str (trim stdout))]))))"

definition handleW3CanStoreRm :: handler where
  "handleW3CanStoreRm env args =
     (case safeParse W3CanStoreRmArgsSchema args of
        None \<Rightarrow>
          io_throw (new_Error (js ''Invalid arguments for w3_can_store_rm: ''
                               @ ZodError_message env W3CanStoreRmArgsSchema args))
      | Some parsed \<Rightarrow>
          let carCid = get_prop parsed (js ''carCid'')
          in io_bind (runW3Command env (js ''can store rm '' @ template env carCid))
               (\<lambda>(stdout, stderr).
                  io_return
                    (text_response env
                       (Obj [(js ''message'', Str (js ''Successfully removed CAR shard '' @ template env carCid @ js ''.'')),
                             (js ''output'', Str (trim stdout))]))))"

definition handleW3CanFilecoinInfo :: handler where
  "handleW3CanFilecoinInfo env args =
     (case safeParse W3CanFilecoinInfoArgsSchema args of
        None \<Rightarrow>
          io_throw (new_Error (js ''Invalid arguments for w3_can_filecoin_info: ''
                               @ ZodError_message env W3CanFilecoinInfoArgsSchema args))
      | Some parsed \<Rightarrow>
          let pieceCid = get_prop parsed (js ''pieceCid'')
          in io_bind (runW3Command env (js ''can filecoin info '' @ template env pieceCid))
               (\<lambda>(stdout, stderr).
                  io_catch
                    (io_bind (JSON_parse_io env stdout)
                       (\<lambda>info.
                          io_return (text_response env (Obj [(js ''filecoinInfo'', info)]))))
                    (\<lambda>e.
                       io_return
                         (text_response env (Obj [(js ''output'', Str (trim stdout))])))))"

definition handleW3Reset :: handler where
  "handleW3Reset env args =
     (case safeParse W3ResetArgsSchema args of
        None \<Rightarrow>
          io_throw (new_Error (js ''Invalid arguments for w3_reset: ''
                               @ ZodError_message env W3ResetArgsSchema args))
      | Some parsed \<Rightarrow>
          io_bind (runW3Command env (js ''reset''))
               (\<lambda>(stdout, stderr).
                  io_return
                    (text_response env
                       (Obj [(js ''message'', Str (js ''Agent state reset successfully (proofs/delegations removed).'')),
                             (js ''output'', Str (trim stdout))]))))"

text \<open>The map from tool name to handler, in the order of the source.\<close>

definition toolHandlers :: "(jsstring \<times> handler) list" where
  "toolHandlers =
     [(js ''w3_login'', handleW3Login),
      (js ''w3_space_ls'', handleW3SpaceLs),
      (js ''w3_space_use'', handleW3SpaceUse),
      (js ''w3_space_create'', handleW3SpaceCreate),
      (js ''w3_up'', handleW3Up),
      (js ''w3_ls'', handleW3Ls),
      (js ''w3_rm'', handleW3Rm),
      (js ''w3_open'', handleW3Open),
      (js ''w3_space_info'', handleW3SpaceInfo),
      (js ''w3_space_add'', handleW3SpaceAdd),
      (js ''w3_delegation_create'', handleW3DelegationCreate),
      (js ''w3_delegation_ls'', handleW3DelegationLs),
      (js ''w3_delegation_revoke'', handleW3DelegationRevoke),
      (js ''w3_proof_add'', handleW3ProofAdd),
      (js ''w3_proof_ls'', handleW3ProofLs),
      (js ''w3_key_create'', handleW3KeyCreate),
      (js ''w3_bridge_generate_tokens'', handleW3BridgeGenerateTokens),
      (js ''w3_can_blob_add'', handleW3CanBlobAdd),
      (js ''w3_can_blob_ls'', handleW3CanBlobLs),
      (js ''w3_can_blob_rm'', handleW3CanBlobRm),
      (js ''w3_can_index_add'', handleW3CanIndexAdd),
      (js ''w3_can_upload_add'', handleW3CanUploadAdd),
      (js ''w3_can_upload_ls'', handleW3CanUploadLs),
      (js ''w3_can_upload_rm'', handleW3CanUploadRm),
      (js ''w3_plan_get'', handleW3PlanGet),
      (js ''w3_account_ls'', handleW3AccountLs),
      (js ''w3_space_provision'', handleW3SpaceProvision),
      (js ''w3_coupon_create'', handleW3CouponCreate),
      (js ''w3_usage_report'', handleW3UsageReport),
      (js ''w3_can_access_claim'', handleW3CanAccessClaim),
      (js ''w3_can_store_add'', handleW3CanStoreAdd),
      (js ''w3_can_store_ls'', handleW3CanStoreLs),
      (js ''w3_can_store_rm'', handleW3CanStoreRm),
      (js ''w3_can_filecoin_info'', handleW3CanFilecoinInfo),
      (js ''w3_reset'', handleW3Reset)]"

section \<open>index.ts\<close>

text \<open>
  The name the ListTools handler gives the tool of a schema: an underscore before every
  capital letter (\<open>replace(/([A-Z])/g, "_$1")\<close>), the first \<open>_Args_Schema\<close> removed,
  lower case, and the first character dropped. \<open>toLowerCase\<close> is modelled on ASCII,
  which is what the export names are written in.
\<close>

definition is_capital :: "jschar \<Rightarrow> bool" where
  "is_capital c = (0x41 \<le> c \<and> c \<le> 0x5A)"

definition underscore_capitals :: "jsstring \<Rightarrow> jsstring" where
  "underscore_capitals s = concat (map (\<lambda>c. if is_capital c then [0x5F, c] else [c]) s)"

fun replace_first :: "jsstring \<Rightarrow> jsstring \<Rightarrow> jsstring \<Rightarrow> jsstring" where
  "replace_first [] pat rep = (if pat = [] then rep else [])"
| "replace_first (c # cs) pat rep =
     (if startsWith (c # cs) pat then rep @ drop (length pat) (c # cs)
      else c # replace_first cs pat rep)"

definition toLowerCase :: "jsstring \<Rightarrow> jsstring" where
  "toLowerCase s = map (\<lambda>c. if is_capital c then c + 0x20 else c) s"

definition toolName :: "jsstring \<Rightarrow> jsstring" where
  "toolName schemaName =
     drop 1 (toLowerCase (replace_first (underscore_capitals schemaName) (js ''_Args_Schema'') []))"

text \<open>
  The tools the ListTools handler lists, each with its name and the schema its
  \<open>inputSchema\<close> is converted from. (Every export of \<open>schemas.ts\<close> is a Zod schema, so
  the \<open>instanceof\<close> test holds; the description and the conversion to JSON Schema are
  left out.)
\<close>

definition listTools :: "(jsstring \<times> zod) list" where
  "listTools =
     map (\<lambda>(schemaName, schema). (toolName schemaName, schema))
       (filter (\<lambda>(name, schema). endsWith name (js ''ArgsSchema'')) Schemas)"

text \<open>
  The CallTool handler: look the name up, run the handler, and turn what it throws into
  an error response. The lookup is that of the map's own keys; a name that the object
  would inherit from \<open>Object.prototype\<close> (such as \<open>toString\<close>) is not modelled.
\<close>

definition error_response :: "env \<Rightarrow> jsstring \<Rightarrow> response" where
  "error_response env msg =
     \<lparr>content = [ContentPart (js ''text'') (JSON_stringify env (Obj [(js ''error'', Str msg)]))],
      isError = Some True\<rparr>"

definition callTool :: "env \<Rightarrow> jsstring \<Rightarrow> jsval \<Rightarrow> response io" where
  "callTool env name args =
     io_then (logger INFO [LogStr (js ''Handling CallTool request for: '' @ name)])
       (case map_of toolHandlers name of
          None \<Rightarrow>
            io_then (logger ERROR [LogStr (js ''Unknown tool requested: '' @ name)])
              (io_return (error_response env (js ''Unknown tool: '' @ name)))
        | Some handler \<Rightarrow>
            io_catch (handler env args)
              (\<lambda>error.
                 io_then
                   (logger ERROR
                      [LogStr (js ''Error handling tool '' @ squote @ name @ squote @ js '':''),
                       LogErr error])
                   (io_return (error_response env (message error)))))"

section \<open>Notions the properties are stated with\<close>

text \<open>
  A line is blank when it has white space only; the non-blank lines of a text are those
  of its split at line feeds, in order.
\<close>

definition blank :: "jsstring \<Rightarrow> bool" where
  "blank l = list_all is_ws l"

definition nonblank_lines :: "jsstring \<Rightarrow> jsstring list" where
  "nonblank_lines s = filter (\<lambda>l. \<not> blank l) (split_nl s)"

text \<open>
  The records one line of the listing gives: one pass of the loop of \<open>handleW3SpaceLs\<close>
  over that line alone. The token the loop reads the DID from is the first piece of the
  line, split at white space, after the line is trimmed and a leading star is removed.
\<close>

definition line_records :: "jsstring \<Rightarrow> jsval list" where
  "line_records line = space_ls_loop [line] []"

definition unstarred :: "jsstring \<Rightarrow> jsstring" where
  "unstarred line =
     (if startsWith (trim line) (js ''*'') then trim (drop 1 (trim line)) else trim line)"

definition did_token :: "jsstring \<Rightarrow> jsstring" where
  "did_token line = (case split_ws (unstarred line) of [] \<Rightarrow> [] | did # rest \<Rightarrow> did)"

text \<open>A record of the listing whose \<open>did\<close> is a string that starts with \<open>did:key:\<close>.\<close>

definition has_did_key :: "jsval \<Rightarrow> bool" where
  "has_did_key r =
     (case get_prop r (js ''did'') of Str did \<Rightarrow> startsWith did (js ''did:key:'') | _ \<Rightarrow> False)"

text \<open>
  The error a handler throws for arguments its schema rejects: the validation error that
  names the tool, or, for \<open>w3_space_create\<close>, the fixed refusal of that handler.
\<close>

definition rejection :: "env \<Rightarrow> jsstring \<Rightarrow> zod \<Rightarrow> jsval \<Rightarrow> jserror" where
  "rejection env name schema args =
     (if name = js ''w3_space_create''
      then new_Error
             (backtick @ js ''w3 space create'' @ backtick
              @ js '' cannot be run via MCP due to interactive recovery key prompts. Please run this command manually in your terminal.'')
      else new_Error (js ''Invalid arguments for '' @ name @ js '': ''
                      @ ZodError_message env schema args))"

text \<open>
  A host for closed examples. Its \<open>JSON.parse\<close> knows the three literal names of JSON,
  with JSON's own white space (tab, line feed, carriage return, space) around them, and
  rejects every other text with a \<open>SyntaxError\<close>; on the texts of the examples below it
  answers as \<open>JSON.parse\<close> does. Its shell runs every command successfully with no
  output.
\<close>

definition json_ws :: "jschar \<Rightarrow> bool" where
  "json_ws c = (c = 0x09 \<or> c = 0x0A \<or> c = 0x0D \<or> c = 0x20)"

definition accepts :: "jsstring \<Rightarrow> jsstring \<Rightarrow> bool" where
  "accepts lit text =
     (let t = dropWhile json_ws text
      in startsWith t lit \<and> list_all json_ws (drop (length lit) t))"

definition JSON_parse_literal :: "jsstring \<Rightarrow> jserror + jsval" where
  "JSON_parse_literal text =
     (if accepts (js ''true'') text then Inr (Bool True)
      else if accepts (js ''false'') text then Inr (Bool False)
      else if accepts (js ''null'') text then Inr Null
      else Inl \<lparr>is_SyntaxError = True, message = js ''Unexpected token in JSON'',
                stderr_prop = None, inputLine = None\<rparr>)"

definition host0 :: env where
  "host0 =
     \<lparr>exec = (\<lambda>cmd. Inr ([], [])),
      JSON_parse = JSON_parse_literal,
      JSON_stringify = (\<lambda>v. []),
      Number_toString = (\<lambda>n. []),
      ZodError_message = (\<lambda>z v. js ''Required''),
      W3_LOGIN_EMAIL = Str (js ''user@example.com'')\<rparr>"

text \<open>The example host with a shell whose every command prints \<open>out\<close> and succeeds.\<close>

definition host_with_stdout :: "jsstring \<Rightarrow> env" where
  "host_with_stdout out = host0\<lparr>exec := \<lambda>cmd. Inr (out, [])\<rparr>"

text \<open>A line of three hundred letters \<open>x\<close>.\<close>

definition long_line :: jsstring where
  "long_line = replicate 300 0x78"

section \<open>Lines, trimming and splitting\<close>

lemma dropWhile_Nil_all: "dropWhile P xs = [] \<longleftrightarrow> list_all P xs"
  by (induction xs) auto

lemma trim_eq_Nil: "trim l = [] \<longleftrightarrow> blank l"
proof -
  have "dropWhile is_ws (rev (dropWhile is_ws l)) = [] \<longleftrightarrow> dropWhile is_ws l = []"
  proof
    assume a: "dropWhile is_ws (rev (dropWhile is_ws l)) = []"
    show "dropWhile is_ws l = []"
    proof (rule ccontr)
      assume n: "dropWhile is_ws l \<noteq> []"
      then have "\<not> is_ws (hd (dropWhile is_ws l))" by (rule hd_dropWhile)
      moreover have "hd (dropWhile is_ws l) \<in> set (rev (dropWhile is_ws l))" using n by simp
      ultimately show False using a by (metis dropWhile_eq_Nil_conv)
    qed
  next
    assume b: "dropWhile is_ws l = []"
    show "dropWhile is_ws (rev (dropWhile is_ws l)) = []" unfolding b by simp
  qed
  moreover have "trim l = [] \<longleftrightarrow> dropWhile is_ws (rev (dropWhile is_ws l)) = []"
    by (simp only: trim_def trimEnd_def trimStart_def rev_is_Nil_conv)
  ultimately show ?thesis
    by (simp only: blank_def dropWhile_Nil_all)
qed

lemma is_ws_nl: "is_ws 0x0A"
  by (simp add: is_ws_def)

lemma split_nl_nonempty: "split_nl s \<noteq> []"
  by (cases s) (auto split: list.splits)

lemma ndjson_lines_alt: "ndjson_lines s = nonblank_lines (trim s)"
  by (simp add: ndjson_lines_def nonblank_lines_def trim_eq_Nil)

lemma nonblank_trimStart:
  "nonblank_lines (trimStart s) =
     (case nonblank_lines s of [] \<Rightarrow> [] | l # ls \<Rightarrow> trimStart l # ls)"
proof (induction s)
  case Nil
  then show ?case by (simp add: nonblank_lines_def trimStart_def blank_def)
next
  case (Cons c cs)
  obtain l ls where sp: "split_nl cs = l # ls"
    using split_nl_nonempty by (cases "split_nl cs") auto
  show ?case
  proof (cases "is_ws c")
    case False
    then have "c \<noteq> 0x0A" using is_ws_nl by auto
    with False show ?thesis
      by (simp add: nonblank_lines_def trimStart_def blank_def sp)
  next
    case True
    show ?thesis
    proof (cases "c = 0x0A")
      case True
      then show ?thesis using Cons \<open>is_ws c\<close>
        by (simp add: nonblank_lines_def trimStart_def blank_def)
    next
      case False
      then show ?thesis using Cons \<open>is_ws c\<close>
        by (simp add: nonblank_lines_def trimStart_def blank_def sp)
    qed
  qed
qed

lemma split_nl_snoc_nl: "split_nl (s @ [0x0A]) = split_nl s @ [[]]"
  by (induction s) (auto simp: split_nl_nonempty split: list.splits)

lemma split_nl_snoc: "c \<noteq> 0x0A \<Longrightarrow>
  split_nl (s @ [c]) = butlast (split_nl s) @ [last (split_nl s) @ [c]]"
proof (induction s)
  case Nil
  then show ?case by simp
next
  case (Cons a s)
  obtain l ls where sp: "split_nl s = l # ls"
    using split_nl_nonempty by (cases "split_nl s") auto
  show ?case using Cons sp by (cases ls) auto
qed

lemma split_nl_rev: "split_nl (rev s) = rev (map rev (split_nl s))"
proof (induction s)
  case Nil
  then show ?case by simp
next
  case (Cons c s)
  obtain l ls where sp: "split_nl s = l # ls"
    using split_nl_nonempty by (cases "split_nl s") auto
  show ?case
  proof (cases "c = 0x0A")
    case True
    then show ?thesis using Cons by (simp add: split_nl_snoc_nl)
  next
    case False
    then show ?thesis using Cons sp by (simp add: split_nl_snoc)
  qed
qed

lemma blank_rev: "blank (rev l) = blank l"
  by (simp add: blank_def list_all_iff)

lemma nonblank_lines_rev: "nonblank_lines (rev s) = rev (map rev (nonblank_lines s))"
proof -
  have "filter (\<lambda>l. \<not> blank l) (map rev xs) = map rev (filter (\<lambda>l. \<not> blank l) xs)" for xs
    by (induction xs) (simp_all add: blank_rev)
  then show ?thesis
    by (simp add: nonblank_lines_def split_nl_rev rev_filter [symmetric])
qed

lemma nonblank_trimEnd:
  "nonblank_lines (trimEnd s) =
     (if nonblank_lines s = [] then []
      else butlast (nonblank_lines s) @ [trimEnd (last (nonblank_lines s))])"
proof -
  have "nonblank_lines (trimEnd s) = rev (map rev (nonblank_lines (trimStart (rev s))))"
    by (simp add: trimEnd_def trimStart_def nonblank_lines_rev)
  also have "\<dots> = rev (map rev (case rev (map rev (nonblank_lines s)) of [] \<Rightarrow> []
                                    | l # ls \<Rightarrow> trimStart l # ls))"
    by (simp add: nonblank_trimStart nonblank_lines_rev)
  finally show ?thesis
    by (cases "nonblank_lines s" rule: rev_cases)
       (simp_all add: trimEnd_def trimStart_def rev_map)
qed


section \<open>parseNdJson\<close>

lemma parse_line_ok: "JSON_parse env l = Inr v \<Longrightarrow> parse_line env i l = ([], Inr v)"
  by (simp add: parse_line_def io_catch_def io_return_def)

lemma parse_line_fail:
  "JSON_parse env l = Inl e \<Longrightarrow>
   parse_line env i l =
     ([Log ERROR
         [LogStr (js ''Failed to parse NDJSON line #'' @ string_of_nat (i + 1)
                  @ js ''. Error: '' @ message e @ js ''. Line content: '' @ dquote
                  @ take 100 l @ (if length l > 100 then js ''...'' else []) @ dquote)]],
      Inl (if is_SyntaxError e \<and> str_includes (message e) (js ''Unexpected token'')
           then e\<lparr>inputLine := Some l\<rparr> else e))"
  by (simp add: parse_line_def io_catch_def io_throw_def io_then_def io_bind_def logger_def
      Let_def del: string_of_nat.simps)

lemma map_io_from_ok:
  "list_all (\<lambda>l. \<not> isl (JSON_parse env l)) ls \<Longrightarrow>
   map_io_from i (parse_line env) ls = ([], Inr (map (\<lambda>l. projr (JSON_parse env l)) ls))"
proof (induction ls arbitrary: i)
  case Nil
  then show ?case by (simp add: io_return_def)
next
  case (Cons l ls)
  from Cons.prems obtain v where v: "JSON_parse env l = Inr v"
    by (cases "JSON_parse env l") auto
  from Cons.prems have "list_all (\<lambda>l. \<not> isl (JSON_parse env l)) ls" by simp
  then have "map_io_from (Suc i) (parse_line env) ls
             = ([], Inr (map (\<lambda>l. projr (JSON_parse env l)) ls))"
    by (rule Cons.IH)
  then show ?case
    by (simp add: parse_line_ok [OF v] v io_bind_def io_return_def)
qed

lemma map_io_from_fail:
  "list_all (\<lambda>l. \<not> isl (JSON_parse env l)) pre \<Longrightarrow> JSON_parse env l = Inl e \<Longrightarrow>
   map_io_from i (parse_line env) (pre @ l # post) =
     (fst (parse_line env (i + length pre) l), Inl (projl (snd (parse_line env (i + length pre) l))))"
proof (induction pre arbitrary: i)
  case Nil
  then show ?case
    by (simp add: parse_line_fail io_bind_def del: string_of_nat.simps)
next
  case (Cons p pre)
  from Cons.prems obtain v where v: "JSON_parse env p = Inr v"
    by (cases "JSON_parse env p") auto
  from Cons.prems have "list_all (\<lambda>l. \<not> isl (JSON_parse env l)) pre" by simp
  then have ih: "map_io_from (Suc i) (parse_line env) (pre @ l # post)
     = (fst (parse_line env (Suc i + length pre) l),
        Inl (projl (snd (parse_line env (Suc i + length pre) l))))"
    using Cons.prems(2) by (rule Cons.IH)
  show ?case
    by (simp add: parse_line_ok [OF v] ih io_bind_def del: string_of_nat.simps)
qed

lemma parseNdJson_ok:
  "list_all (\<lambda>l. \<not> isl (JSON_parse env l)) (ndjson_lines s) \<Longrightarrow>
   parseNdJson env s = ([], Inr (map (\<lambda>l. projr (JSON_parse env l)) (ndjson_lines s)))"
  by (simp add: parseNdJson_def map_io_from_ok io_catch_def)

section \<open>The example host\<close>

lemma startsWith_iff: "startsWith s p \<longleftrightarrow> (\<exists>r. s = p @ r)"
  by (induction s p rule: startsWith.induct) auto

lemma json_ws_is_ws: "json_ws c \<Longrightarrow> is_ws c"
  by (auto simp: json_ws_def is_ws_def)

lemma dropWhile_pad:
  assumes "list_all P a" "m \<noteq> []" "\<not> P (hd m)"
  shows "dropWhile P (a @ m @ b) = m @ b"
proof -
  have "dropWhile P (a @ m @ b) = dropWhile P (m @ b)"
    using assms(1) by (simp add: dropWhile_append2 list_all_iff)
  also have "\<dots> = m @ b" using assms(2,3) by (cases m) auto
  finally show ?thesis .
qed

lemma accepts_iff:
  assumes "lit \<noteq> []" "\<not> json_ws (hd lit)"
  shows "accepts lit inp \<longleftrightarrow>
         (\<exists>a b. inp = a @ lit @ b \<and> list_all json_ws a \<and> list_all json_ws b)"
proof
  assume "accepts lit inp"
  then obtain r where r: "dropWhile json_ws inp = lit @ r" and b: "list_all json_ws r"
    by (auto simp: accepts_def Let_def startsWith_iff)
  have "inp = takeWhile json_ws inp @ lit @ r"
    using r takeWhile_dropWhile_id [of json_ws inp] by simp
  moreover have "list_all json_ws (takeWhile json_ws inp)"
    by (auto simp: list_all_iff dest: set_takeWhileD)
  ultimately show "\<exists>a b. inp = a @ lit @ b \<and> list_all json_ws a \<and> list_all json_ws b"
    using b by blast
next
  assume "\<exists>a b. inp = a @ lit @ b \<and> list_all json_ws a \<and> list_all json_ws b"
  then obtain a b where t: "inp = a @ lit @ b" and a: "list_all json_ws a"
    and b: "list_all json_ws b" by blast
  have "dropWhile json_ws inp = lit @ b"
    unfolding t using a assms by (rule dropWhile_pad)
  then show "accepts lit inp"
    using b by (simp add: accepts_def startsWith_iff)
qed

lemma accepts_trim:
  assumes "lit \<noteq> []" "\<not> is_ws (hd lit)" "\<not> is_ws (last lit)" "accepts lit inp"
  shows "accepts lit (trimStart inp) \<and> accepts lit (trimEnd inp)"
proof -
  have nj: "\<not> json_ws (hd lit)" using assms(2) json_ws_is_ws by blast
  have e: "list_all json_ws []" by simp
  from assms(4) obtain a b where t: "inp = a @ lit @ b" and a: "list_all json_ws a"
    and b: "list_all json_ws b"
    using accepts_iff [OF assms(1) nj] by blast
  have a': "list_all is_ws a" and b': "list_all is_ws (rev b)"
    using a b json_ws_is_ws by (auto simp: list_all_iff)
  have "trimStart inp = lit @ b"
    unfolding t trimStart_def using a' assms(1,2) by (rule dropWhile_pad)
  then have "trimStart inp = [] @ lit @ b" by simp
  then have 1: "accepts lit (trimStart inp)"
    using accepts_iff [OF assms(1) nj] b e by blast
  have "dropWhile is_ws (rev b @ rev lit @ rev a) = rev lit @ rev a"
    using b' assms(1,3) by (intro dropWhile_pad) (simp_all add: hd_rev)
  then have "trimEnd inp = a @ lit @ []"
    by (simp add: trimEnd_def t)
  then have 2: "accepts lit (trimEnd inp)"
    using accepts_iff [OF assms(1) nj] a e by blast
  show ?thesis using 1 2 by simp
qed

lemma accepts_hd: "lit \<noteq> [] \<Longrightarrow> accepts lit inp \<Longrightarrow> hd (dropWhile json_ws inp) = hd lit"
  by (auto simp: accepts_def Let_def startsWith_iff)

lemma lit_facts:
  "js ''true'' \<noteq> []" "js ''false'' \<noteq> []" "js ''null'' \<noteq> []"
  "\<not> is_ws (hd (js ''true''))" "\<not> is_ws (hd (js ''false''))" "\<not> is_ws (hd (js ''null''))"
  "\<not> is_ws (last (js ''true''))" "\<not> is_ws (last (js ''false''))" "\<not> is_ws (last (js ''null''))"
  "hd (js ''true'') \<noteq> hd (js ''false'')" "hd (js ''true'') \<noteq> hd (js ''null'')"
  "hd (js ''false'') \<noteq> hd (js ''null'')"
  by (simp_all add: js_def is_ws_def)

lemma accepts_excl:
  "accepts (js ''false'') x \<Longrightarrow> \<not> accepts (js ''true'') x"
  "accepts (js ''null'') x \<Longrightarrow> \<not> accepts (js ''true'') x"
  "accepts (js ''null'') x \<Longrightarrow> \<not> accepts (js ''false'') x"
  using accepts_hd [of "js ''true''" x] accepts_hd [of "js ''false''" x]
    accepts_hd [of "js ''null''" x] lit_facts by metis+

lemma JSON_parse_literal_trim:
  assumes "JSON_parse_literal l = Inr v"
  shows "JSON_parse_literal (trimStart l) = Inr v \<and> JSON_parse_literal (trimEnd l) = Inr v"
proof -
  consider (t) "accepts (js ''true'') l" "v = Bool True"
    | (f) "accepts (js ''false'') l" "v = Bool False"
    | (n) "accepts (js ''null'') l" "v = Null"
    using assms by (auto simp: JSON_parse_literal_def split: if_splits)
  then show ?thesis
  proof cases
    case t
    then show ?thesis
      using accepts_trim [of "js ''true''" l] lit_facts by (simp add: JSON_parse_literal_def)
  next
    case f
    then show ?thesis
      using accepts_trim [of "js ''false''" l] lit_facts accepts_excl
      by (simp add: JSON_parse_literal_def)
  next
    case n
    then show ?thesis
      using accepts_trim [of "js ''null''" l] lit_facts accepts_excl
      by (simp add: JSON_parse_literal_def)
  qed
qed

section \<open>The claims about parseNdJson\<close>

lemma host0_sel: "JSON_parse host0 = JSON_parse_literal"
  by (simp add: host0_def)

lemma map_parse_trimmed:
  assumes stable: "\<And>l v. jp l = Inr v \<Longrightarrow> jp (trimStart l) = Inr v \<and> jp (trimEnd l) = Inr v"
    and wf: "list_all (\<lambda>l. \<not> isl (jp l)) (nonblank_lines s)"
  shows "map jp (ndjson_lines s) = map jp (nonblank_lines s)"
proof -
  have keep: "jp (trimStart l) = jp l \<and> jp (trimEnd l) = jp l" if "\<not> isl (jp l)" for l
    using that stable [of l] by (cases "jp l") auto
  have 1: "map jp (nonblank_lines (trimStart s)) = map jp (nonblank_lines s)"
    using wf keep by (cases "nonblank_lines s") (simp_all add: nonblank_trimStart)
  have wf1: "list_all (\<lambda>l. \<not> isl (jp l)) (nonblank_lines (trimStart s))"
  proof -
    have "list_all (\<lambda>r. \<not> isl r) (map jp (nonblank_lines s))"
      using wf by (simp add: list_all_iff)
    then have "list_all (\<lambda>r. \<not> isl r) (map jp (nonblank_lines (trimStart s)))"
      by (simp only: 1)
    then show ?thesis by (simp add: list_all_iff)
  qed
  have 2: "map jp (nonblank_lines (trimEnd (trimStart s))) = map jp (nonblank_lines (trimStart s))"
    using wf1 keep
    by (cases "nonblank_lines (trimStart s)" rule: rev_cases) (simp_all add: nonblank_trimEnd)
  show ?thesis
    using 1 2 by (simp add: ndjson_lines_alt trim_def)
qed

text \<open>
  C2. When every non-blank line of the input is well-formed JSON (\<open>JSON.parse\<close> returns
  a value for it), \<open>parseNdJson\<close> returns the parsed records of the non-blank lines, one
  per line and in the order of the input; blank lines give no record, and nothing is
  thrown or logged. The lines are those of the input itself, although the code splits
  the trimmed input: the first hypothesis is the fact about \<open>JSON.parse\<close> that makes the
  two agree (white space stripped from either end of a text it accepts leaves a text it
  accepts, with the same value; a JSON value neither begins nor ends with white space).
\<close>

theorem parseNdJson_wellformed:
  assumes stable: "\<And>l v. JSON_parse env l = Inr v \<Longrightarrow>
             JSON_parse env (trimStart l) = Inr v \<and> JSON_parse env (trimEnd l) = Inr v"
    and wf: "list_all (\<lambda>l. \<not> isl (JSON_parse env l)) (nonblank_lines s)"
  shows "parseNdJson env s =
           ([], Inr (map (\<lambda>l. projr (JSON_parse env l)) (nonblank_lines s)))"
proof -
  have m: "map (JSON_parse env) (ndjson_lines s) = map (JSON_parse env) (nonblank_lines s)"
    using stable wf by (rule map_parse_trimmed)
  have "list_all (\<lambda>r. \<not> isl r) (map (JSON_parse env) (nonblank_lines s))"
    using wf by (simp add: list_all_iff)
  then have "list_all (\<lambda>r. \<not> isl r) (map (JSON_parse env) (ndjson_lines s))"
    by (simp only: m)
  then have ok: "list_all (\<lambda>l. \<not> isl (JSON_parse env l)) (ndjson_lines s)"
    by (simp add: list_all_iff)
  have "map (\<lambda>l. projr (JSON_parse env l)) (ndjson_lines s)
        = map projr (map (JSON_parse env) (ndjson_lines s))" by simp
  also have "\<dots> = map projr (map (JSON_parse env) (nonblank_lines s))" by (simp only: m)
  also have "\<dots> = map (\<lambda>l. projr (JSON_parse env l)) (nonblank_lines s)" by simp
  finally show ?thesis using parseNdJson_ok [OF ok] by simp
qed


theorem parseNdJson_wellformed_witness:
  "nonblank_lines (js ''true\<newline>\<newline> false \<newline>null\<newline>'') = [js ''true'', js '' false '', js ''null'']
   \<and> parseNdJson host0 (js ''true\<newline>\<newline> false \<newline>null\<newline>'') = ([], Inr [Bool True, Bool False, Null])"
proof -
  have nb: "nonblank_lines (js ''true\<newline>\<newline> false \<newline>null\<newline>'') = [js ''true'', js '' false '', js ''null'']"
    by (simp add: nonblank_lines_def blank_def js_def is_ws_def)
  have p: "JSON_parse host0 (js ''true'') = Inr (Bool True)"
     "JSON_parse host0 (js '' false '') = Inr (Bool False)"
     "JSON_parse host0 (js ''null'') = Inr Null"
    by (simp_all add: host0_sel JSON_parse_literal_def accepts_def js_def json_ws_def)
  have wf: "list_all (\<lambda>l. \<not> isl (JSON_parse host0 l)) (nonblank_lines (js ''true\<newline>\<newline> false \<newline>null\<newline>''))"
    unfolding nb by (simp add: p)
  have st: "\<And>l v. JSON_parse host0 l = Inr v \<Longrightarrow>
             JSON_parse host0 (trimStart l) = Inr v \<and> JSON_parse host0 (trimEnd l) = Inr v"
    unfolding host0_sel by (rule JSON_parse_literal_trim)
  show ?thesis
    using parseNdJson_wellformed [of host0, OF st wf] nb by (simp add: p)
qed

text \<open>
  C9. For every input that is empty or has only white space (blank lines included),
  \<open>parseNdJson\<close> returns the empty list: it throws nothing, and it logs nothing.
\<close>

theorem parseNdJson_blank_input:
  assumes "list_all is_ws s"
  shows "parseNdJson env s = ([], Inr [])"
proof -
  have t: "trim s = []" using assms by (simp add: trim_eq_Nil blank_def)
  have "trim [] = []" by (simp add: trim_def trimEnd_def trimStart_def)
  then have "ndjson_lines s = []"
    unfolding ndjson_lines_def t by simp
  then show ?thesis by (simp add: parseNdJson_ok)
qed

theorem parseNdJson_blank_input_witness:
  "list_all is_ws (js '' \<newline>  \<newline>'') \<and> parseNdJson host0 (js '' \<newline>  \<newline>'') = ([], Inr [])"
proof -
  have h: "list_all is_ws (js '' \<newline>  \<newline>'')"
    by (simp add: js_def is_ws_def)
  show ?thesis using h parseNdJson_blank_input [OF h, of host0] by simp
qed

lemma trim_id:
  assumes "s \<noteq> []" "\<not> is_ws (hd s)" "\<not> is_ws (last s)"
  shows "trim s = s"
proof -
  have 1: "trimStart s = s" using assms(1,2) by (cases s) (simp_all add: trimStart_def)
  have "dropWhile is_ws (rev s) = rev s"
    using assms(1,3) by (cases "rev s") (auto simp: hd_rev [symmetric])
  then show ?thesis by (simp add: trim_def 1 trimEnd_def)
qed

lemma split_nl_one: "0x0A \<notin> set s \<Longrightarrow> split_nl s = [s]"
  by (induction s) auto

lemma ndjson_lines_one:
  assumes "s \<noteq> []" "\<not> is_ws (hd s)" "\<not> is_ws (last s)" "0x0A \<notin> set s"
  shows "ndjson_lines s = [s]"
  using assms by (simp add: ndjson_lines_def trim_id split_nl_one)

lemma startsWith_length: "startsWith a p \<Longrightarrow> length p \<le> length a"
  by (induction a p rule: startsWith.induct) auto

lemma str_includes_length: "str_includes a p \<Longrightarrow> length p \<le> length a"
  by (induction a) (auto dest: startsWith_length)

lemma not_includes_short: "length a < length p \<Longrightarrow> \<not> str_includes a p"
  using str_includes_length [of a p] by auto

lemma long_line_Cons: "long_line = 0x78 # replicate 299 0x78"
proof -
  have "(300::nat) = Suc 299" by simp
  then show ?thesis unfolding long_line_def by (simp only: replicate_Suc)
qed

lemma long_line_facts:
  "long_line \<noteq> []" "\<not> is_ws (hd long_line)" "\<not> is_ws (last long_line)"
  "0x0A \<notin> set long_line" "length long_line = 300"
  "take 100 long_line = replicate 100 0x78" "take 200 long_line = replicate 200 0x78"
  by (simp_all add: long_line_def is_ws_def)

lemma long_line_rejected:
  "JSON_parse host0 long_line =
     Inl \<lparr>is_SyntaxError = True, message = js ''Unexpected token in JSON'',
          stderr_prop = None, inputLine = None\<rparr>"
  by (simp add: host0_sel JSON_parse_literal_def accepts_def long_line_Cons json_ws_def js_def)

lemma parseNdJson_first_rejected:
  assumes "ndjson_lines s = pre @ l # post"
    and "list_all (\<lambda>x. \<not> isl (JSON_parse env x)) pre"
    and "JSON_parse env l = Inl e"
  shows "parseNdJson env s =
     ([Log ERROR
         [LogStr (js ''Failed to parse NDJSON line #'' @ string_of_nat (length pre + 1)
                  @ js ''. Error: '' @ message e @ js ''. Line content: '' @ dquote
                  @ take 100 l @ (if length l > 100 then js ''...'' else []) @ dquote)],
       Log ERROR
         [LogStr (js ''Failed to parse NDJSON output. Error: '' @ message e
                  @ js ''. Full NDJSON (start): '' @ take 200 s @ js ''...'')]],
      Inl (new_Error (js ''Failed to parse NDJSON output. Error: '' @ message e
                      @ js ''. Please check w3cli output format.'')))"
proof -
  have "map_io_from 0 (parse_line env) (ndjson_lines s)
        = (fst (parse_line env (length pre) l), Inl (projl (snd (parse_line env (length pre) l))))"
    using map_io_from_fail [OF assms(2) assms(3), of 0 post] assms(1) by simp
  then show ?thesis
    by (simp add: parseNdJson_def parse_line_fail [OF assms(3)] io_catch_def io_then_def
        io_bind_def io_throw_def logger_def del: string_of_nat.simps)
qed

text \<open>
  C3, as amended. When \<open>JSON.parse\<close> rejects one of the lines \<open>parseNdJson\<close> keeps (the
  lines of the trimmed input that are not blank), \<open>parseNdJson\<close> throws and returns no
  list. With \<open>l\<close> the first rejected line and \<open>e\<close> the error \<open>JSON.parse\<close> threw for it,
  the thrown error's message carries the message of \<open>e\<close> and not the line; the line is
  reported in the log, which gets two entries: one with the line's number and its first
  100 code units (followed by three dots when the line is longer), and one with the
  first 200 code units of the whole input.
\<close>

theorem parseNdJson_malformed:
  assumes "ndjson_lines s = pre @ l # post"
    and "list_all (\<lambda>x. \<not> isl (JSON_parse env x)) pre"
    and "JSON_parse env l = Inl e"
  shows "parseNdJson env s =
     ([Log ERROR
         [LogStr (js ''Failed to parse NDJSON line #'' @ string_of_nat (length pre + 1)
                  @ js ''. Error: '' @ message e @ js ''. Line content: '' @ dquote
                  @ take 100 l @ (if length l > 100 then js ''...'' else []) @ dquote)],
       Log ERROR
         [LogStr (js ''Failed to parse NDJSON output. Error: '' @ message e
                  @ js ''. Full NDJSON (start): '' @ take 200 s @ js ''...'')]],
      Inl (new_Error (js ''Failed to parse NDJSON output. Error: '' @ message e
                      @ js ''. Please check w3cli output format.'')))"
  using assms by (rule parseNdJson_first_rejected)

theorem parseNdJson_malformed_witness:
  "ndjson_lines (js ''true\<newline>nope\<newline>null'') = [js ''true''] @ js ''nope'' # [js ''null'']
   \<and> parseNdJson host0 (js ''true\<newline>nope\<newline>null'') =
     ([Log ERROR
         [LogStr (js ''Failed to parse NDJSON line #2. Error: Unexpected token in JSON. Line content: ''
                  @ dquote @ js ''nope'' @ dquote)],
       Log ERROR
         [LogStr (js ''Failed to parse NDJSON output. Error: Unexpected token in JSON. Full NDJSON (start): true\<newline>nope\<newline>null...'')]],
      Inl (new_Error (js ''Failed to parse NDJSON output. Error: Unexpected token in JSON. Please check w3cli output format.'')))"
proof -
  have l: "ndjson_lines (js ''true\<newline>nope\<newline>null'') = [js ''true''] @ js ''nope'' # [js ''null'']"
    by (simp add: ndjson_lines_def trim_def trimStart_def trimEnd_def js_def is_ws_def)
  have p: "list_all (\<lambda>x. \<not> isl (JSON_parse host0 x)) [js ''true'']"
    by (simp add: host0_sel JSON_parse_literal_def accepts_def js_def json_ws_def)
  have f: "JSON_parse host0 (js ''nope'') =
     Inl \<lparr>is_SyntaxError = True, message = js ''Unexpected token in JSON'',
          stderr_prop = None, inputLine = None\<rparr>"
    by (simp add: host0_sel JSON_parse_literal_def accepts_def js_def json_ws_def)
  show ?thesis
    using parseNdJson_malformed [OF l p f] l by (simp add: js_def)
qed

text \<open>
  C3 as stated fails in two ways. A byte order mark before \<open>true\<close> makes a non-blank
  line that is not well-formed JSON, yet \<open>trim\<close> removes the mark and the batch is
  accepted. And for a rejected line of 300 code units, neither the thrown message nor
  either log entry contains the line.
\<close>

theorem parseNdJson_malformed_counterexample:
  "nonblank_lines (0xFEFF # js ''true'') = [0xFEFF # js ''true'']
   \<and> isl (JSON_parse host0 (0xFEFF # js ''true''))
   \<and> parseNdJson host0 (0xFEFF # js ''true'') = ([], Inr [Bool True])
   \<and> parseNdJson host0 long_line =
       ([Log ERROR
           [LogStr (js ''Failed to parse NDJSON line #1. Error: Unexpected token in JSON. Line content: ''
                    @ dquote @ replicate 100 0x78 @ js ''...'' @ dquote)],
         Log ERROR
           [LogStr (js ''Failed to parse NDJSON output. Error: Unexpected token in JSON. Full NDJSON (start): ''
                    @ replicate 200 0x78 @ js ''...'')]],
        Inl (new_Error (js ''Failed to parse NDJSON output. Error: Unexpected token in JSON. Please check w3cli output format.'')))
   \<and> \<not> str_includes
         (js ''Failed to parse NDJSON line #1. Error: Unexpected token in JSON. Line content: ''
          @ dquote @ replicate 100 0x78 @ js ''...'' @ dquote) long_line
   \<and> \<not> str_includes
         (js ''Failed to parse NDJSON output. Error: Unexpected token in JSON. Full NDJSON (start): ''
          @ replicate 200 0x78 @ js ''...'') long_line
   \<and> \<not> str_includes
         (js ''Failed to parse NDJSON output. Error: Unexpected token in JSON. Please check w3cli output format.'')
         long_line"
proof -
  have 1: "nonblank_lines (0xFEFF # js ''true'') = [0xFEFF # js ''true'']"
    by (simp add: nonblank_lines_def blank_def js_def is_ws_def)
  have 2: "isl (JSON_parse host0 (0xFEFF # js ''true''))"
    by (simp add: host0_sel JSON_parse_literal_def accepts_def js_def json_ws_def)
  have "ndjson_lines (0xFEFF # js ''true'') = [js ''true'']"
    by (simp add: ndjson_lines_def trim_def trimStart_def trimEnd_def js_def is_ws_def)
  moreover have "JSON_parse host0 (js ''true'') = Inr (Bool True)"
    by (simp add: host0_sel JSON_parse_literal_def accepts_def js_def json_ws_def)
  ultimately have 3: "parseNdJson host0 (0xFEFF # js ''true'') = ([], Inr [Bool True])"
    using parseNdJson_ok [of host0 "0xFEFF # js ''true''"] by simp
  have l: "ndjson_lines long_line = [] @ long_line # []"
    using ndjson_lines_one [OF long_line_facts(1-4)] by simp
  have 4: "parseNdJson host0 long_line =
       ([Log ERROR
           [LogStr (js ''Failed to parse NDJSON line #1. Error: Unexpected token in JSON. Line content: ''
                    @ dquote @ replicate 100 0x78 @ js ''...'' @ dquote)],
         Log ERROR
           [LogStr (js ''Failed to parse NDJSON output. Error: Unexpected token in JSON. Full NDJSON (start): ''
                    @ replicate 200 0x78 @ js ''...'')]],
        Inl (new_Error (js ''Failed to parse NDJSON output. Error: Unexpected token in JSON. Please check w3cli output format.'')))"
    using parseNdJson_first_rejected [OF l _ long_line_rejected]
    by (simp add: long_line_facts js_def)
  have 5: "\<not> str_includes
         (js ''Failed to parse NDJSON line #1. Error: Unexpected token in JSON. Line content: ''
          @ dquote @ replicate 100 0x78 @ js ''...'' @ dquote) long_line"
    by (rule not_includes_short) (simp add: long_line_facts js_def dquote_def)
  have 6: "\<not> str_includes
         (js ''Failed to parse NDJSON output. Error: Unexpected token in JSON. Full NDJSON (start): ''
          @ replicate 200 0x78 @ js ''...'') long_line"
    by (rule not_includes_short) (simp add: long_line_facts js_def)
  have 7: "\<not> str_includes
         (js ''Failed to parse NDJSON output. Error: Unexpected token in JSON. Please check w3cli output format.'')
         long_line"
    by (rule not_includes_short) (simp add: long_line_facts js_def)
  show ?thesis using 1 2 3 4 5 6 7 by blast
qed

section \<open>The claim about runW3Command\<close>

text \<open>
  C7. When the command's process cannot be started or exits with a non-zero code, the
  promisified \<open>exec\<close> rejects with an error; \<open>runW3Command\<close> then throws (it returns no
  pair of outputs) an error whose message wraps the message of the rejection, followed
  by the captured stderr when there is some.
\<close>

theorem runW3Command_failure:
  assumes "exec env (js ''w3 '' @ command) = Inl error"
  shows "snd (runW3Command env command) =
     Inl (new_Error (js ''Failed to execute '' @ squote @ js ''w3 '' @ command @ squote
                     @ js '': '' @ message error
                     @ (case stderr_prop error of
                          Some s \<Rightarrow> if s \<noteq> [] then js ''\<newline>Stderr: '' @ s else []
                        | None \<Rightarrow> [])))"
  using assms
  by (simp add: runW3Command_def Let_def io_then_def io_bind_def io_catch_def io_throw_def
      logger_def execPromise_def split: option.splits)

theorem runW3Command_failure_witness:
  "snd (runW3Command
          (host0\<lparr>exec := \<lambda>cmd. Inl \<lparr>is_SyntaxError = False,
                                     message = js ''Command failed: w3 ls'',
                                     stderr_prop = Some (js ''no space''),
                                     inputLine = None\<rparr>\<rparr>)
          (js ''ls'')) =
     Inl (new_Error (js ''Failed to execute '' @ squote @ js ''w3 ls'' @ squote
                     @ js '': Command failed: w3 ls\<newline>Stderr: no space''))"
  using runW3Command_failure
    [of "host0\<lparr>exec := \<lambda>cmd. Inl \<lparr>is_SyntaxError = False,
                                     message = js ''Command failed: w3 ls'',
                                     stderr_prop = Some (js ''no space''),
                                     inputLine = None\<rparr>\<rparr>"
        "js ''ls''"
        "\<lparr>is_SyntaxError = False, message = js ''Command failed: w3 ls'',
          stderr_prop = Some (js ''no space''), inputLine = None\<rparr>"]
  by (simp add: js_def)

section \<open>The tool names\<close>

lemma unat_of_char: "unat (of_char c :: 16 word) = (of_char c :: nat)"
proof -
  have "(of_char c :: nat) mod 256 < 256" by (rule mod_less_divisor) simp
  then have a: "(of_char c :: nat) < 256" by simp
  have b: "(256::nat) \<le> 2 ^ 16" by simp
  have c: "(of_char c :: nat) < 2 ^ 16" using a b by (rule order_less_le_trans)
  have "(of_char c :: 16 word) = of_nat (of_char c)" by (simp add: of_nat_of_char)
  then have "unat (of_char c :: 16 word) = unat (of_nat (of_char c) :: 16 word)" by simp
  also have "\<dots> = of_char c" using c by (simp add: unat_of_nat take_bit_nat_eq_self del: of_nat_of_char)
  finally show ?thesis .
qed

lemma of_char_word_inj: "(of_char c :: 16 word) = of_char d \<longleftrightarrow> c = d"
proof
  assume "(of_char c :: 16 word) = of_char d"
  then have "unat (of_char c :: 16 word) = unat (of_char d :: 16 word)" by simp
  then have "(of_char c :: nat) = of_char d" by (simp only: unat_of_char)
  then show "c = d" by simp
qed simp

lemma js_inj [simp]: "js a = js b \<longleftrightarrow> a = b"
  unfolding js_def by (rule inj_map_eq_map) (simp add: inj_on_def of_char_word_inj)

lemma js_append: "js (a @ b) = js a @ js b"
  by (simp add: js_def)

lemma toolName_values:
  "toolName (js ''W3LoginArgsSchema'') = js ''w3_login''"
  "toolName (js ''W3SpaceLsArgsSchema'') = js ''w3_space_ls''"
  "toolName (js ''W3SpaceUseArgsSchema'') = js ''w3_space_use''"
  "toolName (js ''W3SpaceCreateArgsSchema'') = js ''w3_space_create''"
  "toolName (js ''W3UpArgsSchema'') = js ''w3_up''"
  "toolName (js ''W3LsArgsSchema'') = js ''w3_ls''"
  "toolName (js ''W3RmArgsSchema'') = js ''w3_rm''"
  "toolName (js ''W3OpenArgsSchema'') = js ''w3_open''"
  "toolName (js ''W3SpaceInfoArgsSchema'') = js ''w3_space_info''"
  "toolName (js ''W3SpaceAddArgsSchema'') = js ''w3_space_add''"
  "toolName (js ''W3DelegationCreateArgsSchema'') = js ''w3_delegation_create''"
  "toolName (js ''W3DelegationLsArgsSchema'') = js ''w3_delegation_ls''"
  "toolName (js ''W3DelegationRevokeArgsSchema'') = js ''w3_delegation_revoke''"
  "toolName (js ''W3ProofAddArgsSchema'') = js ''w3_proof_add''"
  "toolName (js ''W3ProofLsArgsSchema'') = js ''w3_proof_ls''"
  "toolName (js ''W3KeyCreateArgsSchema'') = js ''w3_key_create''"
  "toolName (js ''W3BridgeGenerateTokensArgsSchema'') = js ''w3_bridge_generate_tokens''"
  "toolName (js ''W3CanBlobAddArgsSchema'') = js ''w3_can_blob_add''"
  "toolName (js ''W3CanBlobLsArgsSchema'') = js ''w3_can_blob_ls''"
  "toolName (js ''W3CanBlobRmArgsSchema'') = js ''w3_can_blob_rm''"
  "toolName (js ''W3CanIndexAddArgsSchema'') = js ''w3_can_index_add''"
  "toolName (js ''W3CanUploadAddArgsSchema'') = js ''w3_can_upload_add''"
  "toolName (js ''W3CanUploadLsArgsSchema'') = js ''w3_can_upload_ls''"
  "toolName (js ''W3CanUploadRmArgsSchema'') = js ''w3_can_upload_rm''"
  "toolName (js ''W3PlanGetArgsSchema'') = js ''w3_plan_get''"
  "toolName (js ''W3AccountLsArgsSchema'') = js ''w3_account_ls''"
  "toolName (js ''W3SpaceProvisionArgsSchema'') = js ''w3_space_provision''"
  "toolName (js ''W3CouponCreateArgsSchema'') = js ''w3_coupon_create''"
  "toolName (js ''W3UsageReportArgsSchema'') = js ''w3_usage_report''"
  "toolName (js ''W3CanAccessClaimArgsSchema'') = js ''w3_can_access_claim''"
  "toolName (js ''W3CanStoreAddArgsSchema'') = js ''w3_can_store_add''"
  "toolName (js ''W3CanStoreLsArgsSchema'') = js ''w3_can_store_ls''"
  "toolName (js ''W3CanStoreRmArgsSchema'') = js ''w3_can_store_rm''"
  "toolName (js ''W3CanFilecoinInfoArgsSchema'') = js ''w3_can_filecoin_info''"
  "toolName (js ''W3ResetArgsSchema'') = js ''w3_reset''"
  by (simp_all add: toolName_def underscore_capitals_def toLowerCase_def is_capital_def js_def)

lemma endsWith_ArgsSchema:
  "endsWith (js ''W3LoginArgsSchema'') (js ''ArgsSchema'')"
  "endsWith (js ''W3SpaceLsArgsSchema'') (js ''ArgsSchema'')"
  "endsWith (js ''W3SpaceUseArgsSchema'') (js ''ArgsSchema'')"
  "endsWith (js ''W3SpaceCreateArgsSchema'') (js ''ArgsSchema'')"
  "endsWith (js ''W3UpArgsSchema'') (js ''ArgsSchema'')"
  "endsWith (js ''W3LsArgsSchema'') (js ''ArgsSchema'')"
  "endsWith (js ''W3RmArgsSchema'') (js ''ArgsSchema'')"
  "endsWith (js ''W3OpenArgsSchema'') (js ''ArgsSchema'')"
  "endsWith (js ''W3SpaceInfoArgsSchema'') (js ''ArgsSchema'')"
  "endsWith (js ''W3SpaceAddArgsSchema'') (js ''ArgsSchema'')"
  "endsWith (js ''W3DelegationCreateArgsSchema'') (js ''ArgsSchema'')"
  "endsWith (js ''W3DelegationLsArgsSchema'') (js ''ArgsSchema'')"
  "endsWith (js ''W3DelegationRevokeArgsSchema'') (js ''ArgsSchema'')"
  "endsWith (js ''W3ProofAddArgsSchema'') (js ''ArgsSchema'')"
  "endsWith (js ''W3ProofLsArgsSchema'') (js ''ArgsSchema'')"
  "endsWith (js ''W3KeyCreateArgsSchema'') (js ''ArgsSchema'')"
  "endsWith (js ''W3BridgeGenerateTokensArgsSchema'') (js ''ArgsSchema'')"
  "endsWith (js ''W3CanBlobAddArgsSchema'') (js ''ArgsSchema'')"
  "endsWith (js ''W3CanBlobLsArgsSchema'') (js ''ArgsSchema'')"
  "endsWith (js ''W3CanBlobRmArgsSchema'') (js ''ArgsSchema'')"
  "endsWith (js ''W3CanIndexAddArgsSchema'') (js ''ArgsSchema'')"
  "endsWith (js ''W3CanUploadAddArgsSchema'') (js ''ArgsSchema'')"
  "endsWith (js ''W3CanUploadLsArgsSchema'') (js ''ArgsSchema'')"
  "endsWith (js ''W3CanUploadRmArgsSchema'') (js ''ArgsSchema'')"
  "endsWith (js ''W3PlanGetArgsSchema'') (js ''ArgsSchema'')"
  "endsWith (js ''W3AccountLsArgsSchema'') (js ''ArgsSchema'')"
  "endsWith (js ''W3SpaceProvisionArgsSchema'') (js ''ArgsSchema'')"
  "endsWith (js ''W3CouponCreateArgsSchema'') (js ''ArgsSchema'')"
  "endsWith (js ''W3UsageReportArgsSchema'') (js ''ArgsSchema'')"
  "endsWith (js ''W3CanAccessClaimArgsSchema'') (js ''ArgsSchema'')"
  "endsWith (js ''W3CanStoreAddArgsSchema'') (js ''ArgsSchema'')"
  "endsWith (js ''W3CanStoreLsArgsSchema'') (js ''ArgsSchema'')"
  "endsWith (js ''W3CanStoreRmArgsSchema'') (js ''ArgsSchema'')"
  "endsWith (js ''W3CanFilecoinInfoArgsSchema'') (js ''ArgsSchema'')"
  "endsWith (js ''W3ResetArgsSchema'') (js ''ArgsSchema'')"
  by (simp_all add: endsWith_def js_def)

lemma listTools_table:
  "listTools =
     [(js ''w3_login'', W3LoginArgsSchema),
      (js ''w3_space_ls'', W3SpaceLsArgsSchema),
      (js ''w3_space_use'', W3SpaceUseArgsSchema),
      (js ''w3_space_create'', W3SpaceCreateArgsSchema),
      (js ''w3_up'', W3UpArgsSchema),
      (js ''w3_ls'', W3LsArgsSchema),
      (js ''w3_rm'', W3RmArgsSchema),
      (js ''w3_open'', W3OpenArgsSchema),
      (js ''w3_space_info'', W3SpaceInfoArgsSchema),
      (js ''w3_space_add'', W3SpaceAddArgsSchema),
      (js ''w3_delegation_create'', W3DelegationCreateArgsSchema),
      (js ''w3_delegation_ls'', W3DelegationLsArgsSchema),
      (js ''w3_delegation_revoke'', W3DelegationRevokeArgsSchema),
      (js ''w3_proof_add'', W3ProofAddArgsSchema),
      (js ''w3_proof_ls'', W3ProofLsArgsSchema),
      (js ''w3_key_create'', W3KeyCreateArgsSchema),
      (js ''w3_bridge_generate_tokens'', W3BridgeGenerateTokensArgsSchema),
      (js ''w3_can_blob_add'', W3CanBlobAddArgsSchema),
      (js ''w3_can_blob_ls'', W3CanBlobLsArgsSchema),
      (js ''w3_can_blob_rm'', W3CanBlobRmArgsSchema),
      (js ''w3_can_index_add'', W3CanIndexAddArgsSchema),
      (js ''w3_can_upload_add'', W3CanUploadAddArgsSchema),
      (js ''w3_can_upload_ls'', W3CanUploadLsArgsSchema),
      (js ''w3_can_upload_rm'', W3CanUploadRmArgsSchema),
      (js ''w3_plan_get'', W3PlanGetArgsSchema),
      (js ''w3_account_ls'', W3AccountLsArgsSchema),
      (js ''w3_space_provision'', W3SpaceProvisionArgsSchema),
      (js ''w3_coupon_create'', W3CouponCreateArgsSchema),
      (js ''w3_usage_report'', W3UsageReportArgsSchema),
      (js ''w3_can_access_claim'', W3CanAccessClaimArgsSchema),
      (js ''w3_can_store_add'', W3CanStoreAddArgsSchema),
      (js ''w3_can_store_ls'', W3CanStoreLsArgsSchema),
      (js ''w3_can_store_rm'', W3CanStoreRmArgsSchema),
      (js ''w3_can_filecoin_info'', W3CanFilecoinInfoArgsSchema),
      (js ''w3_reset'', W3ResetArgsSchema)]"
  by (simp add: listTools_def Schemas_def toolName_values endsWith_ArgsSchema)

lemma names_agree: "map fst listTools = map fst toolHandlers"
  by (simp add: listTools_table toolHandlers_def)

lemma names_distinct: "distinct (map fst toolHandlers)"
  by (simp add: toolHandlers_def)

lemma js_append2: "js a @ js b @ r = js (a @ b) @ r"
  by (simp add: js_def)

text \<open>
  C10. The tool names the ListTools handler derives from the names of the exports of
  \<open>schemas.ts\<close> are exactly the keys of \<open>toolHandlers\<close>: every tool that is listed has
  a handler, and every handler's tool is listed.
\<close>

theorem advertised_tools_are_handled:
  "set (map fst listTools) = set (map fst toolHandlers)
   \<and> dom (map_of toolHandlers) = set (map fst listTools)"
  by (simp add: dom_map_of_conv_image_fst listTools_table toolHandlers_def)

section \<open>The commands a handler runs\<close>

lemma execs_return [simp]: "execs (io_return x) = []"
  by (simp add: execs_def io_return_def)

lemma execs_throw [simp]: "execs (io_throw e) = []"
  by (simp add: execs_def io_throw_def)

lemma execs_logger [simp]: "execs (logger l a) = []"
  by (simp add: execs_def logger_def)

lemma execs_bind:
  "execs (io_bind m f) = execs m @ (case snd m of Inl e \<Rightarrow> [] | Inr x \<Rightarrow> execs (f x))"
  by (simp add: execs_def io_bind_def split: sum.splits)

lemma execs_bind_quiet [simp]: "(\<And>x. execs (f x) = []) \<Longrightarrow> execs (io_bind m f) = execs m"
  by (simp add: execs_bind split: sum.splits)

lemma execs_then [simp]: "execs k = [] \<Longrightarrow> execs (io_then m k) = execs m"
  by (simp add: io_then_def)

lemma execs_then_logger [simp]: "execs (io_then (logger l a) k) = execs k"
  by (simp add: io_then_def execs_bind logger_def) (simp add: execs_def)

lemma execs_catch:
  "execs (io_catch m h) = execs m @ (case snd m of Inl e \<Rightarrow> execs (h e) | Inr x \<Rightarrow> [])"
  by (simp add: execs_def io_catch_def split: sum.splits)

lemma execs_catch_quiet [simp]: "(\<And>e. execs (h e) = []) \<Longrightarrow> execs (io_catch m h) = execs m"
  by (simp add: execs_catch split: sum.splits)

lemma execs_runW3Command [simp]: "execs (runW3Command env c) = [Exec (js ''w3 '' @ c)]"
  by (simp add: runW3Command_def Let_def execs_def io_then_def io_bind_def io_catch_def
      io_throw_def io_return_def logger_def execPromise_def split: sum.splits prod.splits)

lemma execs_parse_line [simp]: "execs (parse_line env i l) = []"
  by (simp add: parse_line_def Let_def del: string_of_nat.simps split: sum.splits)

lemma execs_map_io_from [simp]: "execs (map_io_from i (parse_line env) ls) = []"
  by (induction ls arbitrary: i) simp_all

lemma execs_parseNdJson [simp]: "execs (parseNdJson env s) = []"
  by (simp add: parseNdJson_def Let_def)

lemma execs_JSON_parse_io [simp]: "execs (JSON_parse_io env s) = []"
  by (simp add: JSON_parse_io_def split: sum.splits)

lemma handleW3SpaceLs_invalid:
  "safeParse W3SpaceLsArgsSchema args = None \<Longrightarrow>
   handleW3SpaceLs env args =
     ([], Inl (new_Error (js ''Invalid arguments for '' @ js ''w3_space_ls'' @ js '': ''
                          @ ZodError_message env W3SpaceLsArgsSchema args)))"
  by (simp add: handleW3SpaceLs_def io_throw_def js_append2)

lemma handleW3SpaceLs_valid:
  "safeParse W3SpaceLsArgsSchema args = Some parsed \<Longrightarrow> length (execs (handleW3SpaceLs env args)) = 1"
  by (simp add: handleW3SpaceLs_def Let_def split: prod.splits option.splits)

lemma handleW3SpaceUse_invalid:
  "safeParse W3SpaceUseArgsSchema args = None \<Longrightarrow>
   handleW3SpaceUse env args =
     ([], Inl (new_Error (js ''Invalid arguments for '' @ js ''w3_space_use'' @ js '': ''
                          @ ZodError_message env W3SpaceUseArgsSchema args)))"
  by (simp add: handleW3SpaceUse_def io_throw_def js_append2)

lemma handleW3SpaceUse_valid:
  "safeParse W3SpaceUseArgsSchema args = Some parsed \<Longrightarrow> length (execs (handleW3SpaceUse env args)) = 1"
  by (simp add: handleW3SpaceUse_def Let_def split: prod.splits option.splits)

lemma handleW3Up_invalid:
  "safeParse W3UpArgsSchema args = None \<Longrightarrow>
   handleW3Up env args =
     ([], Inl (new_Error (js ''Invalid arguments for '' @ js ''w3_up'' @ js '': ''
                          @ ZodError_message env W3UpArgsSchema args)))"
  by (simp add: handleW3Up_def io_throw_def js_append2)

lemma handleW3Up_valid:
  "safeParse W3UpArgsSchema args = Some parsed \<Longrightarrow> length (execs (handleW3Up env args)) = 1"
  by (simp add: handleW3Up_def Let_def split: prod.splits option.splits)

lemma handleW3Ls_invalid:
  "safeParse W3LsArgsSchema args = None \<Longrightarrow>
   handleW3Ls env args =
     ([], Inl (new_Error (js ''Invalid arguments for '' @ js ''w3_ls'' @ js '': ''
                          @ ZodError_message env W3LsArgsSchema args)))"
  by (simp add: handleW3Ls_def io_throw_def js_append2)

lemma handleW3Ls_valid:
  "safeParse W3LsArgsSchema args = Some parsed \<Longrightarrow> length (execs (handleW3Ls env args)) = 1"
  by (simp add: handleW3Ls_def Let_def split: prod.splits option.splits)

lemma handleW3Rm_invalid:
  "safeParse W3RmArgsSchema args = None \<Longrightarrow>
   handleW3Rm env args =
     ([], Inl (new_Error (js ''Invalid arguments for '' @ js ''w3_rm'' @ js '': ''
                          @ ZodError_message env W3RmArgsSchema args)))"
  by (simp add: handleW3Rm_def io_throw_def js_append2)

lemma handleW3Rm_valid:
  "safeParse W3RmArgsSchema args = Some parsed \<Longrightarrow> length (execs (handleW3Rm env args)) = 1"
  by (simp add: handleW3Rm_def Let_def split: prod.splits option.splits)

lemma handleW3Open_invalid:
  "safeParse W3OpenArgsSchema args = None \<Longrightarrow>
   handleW3Open env args =
     ([], Inl (new_Error (js ''Invalid arguments for '' @ js ''w3_open'' @ js '': ''
                          @ ZodError_message env W3OpenArgsSchema args)))"
  by (simp add: handleW3Open_def io_throw_def js_append2)

lemma handleW3Open_quiet: "execs (handleW3Open env args) = []"
  by (simp add: handleW3Open_def Let_def split: option.splits)

lemma handleW3SpaceInfo_invalid:
  "safeParse W3SpaceInfoArgsSchema args = None \<Longrightarrow>
   handleW3SpaceInfo env args =
     ([], Inl (new_Error (js ''Invalid arguments for '' @ js ''w3_space_info'' @ js '': ''
                          @ ZodError_message env W3SpaceInfoArgsSchema args)))"
  by (simp add: handleW3SpaceInfo_def io_throw_def js_append2)

lemma handleW3SpaceInfo_valid:
  "safeParse W3SpaceInfoArgsSchema args = Some parsed \<Longrightarrow> length (execs (handleW3SpaceInfo env args)) = 1"
  by (simp add: handleW3SpaceInfo_def Let_def split: prod.splits option.splits)

lemma handleW3SpaceAdd_invalid:
  "safeParse W3SpaceAddArgsSchema args = None \<Longrightarrow>
   handleW3SpaceAdd env args =
     ([], Inl (new_Error (js ''Invalid arguments for '' @ js ''w3_space_add'' @ js '': ''
                          @ ZodError_message env W3SpaceAddArgsSchema args)))"
  by (simp add: handleW3SpaceAdd_def io_throw_def js_append2)

lemma handleW3SpaceAdd_valid:
  "safeParse W3SpaceAddArgsSchema args = Some parsed \<Longrightarrow> length (execs (handleW3SpaceAdd env args)) = 1"
  by (simp add: handleW3SpaceAdd_def Let_def split: prod.splits option.splits)

lemma handleW3DelegationCreate_invalid:
  "safeParse W3DelegationCreateArgsSchema args = None \<Longrightarrow>
   handleW3DelegationCreate env args =
     ([], Inl (new_Error (js ''Invalid arguments for '' @ js ''w3_delegation_create'' @ js '': ''
                          @ ZodError_message env W3DelegationCreateArgsSchema args)))"
  by (simp add: handleW3DelegationCreate_def io_throw_def js_append2)

lemma handleW3DelegationCreate_valid:
  "safeParse W3DelegationCreateArgsSchema args = Some parsed \<Longrightarrow> length (execs (handleW3DelegationCreate env args)) = 1"
  by (simp add: handleW3DelegationCreate_def Let_def split: prod.splits option.splits)

lemma handleW3DelegationLs_invalid:
  "safeParse W3DelegationLsArgsSchema args = None \<Longrightarrow>
   handleW3DelegationLs env args =
     ([], Inl (new_Error (js ''Invalid arguments for '' @ js ''w3_delegation_ls'' @ js '': ''
                          @ ZodError_message env W3DelegationLsArgsSchema args)))"
  by (simp add: handleW3DelegationLs_def io_throw_def js_append2)

lemma handleW3DelegationLs_valid:
  "safeParse W3DelegationLsArgsSchema args = Some parsed \<Longrightarrow> length (execs (handleW3DelegationLs env args)) = 1"
  by (simp add: handleW3DelegationLs_def Let_def split: prod.splits option.splits)

lemma handleW3DelegationRevoke_invalid:
  "safeParse W3DelegationRevokeArgsSchema args = None \<Longrightarrow>
   handleW3DelegationRevoke env args =
     ([], Inl (new_Error (js ''Invalid arguments for '' @ js ''w3_delegation_revoke'' @ js '': ''
                          @ ZodError_message env W3DelegationRevokeArgsSchema args)))"
  by (simp add: handleW3DelegationRevoke_def io_throw_def js_append2)

lemma handleW3DelegationRevoke_valid:
  "safeParse W3DelegationRevokeArgsSchema args = Some parsed \<Longrightarrow> length (execs (handleW3DelegationRevoke env args)) = 1"
  by (simp add: handleW3DelegationRevoke_def Let_def split: prod.splits option.splits)

lemma handleW3ProofAdd_invalid:
  "safeParse W3ProofAddArgsSchema args = None \<Longrightarrow>
   handleW3ProofAdd env args =
     ([], Inl (new_Error (js ''Invalid arguments for '' @ js ''w3_proof_add'' @ js '': ''
                          @ ZodError_message env W3ProofAddArgsSchema args)))"
  by (simp add: handleW3ProofAdd_def io_throw_def js_append2)

lemma handleW3ProofAdd_valid:
  "safeParse W3ProofAddArgsSchema args = Some parsed \<Longrightarrow> length (execs (handleW3ProofAdd env args)) = 1"
  by (simp add: handleW3ProofAdd_def Let_def split: prod.splits option.splits)

lemma handleW3ProofLs_invalid:
  "safeParse W3ProofLsArgsSchema args = None \<Longrightarrow>
   handleW3ProofLs env args =
     ([], Inl (new_Error (js ''Invalid arguments for '' @ js ''w3_proof_ls'' @ js '': ''
                          @ ZodError_message env W3ProofLsArgsSchema args)))"
  by (simp add: handleW3ProofLs_def io_throw_def js_append2)

lemma handleW3ProofLs_valid:
  "safeParse W3ProofLsArgsSchema args = Some parsed \<Longrightarrow> length (execs (handleW3ProofLs env args)) = 1"
  by (simp add: handleW3ProofLs_def Let_def split: prod.splits option.splits)

lemma handleW3KeyCreate_invalid:
  "safeParse W3KeyCreateArgsSchema args = None \<Longrightarrow>
   handleW3KeyCreate env args =
     ([], Inl (new_Error (js ''Invalid arguments for '' @ js ''w3_key_create'' @ js '': ''
                          @ ZodError_message env W3KeyCreateArgsSchema args)))"
  by (simp add: handleW3KeyCreate_def io_throw_def js_append2)

lemma handleW3KeyCreate_valid:
  "safeParse W3KeyCreateArgsSchema args = Some parsed \<Longrightarrow> length (execs (handleW3KeyCreate env args)) = 1"
  by (simp add: handleW3KeyCreate_def Let_def split: prod.splits option.splits)

lemma handleW3BridgeGenerateTokens_invalid:
  "safeParse W3BridgeGenerateTokensArgsSchema args = None \<Longrightarrow>
   handleW3BridgeGenerateTokens env args =
     ([], Inl (new_Error (js ''Invalid arguments for '' @ js ''w3_bridge_generate_tokens'' @ js '': ''
                          @ ZodError_message env W3BridgeGenerateTokensArgsSchema args)))"
  by (simp add: handleW3BridgeGenerateTokens_def io_throw_def js_append2)

lemma handleW3BridgeGenerateTokens_valid:
  "safeParse W3BridgeGenerateTokensArgsSchema args = Some parsed \<Longrightarrow> length (execs (handleW3BridgeGenerateTokens env args)) = 1"
  by (simp add: handleW3BridgeGenerateTokens_def Let_def split: prod.splits option.splits)

lemma handleW3CanBlobAdd_invalid:
  "safeParse W3CanBlobAddArgsSchema args = None \<Longrightarrow>
   handleW3CanBlobAdd env args =
     ([], Inl (new_Error (js ''Invalid arguments for '' @ js ''w3_can_blob_add'' @ js '': ''
                          @ ZodError_message env W3CanBlobAddArgsSchema args)))"
  by (simp add: handleW3CanBlobAdd_def io_throw_def js_append2)

lemma handleW3CanBlobAdd_valid:
  "safeParse W3CanBlobAddArgsSchema args = Some parsed \<Longrightarrow> length (execs (handleW3CanBlobAdd env args)) = 1"
  by (simp add: handleW3CanBlobAdd_def Let_def split: prod.splits option.splits)

lemma handleW3CanBlobLs_invalid:
  "safeParse W3CanBlobLsArgsSchema args = None \<Longrightarrow>
   handleW3CanBlobLs env args =
     ([], Inl (new_Error (js ''Invalid arguments for '' @ js ''w3_can_blob_ls'' @ js '': ''
                          @ ZodError_message env W3CanBlobLsArgsSchema args)))"
  by (simp add: handleW3CanBlobLs_def io_throw_def js_append2)

lemma handleW3CanBlobLs_valid:
  "safeParse W3CanBlobLsArgsSchema args = Some parsed \<Longrightarrow> length (execs (handleW3CanBlobLs env args)) = 1"
  by (simp add: handleW3CanBlobLs_def Let_def split: prod.splits option.splits)

lemma handleW3CanBlobRm_invalid:
  "safeParse W3CanBlobRmArgsSchema args = None \<Longrightarrow>
   handleW3CanBlobRm env args =
     ([], Inl (new_Error (js ''Invalid arguments for '' @ js ''w3_can_blob_rm'' @ js '': ''
                          @ ZodError_message env W3CanBlobRmArgsSchema args)))"
  by (simp add: handleW3CanBlobRm_def io_throw_def js_append2)

lemma handleW3CanBlobRm_valid:
  "safeParse W3CanBlobRmArgsSchema args = Some parsed \<Longrightarrow> length (execs (handleW3CanBlobRm env args)) = 1"
  by (simp add: handleW3CanBlobRm_def Let_def split: prod.splits option.splits)

lemma handleW3CanIndexAdd_invalid:
  "safeParse W3CanIndexAddArgsSchema args = None \<Longrightarrow>
   handleW3CanIndexAdd env args =
     ([], Inl (new_Error (js ''Invalid arguments for '' @ js ''w3_can_index_add'' @ js '': ''
                          @ ZodError_message env W3CanIndexAddArgsSchema args)))"
  by (simp add: handleW3CanIndexAdd_def io_throw_def js_append2)

lemma handleW3CanIndexAdd_valid:
  "safeParse W3CanIndexAddArgsSchema args = Some parsed \<Longrightarrow> length (execs (handleW3CanIndexAdd env args)) = 1"
  by (simp add: handleW3CanIndexAdd_def Let_def split: prod.splits option.splits)

lemma handleW3CanUploadAdd_invalid:
  "safeParse W3CanUploadAddArgsSchema args = None \<Longrightarrow>
   handleW3CanUploadAdd env args =
     ([], Inl (new_Error (js ''Invalid arguments for '' @ js ''w3_can_upload_add'' @ js '': ''
                          @ ZodError_message env W3CanUploadAddArgsSchema args)))"
  by (simp add: handleW3CanUploadAdd_def io_throw_def js_append2)

lemma handleW3CanUploadAdd_valid:
  "safeParse W3CanUploadAddArgsSchema args = Some parsed \<Longrightarrow> length (execs (handleW3CanUploadAdd env args)) = 1"
  by (simp add: handleW3CanUploadAdd_def Let_def split: prod.splits option.splits)

lemma handleW3CanUploadLs_invalid:
  "safeParse W3CanUploadLsArgsSchema args = None \<Longrightarrow>
   handleW3CanUploadLs env args =
     ([], Inl (new_Error (js ''Invalid arguments for '' @ js ''w3_can_upload_ls'' @ js '': ''
                          @ ZodError_message env W3CanUploadLsArgsSchema args)))"
  by (simp add: handleW3CanUploadLs_def io_throw_def js_append2)

lemma handleW3CanUploadLs_valid:
  "safeParse W3CanUploadLsArgsSchema args = Some parsed \<Longrightarrow> length (execs (handleW3CanUploadLs env args)) = 1"
  by (simp add: handleW3CanUploadLs_def Let_def split: prod.splits option.splits)

lemma handleW3CanUploadRm_invalid:
  "safeParse W3CanUploadRmArgsSchema args = None \<Longrightarrow>
   handleW3CanUploadRm env args =
     ([], Inl (new_Error (js ''Invalid arguments for '' @ js ''w3_can_upload_rm'' @ js '': ''
                          @ ZodError_message env W3CanUploadRmArgsSchema args)))"
  by (simp add: handleW3CanUploadRm_def io_throw_def js_append2)

lemma handleW3CanUploadRm_valid:
  "safeParse W3CanUploadRmArgsSchema args = Some parsed \<Longrightarrow> length (execs (handleW3CanUploadRm env args)) = 1"
  by (simp add: handleW3CanUploadRm_def Let_def split: prod.splits option.splits)

lemma handleW3PlanGet_invalid:
  "safeParse W3PlanGetArgsSchema args = None \<Longrightarrow>
   handleW3PlanGet env args =
     ([], Inl (new_Error (js ''Invalid arguments for '' @ js ''w3_plan_get'' @ js '': ''
                          @ ZodError_message env W3PlanGetArgsSchema args)))"
  by (simp add: handleW3PlanGet_def io_throw_def js_append2)

lemma handleW3PlanGet_valid:
  "safeParse W3PlanGetArgsSchema args = Some parsed \<Longrightarrow> length (execs (handleW3PlanGet env args)) = 1"
  by (simp add: handleW3PlanGet_def Let_def split: prod.splits option.splits)

lemma handleW3AccountLs_invalid:
  "safeParse W3AccountLsArgsSchema args = None \<Longrightarrow>
   handleW3AccountLs env args =
     ([], Inl (new_Error (js ''Invalid arguments for '' @ js ''w3_account_ls'' @ js '': ''
                          @ ZodError_message env W3AccountLsArgsSchema args)))"
  by (simp add: handleW3AccountLs_def io_throw_def js_append2)

lemma handleW3AccountLs_valid:
  "safeParse W3AccountLsArgsSchema args = Some parsed \<Longrightarrow> length (execs (handleW3AccountLs env args)) = 1"
  by (simp add: handleW3AccountLs_def Let_def split: prod.splits option.splits)

lemma handleW3SpaceProvision_invalid:
  "safeParse W3SpaceProvisionArgsSchema args = None \<Longrightarrow>
   handleW3SpaceProvision env args =
     ([], Inl (new_Error (js ''Invalid arguments for '' @ js ''w3_space_provision'' @ js '': ''
                          @ ZodError_message env W3SpaceProvisionArgsSchema args)))"
  by (simp add: handleW3SpaceProvision_def io_throw_def js_append2)

lemma handleW3SpaceProvision_valid:
  "safeParse W3SpaceProvisionArgsSchema args = Some parsed \<Longrightarrow> length (execs (handleW3SpaceProvision env args)) = 1"
  by (simp add: handleW3SpaceProvision_def Let_def split: prod.splits option.splits)

lemma handleW3CouponCreate_invalid:
  "safeParse W3CouponCreateArgsSchema args = None \<Longrightarrow>
   handleW3CouponCreate env args =
     ([], Inl (new_Error (js ''Invalid arguments for '' @ js ''w3_coupon_create'' @ js '': ''
                          @ ZodError_message env W3CouponCreateArgsSchema args)))"
  by (simp add: handleW3CouponCreate_def io_throw_def js_append2)

lemma handleW3CouponCreate_valid:
  "safeParse W3CouponCreateArgsSchema args = Some parsed \<Longrightarrow> length (execs (handleW3CouponCreate env args)) = 1"
  by (simp add: handleW3CouponCreate_def Let_def split: prod.splits option.splits)

lemma handleW3UsageReport_invalid:
  "safeParse W3UsageReportArgsSchema args = None \<Longrightarrow>
   handleW3UsageReport env args =
     ([], Inl (new_Error (js ''Invalid arguments for '' @ js ''w3_usage_report'' @ js '': ''
                          @ ZodError_message env W3UsageReportArgsSchema args)))"
  by (simp add: handleW3UsageReport_def io_throw_def js_append2)

lemma handleW3UsageReport_valid:
  "safeParse W3UsageReportArgsSchema args = Some parsed \<Longrightarrow> length (execs (handleW3UsageReport env args)) = 1"
  by (simp add: handleW3UsageReport_def Let_def split: prod.splits option.splits)

lemma handleW3CanAccessClaim_invalid:
  "safeParse W3CanAccessClaimArgsSchema args = None \<Longrightarrow>
   handleW3CanAccessClaim env args =
     ([], Inl (new_Error (js ''Invalid arguments for '' @ js ''w3_can_access_claim'' @ js '': ''
                          @ ZodError_message env W3CanAccessClaimArgsSchema args)))"
  by (simp add: handleW3CanAccessClaim_def io_throw_def js_append2)

lemma handleW3CanAccessClaim_valid:
  "safeParse W3CanAccessClaimArgsSchema args = Some parsed \<Longrightarrow> length (execs (handleW3CanAccessClaim env args)) = 1"
  by (simp add: handleW3CanAccessClaim_def Let_def split: prod.splits option.splits)

lemma handleW3CanStoreAdd_invalid:
  "safeParse W3CanStoreAddArgsSchema args = None \<Longrightarrow>
   handleW3CanStoreAdd env args =
     ([], Inl (new_Error (js ''Invalid arguments for '' @ js ''w3_can_store_add'' @ js '': ''
                          @ ZodError_message env W3CanStoreAddArgsSchema args)))"
  by (simp add: handleW3CanStoreAdd_def io_throw_def js_append2)

lemma handleW3CanStoreAdd_valid:
  "safeParse W3CanStoreAddArgsSchema args = Some parsed \<Longrightarrow> length (execs (handleW3CanStoreAdd env args)) = 1"
  by (simp add: handleW3CanStoreAdd_def Let_def split: prod.splits option.splits)

lemma handleW3CanStoreLs_invalid:
  "safeParse W3CanStoreLsArgsSchema args = None \<Longrightarrow>
   handleW3CanStoreLs env args =
     ([], Inl (new_Error (js ''Invalid arguments for '' @ js ''w3_can_store_ls'' @ js '': ''
                          @ ZodError_message env W3CanStoreLsArgsSchema args)))"
  by (simp add: handleW3CanStoreLs_def io_throw_def js_append2)

lemma handleW3CanStoreLs_valid:
  "safeParse W3CanStoreLsArgsSchema args = Some parsed \<Longrightarrow> length (execs (handleW3CanStoreLs env args)) = 1"
  by (simp add: handleW3CanStoreLs_def Let_def split: prod.splits option.splits)

lemma handleW3CanStoreRm_invalid:
  "safeParse W3CanStoreRmArgsSchema args = None \<Longrightarrow>
   handleW3CanStoreRm env args =
     ([], Inl (new_Error (js ''Invalid arguments for '' @ js ''w3_can_store_rm'' @ js '': ''
                          @ ZodError_message env W3CanStoreRmArgsSchema args)))"
  by (simp add: handleW3CanStoreRm_def io_throw_def js_append2)

lemma handleW3CanStoreRm_valid:
  "safeParse W3CanStoreRmArgsSchema args = Some parsed \<Longrightarrow> length (execs (handleW3CanStoreRm env args)) = 1"
  by (simp add: handleW3CanStoreRm_def Let_def split: prod.splits option.splits)

lemma handleW3CanFilecoinInfo_invalid:
  "safeParse W3CanFilecoinInfoArgsSchema args = None \<Longrightarrow>
   handleW3CanFilecoinInfo env args =
     ([], Inl (new_Error (js ''Invalid arguments for '' @ js ''w3_can_filecoin_info'' @ js '': ''
                          @ ZodError_message env W3CanFilecoinInfoArgsSchema args)))"
  by (simp add: handleW3CanFilecoinInfo_def io_throw_def js_append2)

lemma handleW3CanFilecoinInfo_valid:
  "safeParse W3CanFilecoinInfoArgsSchema args = Some parsed \<Longrightarrow> length (execs (handleW3CanFilecoinInfo env args)) = 1"
  by (simp add: handleW3CanFilecoinInfo_def Let_def split: prod.splits option.splits)

lemma handleW3Reset_invalid:
  "safeParse W3ResetArgsSchema args = None \<Longrightarrow>
   handleW3Reset env args =
     ([], Inl (new_Error (js ''Invalid arguments for '' @ js ''w3_reset'' @ js '': ''
                          @ ZodError_message env W3ResetArgsSchema args)))"
  by (simp add: handleW3Reset_def io_throw_def js_append2)

lemma handleW3Reset_valid:
  "safeParse W3ResetArgsSchema args = Some parsed \<Longrightarrow> length (execs (handleW3Reset env args)) = 1"
  by (simp add: handleW3Reset_def Let_def split: prod.splits option.splits)

lemma handleW3Login_runs: "length (execs (handleW3Login env args)) = 1"
  by (simp add: handleW3Login_def Let_def split: prod.splits)

lemma handleW3SpaceCreate_throws:
  "handleW3SpaceCreate env args =
     ([], Inl (new_Error
                 (backtick @ js ''w3 space create'' @ backtick
                  @ js '' cannot be run via MCP due to interactive recovery key prompts. Please run this command manually in your terminal.'')))"
  by (simp add: handleW3SpaceCreate_def io_throw_def)

lemma table_lookup:
  "distinct (map fst xs) \<Longrightarrow> map fst xs = map fst ys \<Longrightarrow> (k, a) \<in> set xs \<Longrightarrow>
   map_of ys k = Some b \<Longrightarrow>
   (k, a, b) \<in> set (zip (map fst xs) (zip (map snd xs) (map snd ys)))"
proof (induction xs arbitrary: ys)
  case Nil
  then show ?case by simp
next
  case (Cons x xs)
  then obtain y ys' where ys: "ys = y # ys'" and f: "fst x = fst y"
    and m: "map fst xs = map fst ys'" by (cases ys) auto
  show ?case
  proof (cases "(k, a) = x")
    case True
    then have "fst y = k" using f by auto
    then have "b = snd y" using Cons.prems(4) ys by (cases y) auto
    then show ?thesis using True ys by auto
  next
    case False
    then have in_xs: "(k, a) \<in> set xs" using Cons.prems(3) by simp
    then have kin: "k \<in> fst ` set xs" by force
    have "fst x \<notin> fst ` set xs" using Cons.prems(1) by simp
    with kin have "k \<noteq> fst x" by blast
    then have "map_of ys' k = Some b" using Cons.prems(4) ys f by (cases y) auto
    then have "(k, a, b) \<in> set (zip (map fst xs) (zip (map snd xs) (map snd ys')))"
      using Cons.IH [of ys'] Cons.prems(1) m in_xs by simp
    then show ?thesis using ys by simp
  qed
qed

lemma execs_nil: "execs ([], r) = []"
  by (simp add: execs_def)

lemma tool_table:
  assumes "(name, h) \<in> set toolHandlers" and "map_of listTools name = Some schema"
  shows "(name, h, schema) \<in> set
      [(js ''w3_login'', handleW3Login, W3LoginArgsSchema),
       (js ''w3_space_ls'', handleW3SpaceLs, W3SpaceLsArgsSchema),
       (js ''w3_space_use'', handleW3SpaceUse, W3SpaceUseArgsSchema),
       (js ''w3_space_create'', handleW3SpaceCreate, W3SpaceCreateArgsSchema),
       (js ''w3_up'', handleW3Up, W3UpArgsSchema),
       (js ''w3_ls'', handleW3Ls, W3LsArgsSchema),
       (js ''w3_rm'', handleW3Rm, W3RmArgsSchema),
       (js ''w3_open'', handleW3Open, W3OpenArgsSchema),
       (js ''w3_space_info'', handleW3SpaceInfo, W3SpaceInfoArgsSchema),
       (js ''w3_space_add'', handleW3SpaceAdd, W3SpaceAddArgsSchema),
       (js ''w3_delegation_create'', handleW3DelegationCreate, W3DelegationCreateArgsSchema),
       (js ''w3_delegation_ls'', handleW3DelegationLs, W3DelegationLsArgsSchema),
       (js ''w3_delegation_revoke'', handleW3DelegationRevoke, W3DelegationRevokeArgsSchema),
       (js ''w3_proof_add'', handleW3ProofAdd, W3ProofAddArgsSchema),
       (js ''w3_proof_ls'', handleW3ProofLs, W3ProofLsArgsSchema),
       (js ''w3_key_create'', handleW3KeyCreate, W3KeyCreateArgsSchema),
       (js ''w3_bridge_generate_tokens'', handleW3BridgeGenerateTokens, W3BridgeGenerateTokensArgsSchema),
       (js ''w3_can_blob_add'', handleW3CanBlobAdd, W3CanBlobAddArgsSchema),
       (js ''w3_can_blob_ls'', handleW3CanBlobLs, W3CanBlobLsArgsSchema),
       (js ''w3_can_blob_rm'', handleW3CanBlobRm, W3CanBlobRmArgsSchema),
       (js ''w3_can_index_add'', handleW3CanIndexAdd, W3CanIndexAddArgsSchema),
       (js ''w3_can_upload_add'', handleW3CanUploadAdd, W3CanUploadAddArgsSchema),
       (js ''w3_can_upload_ls'', handleW3CanUploadLs, W3CanUploadLsArgsSchema),
       (js ''w3_can_upload_rm'', handleW3CanUploadRm, W3CanUploadRmArgsSchema),
       (js ''w3_plan_get'', handleW3PlanGet, W3PlanGetArgsSchema),
       (js ''w3_account_ls'', handleW3AccountLs, W3AccountLsArgsSchema),
       (js ''w3_space_provision'', handleW3SpaceProvision, W3SpaceProvisionArgsSchema),
       (js ''w3_coupon_create'', handleW3CouponCreate, W3CouponCreateArgsSchema),
       (js ''w3_usage_report'', handleW3UsageReport, W3UsageReportArgsSchema),
       (js ''w3_can_access_claim'', handleW3CanAccessClaim, W3CanAccessClaimArgsSchema),
       (js ''w3_can_store_add'', handleW3CanStoreAdd, W3CanStoreAddArgsSchema),
       (js ''w3_can_store_ls'', handleW3CanStoreLs, W3CanStoreLsArgsSchema),
       (js ''w3_can_store_rm'', handleW3CanStoreRm, W3CanStoreRmArgsSchema),
       (js ''w3_can_filecoin_info'', handleW3CanFilecoinInfo, W3CanFilecoinInfoArgsSchema),
       (js ''w3_reset'', handleW3Reset, W3ResetArgsSchema)]"
  using table_lookup [OF names_distinct names_agree [symmetric] assms]
  by (simp add: toolHandlers_def listTools_table)

lemma handler_lookup:
  "(name, h) \<in> set toolHandlers \<Longrightarrow> map_of toolHandlers name = Some h"
  using names_distinct by simp

lemmas invalid_lemmas = handleW3SpaceLs_invalid handleW3SpaceUse_invalid handleW3Up_invalid handleW3Ls_invalid handleW3Rm_invalid handleW3Open_invalid handleW3SpaceInfo_invalid handleW3SpaceAdd_invalid handleW3DelegationCreate_invalid handleW3DelegationLs_invalid handleW3DelegationRevoke_invalid handleW3ProofAdd_invalid handleW3ProofLs_invalid handleW3KeyCreate_invalid handleW3BridgeGenerateTokens_invalid handleW3CanBlobAdd_invalid handleW3CanBlobLs_invalid handleW3CanBlobRm_invalid handleW3CanIndexAdd_invalid handleW3CanUploadAdd_invalid handleW3CanUploadLs_invalid handleW3CanUploadRm_invalid handleW3PlanGet_invalid handleW3AccountLs_invalid handleW3SpaceProvision_invalid handleW3CouponCreate_invalid handleW3UsageReport_invalid handleW3CanAccessClaim_invalid handleW3CanStoreAdd_invalid handleW3CanStoreLs_invalid handleW3CanStoreRm_invalid handleW3CanFilecoinInfo_invalid handleW3Reset_invalid

lemmas valid_lemmas = handleW3SpaceLs_valid handleW3SpaceUse_valid handleW3Up_valid handleW3Ls_valid handleW3Rm_valid handleW3SpaceInfo_valid handleW3SpaceAdd_valid handleW3DelegationCreate_valid handleW3DelegationLs_valid handleW3DelegationRevoke_valid handleW3ProofAdd_valid handleW3ProofLs_valid handleW3KeyCreate_valid handleW3BridgeGenerateTokens_valid handleW3CanBlobAdd_valid handleW3CanBlobLs_valid handleW3CanBlobRm_valid handleW3CanIndexAdd_valid handleW3CanUploadAdd_valid handleW3CanUploadLs_valid handleW3CanUploadRm_valid handleW3PlanGet_valid handleW3AccountLs_valid handleW3SpaceProvision_valid handleW3CouponCreate_valid handleW3UsageReport_valid handleW3CanAccessClaim_valid handleW3CanStoreAdd_valid handleW3CanStoreLs_valid handleW3CanStoreRm_valid handleW3CanFilecoinInfo_valid handleW3Reset_valid

lemma rejected_handler:
  assumes "(name, h) \<in> set toolHandlers"
    and "map_of listTools name = Some schema"
    and "name \<noteq> js ''w3_login''"
    and "safeParse schema args = None"
  shows "h env args = ([], Inl (rejection env name schema args))"
  using tool_table [OF assms(1,2)] assms(3,4)
  by (auto simp: rejection_def invalid_lemmas handleW3SpaceCreate_throws)

lemma callTool_caught:
  assumes "(name, h) \<in> set toolHandlers" and "h env args = (t, Inl e)"
  shows "callTool env name args =
     (Log INFO [LogStr (js ''Handling CallTool request for: '' @ name)] # t
      @ [Log ERROR [LogStr (js ''Error handling tool '' @ squote @ name @ squote @ js '':''),
                    LogErr e]],
      Inr (error_response env (message e)))"
  using assms(2)
  by (simp add: callTool_def handler_lookup [OF assms(1)] io_then_def io_bind_def io_catch_def
      logger_def io_return_def)

lemma runW3Command_ok:
  "exec env (js ''w3 '' @ c) = Inr (out, err) \<Longrightarrow> snd (runW3Command env c) = Inr (out, err)"
  by (simp add: runW3Command_def Let_def io_then_def io_bind_def io_catch_def io_return_def
      logger_def execPromise_def)

lemma host_with_stdout_exec: "exec (host_with_stdout out) cmd = Inr (out, [])"
  by (simp add: host_with_stdout_def)

lemma host0_simps:
  "exec host0 cmd = Inr ([], [])"
  "ZodError_message host0 z v = js ''Required''"
  "W3_LOGIN_EMAIL host0 = Str (js ''user@example.com'')"
  by (simp_all add: host0_def)

text \<open>
  C1, as amended. For every tool but \<open>w3_login\<close>: when the arguments do not satisfy the
  schema the tool is listed with, the handler throws and causes no event at all, so no
  command is run before or after the rejection. The error is the validation error
  \<open>Invalid arguments for <tool>: <message of the failed safeParse>\<close>, except that the
  handler of \<open>w3_space_create\<close> throws its fixed refusal whatever its arguments are. The
  CallTool handler catches the error, logs it and replies with an error response that
  carries the error's message.
\<close>

theorem invalid_arguments_rejected:
  assumes "(name, h) \<in> set toolHandlers"
    and "map_of listTools name = Some schema"
    and "name \<noteq> js ''w3_login''"
    and "safeParse schema args = None"
  shows "h env args = ([], Inl (rejection env name schema args))
     \<and> callTool env name args =
         ([Log INFO [LogStr (js ''Handling CallTool request for: '' @ name)],
           Log ERROR [LogStr (js ''Error handling tool '' @ squote @ name @ squote @ js '':''),
                      LogErr (rejection env name schema args)]],
          Inr (error_response env (message (rejection env name schema args))))"
  using rejected_handler [OF assms] callTool_caught [OF assms(1) rejected_handler [OF assms]]
  by simp

theorem invalid_arguments_rejected_witness:
  "safeParse W3UpArgsSchema (Obj [(js ''paths'', Arr [])]) = None
   \<and> handleW3Up host0 (Obj [(js ''paths'', Arr [])]) =
       ([], Inl (new_Error (js ''Invalid arguments for w3_up: Required'')))
   \<and> callTool host0 (js ''w3_up'') (Obj [(js ''paths'', Arr [])]) =
       ([Log INFO [LogStr (js ''Handling CallTool request for: w3_up'')],
         Log ERROR [LogStr (js ''Error handling tool '' @ squote @ js ''w3_up'' @ squote @ js '':''),
                    LogErr (new_Error (js ''Invalid arguments for w3_up: Required''))]],
        Inr (error_response host0 (js ''Invalid arguments for w3_up: Required'')))"
proof -
  have a: "(js ''w3_up'', handleW3Up) \<in> set toolHandlers"
    by (simp add: toolHandlers_def)
  have b: "map_of listTools (js ''w3_up'') = Some W3UpArgsSchema"
    by (simp add: listTools_table)
  have c: "js ''w3_up'' \<noteq> js ''w3_login''" by simp
  have d: "safeParse W3UpArgsSchema (Obj [(js ''paths'', Arr [])]) = None"
    by (simp add: W3UpArgsSchema_def)
  have r: "rejection host0 (js ''w3_up'') W3UpArgsSchema (Obj [(js ''paths'', Arr [])])
           = new_Error (js ''Invalid arguments for w3_up: Required'')"
    by (simp add: rejection_def host0_simps js_append [symmetric])
  show ?thesis
    using invalid_arguments_rejected [OF a b c d, of host0] d
    by (simp add: r new_Error_def js_append [symmetric])
qed

text \<open>
  C1 as stated fails for two tools. \<open>handleW3Login\<close> never reads its arguments: called
  without an arguments object (\<open>undefined\<close>, which \<open>z.object({})\<close> rejects), it runs
  \<open>w3 login\<close> and returns its message. And the error \<open>handleW3SpaceCreate\<close> throws for
  arguments its schema rejects is its fixed refusal, not a validation error.
\<close>

theorem invalid_arguments_rejected_counterexample:
  "safeParse W3LoginArgsSchema Undefined = None
   \<and> execs (handleW3Login host0 Undefined) = [Exec (js ''w3 login user@example.com'')]
   \<and> snd (handleW3Login host0 Undefined) =
       Inr (text_response host0
              (Obj [(js ''message'',
                     Str (js ''Login process initiated for user@example.com. Output from w3:\<newline>Stdout: \<newline>Stderr: \<newline>Please check your email to complete the login.''))]))
   \<and> safeParse W3SpaceCreateArgsSchema (Obj [(js ''name'', Num (Fin 5))]) = None
   \<and> handleW3SpaceCreate host0 (Obj [(js ''name'', Num (Fin 5))]) =
       ([], Inl (new_Error
                   (backtick @ js ''w3 space create'' @ backtick
                    @ js '' cannot be run via MCP due to interactive recovery key prompts. Please run this command manually in your terminal.'')))"
proof -
  have 1: "safeParse W3LoginArgsSchema Undefined = None"
    by (simp add: W3LoginArgsSchema_def)
  have 2: "execs (handleW3Login host0 Undefined) = [Exec (js ''w3 login user@example.com'')]"
    by (simp add: handleW3Login_def Let_def host0_simps js_append [symmetric] split: prod.splits)
  have "exec host0 (js ''w3 '' @ js ''login '' @ js ''user@example.com'') = Inr ([], [])"
    by (rule host0_simps)
  then have "snd (runW3Command host0 (js ''login '' @ js ''user@example.com'')) = Inr ([], [])"
    by (rule runW3Command_ok)
  then have 3: "snd (handleW3Login host0 Undefined) =
       Inr (text_response host0
              (Obj [(js ''message'',
                     Str (js ''Login process initiated for user@example.com. Output from w3:\<newline>Stdout: \<newline>Stderr: \<newline>Please check your email to complete the login.''))]))"
    by (simp add: handleW3Login_def Let_def host0_simps io_then_def io_bind_def logger_def
        io_return_def js_append [symmetric])
  have 4: "safeParse W3SpaceCreateArgsSchema (Obj [(js ''name'', Num (Fin 5))]) = None"
    by (simp add: W3SpaceCreateArgsSchema_def)
  show ?thesis using 1 2 3 4 handleW3SpaceCreate_throws [of host0] by simp
qed

lemma runW3Command_fails:
  "exec env (js ''w3 '' @ c) = Inl e \<Longrightarrow> isl (snd (runW3Command env c))"
  by (simp add: runW3Command_def Let_def io_then_def io_bind_def io_catch_def io_throw_def
      logger_def execPromise_def)

lemma bind_run_fail:
  assumes "execs (io_bind (runW3Command env cmd) k) = [Exec c]" and "exec env c = Inl e"
  shows "isl (snd (io_bind (runW3Command env cmd) k))"
proof -
  have "c = js ''w3 '' @ cmd" using assms(1) by (simp add: execs_bind)
  then have "isl (snd (runW3Command env cmd))" using assms(2) runW3Command_fails by simp
  then show ?thesis by (cases "snd (runW3Command env cmd)") (simp_all add: io_bind_def)
qed

lemma then_logger_fail:
  "isl (snd k) \<Longrightarrow> isl (snd (io_then (logger l a) k))"
  by (simp add: io_then_def io_bind_def logger_def)

lemma handleW3SpaceLs_awaits:
  assumes "execs (handleW3SpaceLs env args) = [Exec c]" and "exec env c = Inl e"
  shows "isl (snd (handleW3SpaceLs env args))"
proof (cases "safeParse W3SpaceLsArgsSchema args")
  case None
  then show ?thesis using assms(1) by (simp add: handleW3SpaceLs_invalid execs_nil)
next
  case (Some parsed)
  show ?thesis
    using assms unfolding handleW3SpaceLs_def Let_def Some option.case
    by (rule bind_run_fail)
qed

lemma handleW3SpaceUse_awaits:
  assumes "execs (handleW3SpaceUse env args) = [Exec c]" and "exec env c = Inl e"
  shows "isl (snd (handleW3SpaceUse env args))"
proof (cases "safeParse W3SpaceUseArgsSchema args")
  case None
  then show ?thesis using assms(1) by (simp add: handleW3SpaceUse_invalid execs_nil)
next
  case (Some parsed)
  show ?thesis
    using assms unfolding handleW3SpaceUse_def Let_def Some option.case
    by (rule bind_run_fail)
qed

lemma handleW3Up_awaits:
  assumes "execs (handleW3Up env args) = [Exec c]" and "exec env c = Inl e"
  shows "isl (snd (handleW3Up env args))"
proof (cases "safeParse W3UpArgsSchema args")
  case None
  then show ?thesis using assms(1) by (simp add: handleW3Up_invalid execs_nil)
next
  case (Some parsed)
  show ?thesis
    using assms unfolding handleW3Up_def Let_def Some option.case
    by (rule bind_run_fail)
qed

lemma handleW3Ls_awaits:
  assumes "execs (handleW3Ls env args) = [Exec c]" and "exec env c = Inl e"
  shows "isl (snd (handleW3Ls env args))"
proof (cases "safeParse W3LsArgsSchema args")
  case None
  then show ?thesis using assms(1) by (simp add: handleW3Ls_invalid execs_nil)
next
  case (Some parsed)
  show ?thesis
    using assms unfolding handleW3Ls_def Let_def Some option.case
    by (rule bind_run_fail)
qed

lemma handleW3Rm_awaits:
  assumes "execs (handleW3Rm env args) = [Exec c]" and "exec env c = Inl e"
  shows "isl (snd (handleW3Rm env args))"
proof (cases "safeParse W3RmArgsSchema args")
  case None
  then show ?thesis using assms(1) by (simp add: handleW3Rm_invalid execs_nil)
next
  case (Some parsed)
  show ?thesis
    using assms unfolding handleW3Rm_def Let_def Some option.case
    by (rule bind_run_fail)
qed

lemma handleW3SpaceInfo_awaits:
  assumes "execs (handleW3SpaceInfo env args) = [Exec c]" and "exec env c = Inl e"
  shows "isl (snd (handleW3SpaceInfo env args))"
proof (cases "safeParse W3SpaceInfoArgsSchema args")
  case None
  then show ?thesis using assms(1) by (simp add: handleW3SpaceInfo_invalid execs_nil)
next
  case (Some parsed)
  show ?thesis
    using assms unfolding handleW3SpaceInfo_def Let_def Some option.case
    by (rule bind_run_fail)
qed

lemma handleW3SpaceAdd_awaits:
  assumes "execs (handleW3SpaceAdd env args) = [Exec c]" and "exec env c = Inl e"
  shows "isl (snd (handleW3SpaceAdd env args))"
proof (cases "safeParse W3SpaceAddArgsSchema args")
  case None
  then show ?thesis using assms(1) by (simp add: handleW3SpaceAdd_invalid execs_nil)
next
  case (Some parsed)
  show ?thesis
    using assms unfolding handleW3SpaceAdd_def Let_def Some option.case
    by (rule bind_run_fail)
qed

lemma handleW3DelegationCreate_awaits:
  assumes "execs (handleW3DelegationCreate env args) = [Exec c]" and "exec env c = Inl e"
  shows "isl (snd (handleW3DelegationCreate env args))"
proof (cases "safeParse W3DelegationCreateArgsSchema args")
  case None
  then show ?thesis using assms(1) by (simp add: handleW3DelegationCreate_invalid execs_nil)
next
  case (Some parsed)
  show ?thesis
    using assms unfolding handleW3DelegationCreate_def Let_def Some option.case
    by (rule bind_run_fail)
qed

lemma handleW3DelegationLs_awaits:
  assumes "execs (handleW3DelegationLs env args) = [Exec c]" and "exec env c = Inl e"
  shows "isl (snd (handleW3DelegationLs env args))"
proof (cases "safeParse W3DelegationLsArgsSchema args")
  case None
  then show ?thesis using assms(1) by (simp add: handleW3DelegationLs_invalid execs_nil)
next
  case (Some parsed)
  show ?thesis
    using assms unfolding handleW3DelegationLs_def Let_def Some option.case
    by (rule bind_run_fail)
qed

lemma handleW3DelegationRevoke_awaits:
  assumes "execs (handleW3DelegationRevoke env args) = [Exec c]" and "exec env c = Inl e"
  shows "isl (snd (handleW3DelegationRevoke env args))"
proof (cases "safeParse W3DelegationRevokeArgsSchema args")
  case None
  then show ?thesis using assms(1) by (simp add: handleW3DelegationRevoke_invalid execs_nil)
next
  case (Some parsed)
  show ?thesis
    using assms unfolding handleW3DelegationRevoke_def Let_def Some option.case
    by (rule bind_run_fail)
qed

lemma handleW3ProofAdd_awaits:
  assumes "execs (handleW3ProofAdd env args) = [Exec c]" and "exec env c = Inl e"
  shows "isl (snd (handleW3ProofAdd env args))"
proof (cases "safeParse W3ProofAddArgsSchema args")
  case None
  then show ?thesis using assms(1) by (simp add: handleW3ProofAdd_invalid execs_nil)
next
  case (Some parsed)
  show ?thesis
    using assms unfolding handleW3ProofAdd_def Let_def Some option.case
    by (rule bind_run_fail)
qed

lemma handleW3ProofLs_awaits:
  assumes "execs (handleW3ProofLs env args) = [Exec c]" and "exec env c = Inl e"
  shows "isl (snd (handleW3ProofLs env args))"
proof (cases "safeParse W3ProofLsArgsSchema args")
  case None
  then show ?thesis using assms(1) by (simp add: handleW3ProofLs_invalid execs_nil)
next
  case (Some parsed)
  show ?thesis
    using assms unfolding handleW3ProofLs_def Let_def Some option.case
    by (rule bind_run_fail)
qed

lemma handleW3KeyCreate_awaits:
  assumes "execs (handleW3KeyCreate env args) = [Exec c]" and "exec env c = Inl e"
  shows "isl (snd (handleW3KeyCreate env args))"
proof (cases "safeParse W3KeyCreateArgsSchema args")
  case None
  then show ?thesis using assms(1) by (simp add: handleW3KeyCreate_invalid execs_nil)
next
  case (Some parsed)
  show ?thesis
    using assms unfolding handleW3KeyCreate_def Let_def Some option.case
    by (rule bind_run_fail)
qed

lemma handleW3BridgeGenerateTokens_awaits:
  assumes "execs (handleW3BridgeGenerateTokens env args) = [Exec c]" and "exec env c = Inl e"
  shows "isl (snd (handleW3BridgeGenerateTokens env args))"
proof (cases "safeParse W3BridgeGenerateTokensArgsSchema args")
  case None
  then show ?thesis using assms(1) by (simp add: handleW3BridgeGenerateTokens_invalid execs_nil)
next
  case (Some parsed)
  show ?thesis
    using assms unfolding handleW3BridgeGenerateTokens_def Let_def Some option.case
    by (rule bind_run_fail)
qed

lemma handleW3CanBlobAdd_awaits:
  assumes "execs (handleW3CanBlobAdd env args) = [Exec c]" and "exec env c = Inl e"
  shows "isl (snd (handleW3CanBlobAdd env args))"
proof (cases "safeParse W3CanBlobAddArgsSchema args")
  case None
  then show ?thesis using assms(1) by (simp add: handleW3CanBlobAdd_invalid execs_nil)
next
  case (Some parsed)
  show ?thesis
    using assms unfolding handleW3CanBlobAdd_def Let_def Some option.case
    by (rule bind_run_fail)
qed

lemma handleW3CanBlobLs_awaits:
  assumes "execs (handleW3CanBlobLs env args) = [Exec c]" and "exec env c = Inl e"
  shows "isl (snd (handleW3CanBlobLs env args))"
proof (cases "safeParse W3CanBlobLsArgsSchema args")
  case None
  then show ?thesis using assms(1) by (simp add: handleW3CanBlobLs_invalid execs_nil)
next
  case (Some parsed)
  show ?thesis
    using assms unfolding handleW3CanBlobLs_def Let_def Some option.case
    by (rule bind_run_fail)
qed

lemma handleW3CanBlobRm_awaits:
  assumes "execs (handleW3CanBlobRm env args) = [Exec c]" and "exec env c = Inl e"
  shows "isl (snd (handleW3CanBlobRm env args))"
proof (cases "safeParse W3CanBlobRmArgsSchema args")
  case None
  then show ?thesis using assms(1) by (simp add: handleW3CanBlobRm_invalid execs_nil)
next
  case (Some parsed)
  show ?thesis
    using assms unfolding handleW3CanBlobRm_def Let_def Some option.case
    by (rule bind_run_fail)
qed

lemma handleW3CanIndexAdd_awaits:
  assumes "execs (handleW3CanIndexAdd env args) = [Exec c]" and "exec env c = Inl e"
  shows "isl (snd (handleW3CanIndexAdd env args))"
proof (cases "safeParse W3CanIndexAddArgsSchema args")
  case None
  then show ?thesis using assms(1) by (simp add: handleW3CanIndexAdd_invalid execs_nil)
next
  case (Some parsed)
  show ?thesis
    using assms unfolding handleW3CanIndexAdd_def Let_def Some option.case
    by (rule bind_run_fail)
qed

lemma handleW3CanUploadAdd_awaits:
  assumes "execs (handleW3CanUploadAdd env args) = [Exec c]" and "exec env c = Inl e"
  shows "isl (snd (handleW3CanUploadAdd env args))"
proof (cases "safeParse W3CanUploadAddArgsSchema args")
  case None
  then show ?thesis using assms(1) by (simp add: handleW3CanUploadAdd_invalid execs_nil)
next
  case (Some parsed)
  show ?thesis
    using assms unfolding handleW3CanUploadAdd_def Let_def Some option.case
    by (rule bind_run_fail)
qed

lemma handleW3CanUploadLs_awaits:
  assumes "execs (handleW3CanUploadLs env args) = [Exec c]" and "exec env c = Inl e"
  shows "isl (snd (handleW3CanUploadLs env args))"
proof (cases "safeParse W3CanUploadLsArgsSchema args")
  case None
  then show ?thesis using assms(1) by (simp add: handleW3CanUploadLs_invalid execs_nil)
next
  case (Some parsed)
  show ?thesis
    using assms unfolding handleW3CanUploadLs_def Let_def Some option.case
    by (rule bind_run_fail)
qed

lemma handleW3CanUploadRm_awaits:
  assumes "execs (handleW3CanUploadRm env args) = [Exec c]" and "exec env c = Inl e"
  shows "isl (snd (handleW3CanUploadRm env args))"
proof (cases "safeParse W3CanUploadRmArgsSchema args")
  case None
  then show ?thesis using assms(1) by (simp add: handleW3CanUploadRm_invalid execs_nil)
next
  case (Some parsed)
  show ?thesis
    using assms unfolding handleW3CanUploadRm_def Let_def Some option.case
    by (rule bind_run_fail)
qed

lemma handleW3PlanGet_awaits:
  assumes "execs (handleW3PlanGet env args) = [Exec c]" and "exec env c = Inl e"
  shows "isl (snd (handleW3PlanGet env args))"
proof (cases "safeParse W3PlanGetArgsSchema args")
  case None
  then show ?thesis using assms(1) by (simp add: handleW3PlanGet_invalid execs_nil)
next
  case (Some parsed)
  show ?thesis
    using assms unfolding handleW3PlanGet_def Let_def Some option.case
    by (rule bind_run_fail)
qed

lemma handleW3AccountLs_awaits:
  assumes "execs (handleW3AccountLs env args) = [Exec c]" and "exec env c = Inl e"
  shows "isl (snd (handleW3AccountLs env args))"
proof (cases "safeParse W3AccountLsArgsSchema args")
  case None
  then show ?thesis using assms(1) by (simp add: handleW3AccountLs_invalid execs_nil)
next
  case (Some parsed)
  show ?thesis
    using assms unfolding handleW3AccountLs_def Let_def Some option.case
    by (rule bind_run_fail)
qed

lemma handleW3SpaceProvision_awaits:
  assumes "execs (handleW3SpaceProvision env args) = [Exec c]" and "exec env c = Inl e"
  shows "isl (snd (handleW3SpaceProvision env args))"
proof (cases "safeParse W3SpaceProvisionArgsSchema args")
  case None
  then show ?thesis using assms(1) by (simp add: handleW3SpaceProvision_invalid execs_nil)
next
  case (Some parsed)
  show ?thesis
    using assms unfolding handleW3SpaceProvision_def Let_def Some option.case
    by (rule bind_run_fail)
qed

lemma handleW3CouponCreate_awaits:
  assumes "execs (handleW3CouponCreate env args) = [Exec c]" and "exec env c = Inl e"
  shows "isl (snd (handleW3CouponCreate env args))"
proof (cases "safeParse W3CouponCreateArgsSchema args")
  case None
  then show ?thesis using assms(1) by (simp add: handleW3CouponCreate_invalid execs_nil)
next
  case (Some parsed)
  show ?thesis
    using assms unfolding handleW3CouponCreate_def Let_def Some option.case
    by (rule bind_run_fail)
qed

lemma handleW3UsageReport_awaits:
  assumes "execs (handleW3UsageReport env args) = [Exec c]" and "exec env c = Inl e"
  shows "isl (snd (handleW3UsageReport env args))"
proof (cases "safeParse W3UsageReportArgsSchema args")
  case None
  then show ?thesis using assms(1) by (simp add: handleW3UsageReport_invalid execs_nil)
next
  case (Some parsed)
  show ?thesis
    using assms unfolding handleW3UsageReport_def Let_def Some option.case
    by (rule bind_run_fail)
qed

lemma handleW3CanAccessClaim_awaits:
  assumes "execs (handleW3CanAccessClaim env args) = [Exec c]" and "exec env c = Inl e"
  shows "isl (snd (handleW3CanAccessClaim env args))"
proof (cases "safeParse W3CanAccessClaimArgsSchema args")
  case None
  then show ?thesis using assms(1) by (simp add: handleW3CanAccessClaim_invalid execs_nil)
next
  case (Some parsed)
  show ?thesis
    using assms unfolding handleW3CanAccessClaim_def Let_def Some option.case
    by (rule bind_run_fail)
qed

lemma handleW3CanStoreAdd_awaits:
  assumes "execs (handleW3CanStoreAdd env args) = [Exec c]" and "exec env c = Inl e"
  shows "isl (snd (handleW3CanStoreAdd env args))"
proof (cases "safeParse W3CanStoreAddArgsSchema args")
  case None
  then show ?thesis using assms(1) by (simp add: handleW3CanStoreAdd_invalid execs_nil)
next
  case (Some parsed)
  show ?thesis
    using assms unfolding handleW3CanStoreAdd_def Let_def Some option.case
    by (rule bind_run_fail)
qed

lemma handleW3CanStoreLs_awaits:
  assumes "execs (handleW3CanStoreLs env args) = [Exec c]" and "exec env c = Inl e"
  shows "isl (snd (handleW3CanStoreLs env args))"
proof (cases "safeParse W3CanStoreLsArgsSchema args")
  case None
  then show ?thesis using assms(1) by (simp add: handleW3CanStoreLs_invalid execs_nil)
next
  case (Some parsed)
  show ?thesis
    using assms unfolding handleW3CanStoreLs_def Let_def Some option.case
    by (rule bind_run_fail)
qed

lemma handleW3CanStoreRm_awaits:
  assumes "execs (handleW3CanStoreRm env args) = [Exec c]" and "exec env c = Inl e"
  shows "isl (snd (handleW3CanStoreRm env args))"
proof (cases "safeParse W3CanStoreRmArgsSchema args")
  case None
  then show ?thesis using assms(1) by (simp add: handleW3CanStoreRm_invalid execs_nil)
next
  case (Some parsed)
  show ?thesis
    using assms unfolding handleW3CanStoreRm_def Let_def Some option.case
    by (rule bind_run_fail)
qed

lemma handleW3CanFilecoinInfo_awaits:
  assumes "execs (handleW3CanFilecoinInfo env args) = [Exec c]" and "exec env c = Inl e"
  shows "isl (snd (handleW3CanFilecoinInfo env args))"
proof (cases "safeParse W3CanFilecoinInfoArgsSchema args")
  case None
  then show ?thesis using assms(1) by (simp add: handleW3CanFilecoinInfo_invalid execs_nil)
next
  case (Some parsed)
  show ?thesis
    using assms unfolding handleW3CanFilecoinInfo_def Let_def Some option.case
    by (rule bind_run_fail)
qed

lemma handleW3Reset_awaits:
  assumes "execs (handleW3Reset env args) = [Exec c]" and "exec env c = Inl e"
  shows "isl (snd (handleW3Reset env args))"
proof (cases "safeParse W3ResetArgsSchema args")
  case None
  then show ?thesis using assms(1) by (simp add: handleW3Reset_invalid execs_nil)
next
  case (Some parsed)
  show ?thesis
    using assms unfolding handleW3Reset_def Let_def Some option.case
    by (rule bind_run_fail)
qed

lemma handleW3Login_awaits:
  assumes "execs (handleW3Login env args) = [Exec c]" and "exec env c = Inl e"
  shows "isl (snd (handleW3Login env args))"
proof -
  have "execs (io_bind (runW3Command env (js ''login '' @ template env (W3_LOGIN_EMAIL env)))
          (\<lambda>(stdout, stderr).
              let output = js ''Login process initiated for '' @ template env (W3_LOGIN_EMAIL env)
                           @ js ''. Output from w3:\<newline>Stdout: '' @ stdout
                           @ js ''\<newline>Stderr: '' @ stderr
                           @ js ''\<newline>Please check your email to complete the login.''
              in io_return (text_response env (Obj [(js ''message'', Str output)])))) = [Exec c]"
    using assms(1) by (simp add: handleW3Login_def Let_def split: prod.splits)
  then show ?thesis
    unfolding handleW3Login_def Let_def
    by (intro then_logger_fail bind_run_fail [OF _ assms(2)])
qed

lemmas awaits_lemmas = handleW3Login_awaits handleW3SpaceLs_awaits handleW3SpaceUse_awaits handleW3Up_awaits handleW3Ls_awaits handleW3Rm_awaits handleW3SpaceInfo_awaits handleW3SpaceAdd_awaits handleW3DelegationCreate_awaits handleW3DelegationLs_awaits handleW3DelegationRevoke_awaits handleW3ProofAdd_awaits handleW3ProofLs_awaits handleW3KeyCreate_awaits handleW3BridgeGenerateTokens_awaits handleW3CanBlobAdd_awaits handleW3CanBlobLs_awaits handleW3CanBlobRm_awaits handleW3CanIndexAdd_awaits handleW3CanUploadAdd_awaits handleW3CanUploadLs_awaits handleW3CanUploadRm_awaits handleW3PlanGet_awaits handleW3AccountLs_awaits handleW3SpaceProvision_awaits handleW3CouponCreate_awaits handleW3UsageReport_awaits handleW3CanAccessClaim_awaits handleW3CanStoreAdd_awaits handleW3CanStoreLs_awaits handleW3CanStoreRm_awaits handleW3CanFilecoinInfo_awaits handleW3Reset_awaits

lemma handler_awaits:
  assumes "(name, h) \<in> set toolHandlers"
    and "map_of listTools name = Some schema"
    and "execs (h env args) = [Exec c]"
    and "exec env c = Inl e"
  shows "isl (snd (h env args))"
  using tool_table [OF assms(1,2)] assms(3,4)
  by (auto simp: handleW3SpaceCreate_throws handleW3Open_quiet execs_nil
      intro: awaits_lemmas)

text \<open>
  C4, as amended. A call of a handler runs at most one command. It runs exactly one when
  the tool is \<open>w3_login\<close>, or when the arguments satisfy the tool's schema and the tool
  is neither \<open>w3_open\<close> (which only builds a URL) nor \<open>w3_space_create\<close> (which always
  throws); otherwise it runs none. The handler replies only once the command has
  completed: when the command it ran fails, the handler throws instead of replying.
\<close>

theorem subprocesses_per_call:
  assumes "(name, h) \<in> set toolHandlers"
    and "map_of listTools name = Some schema"
  shows "length (execs (h env args)) =
           (if name = js ''w3_login''
               \<or> (safeParse schema args \<noteq> None \<and> name \<noteq> js ''w3_open''
                  \<and> name \<noteq> js ''w3_space_create'')
            then 1 else 0)
     \<and> (\<forall>c e. execs (h env args) = [Exec c] \<longrightarrow> exec env c = Inl e
            \<longrightarrow> isl (snd (h env args)))"
proof -
  have "length (execs (h env args)) =
           (if name = js ''w3_login''
               \<or> (safeParse schema args \<noteq> None \<and> name \<noteq> js ''w3_open''
                  \<and> name \<noteq> js ''w3_space_create'')
            then 1 else 0)"
  proof (cases "safeParse schema args")
    case None
    then show ?thesis
      using tool_table [OF assms]
      by (auto simp: invalid_lemmas handleW3SpaceCreate_throws handleW3Login_runs execs_nil)
  next
    case (Some parsed)
    then show ?thesis
      using tool_table [OF assms]
      by (auto simp: valid_lemmas handleW3SpaceCreate_throws handleW3Login_runs
          handleW3Open_quiet execs_nil)
  qed
  then show ?thesis using handler_awaits [OF assms] by blast
qed

theorem subprocesses_per_call_witness:
  "safeParse W3UpArgsSchema (Obj [(js ''paths'', Arr [Str (js ''/tmp/a'')])]) \<noteq> None
   \<and> length (execs (handleW3Up host0 (Obj [(js ''paths'', Arr [Str (js ''/tmp/a'')])]))) = 1
   \<and> length (execs (handleW3Up host0 (Obj [(js ''paths'', Arr [])]))) = 0
   \<and> execs (handleW3Up (host0\<lparr>exec := \<lambda>cmd. Inl (new_Error (js ''spawn w3 ENOENT''))\<rparr>)
               (Obj [(js ''paths'', Arr [Str (js ''/tmp/a'')])]))
       = [Exec (js ''w3 up '' @ dquote @ js ''/tmp/a'' @ dquote)]
   \<and> isl (snd (handleW3Up (host0\<lparr>exec := \<lambda>cmd. Inl (new_Error (js ''spawn w3 ENOENT''))\<rparr>)
                  (Obj [(js ''paths'', Arr [Str (js ''/tmp/a'')])])))"
proof -
  have a: "(js ''w3_up'', handleW3Up) \<in> set toolHandlers"
    by (simp add: toolHandlers_def)
  have b: "map_of listTools (js ''w3_up'') = Some W3UpArgsSchema"
    by (simp add: listTools_table)
  have d: "safeParse W3UpArgsSchema (Obj [(js ''paths'', Arr [Str (js ''/tmp/a'')])]) \<noteq> None"
    by (simp add: W3UpArgsSchema_def)
  have e: "safeParse W3UpArgsSchema (Obj [(js ''paths'', Arr [])]) = None"
    by (simp add: W3UpArgsSchema_def)
  have f: "execs (handleW3Up env (Obj [(js ''paths'', Arr [Str (js ''/tmp/a'')])]))
       = [Exec (js ''w3 up '' @ dquote @ js ''/tmp/a'' @ dquote)]" for env
    by (simp add: handleW3Up_def W3UpArgsSchema_def Let_def js_append [symmetric]
        split: prod.splits)
  have g: "exec (host0\<lparr>exec := \<lambda>cmd. Inl (new_Error (js ''spawn w3 ENOENT''))\<rparr>) c
           = Inl (new_Error (js ''spawn w3 ENOENT''))" for c
    by simp
  show ?thesis
    using subprocesses_per_call [OF a b, of host0 "Obj [(js ''paths'', Arr [Str (js ''/tmp/a'')])]"]
      subprocesses_per_call [OF a b, of host0 "Obj [(js ''paths'', Arr [])]"]
      subprocesses_per_call [OF a b,
        of "host0\<lparr>exec := \<lambda>cmd. Inl (new_Error (js ''spawn w3 ENOENT''))\<rparr>"
           "Obj [(js ''paths'', Arr [Str (js ''/tmp/a'')])]"]
      d e f g
    by simp
qed

text \<open>
  C4 as stated fails: \<open>handleW3Open\<close>, called with arguments its schema accepts, replies
  with the gateway URL and runs no command.
\<close>

theorem subprocesses_per_call_counterexample:
  "safeParse W3OpenArgsSchema (Obj [(js ''cid'', Str (js ''bafy''))]) \<noteq> None
   \<and> handleW3Open host0 (Obj [(js ''cid'', Str (js ''bafy''))]) =
       ([], Inr (text_response host0
                   (Obj [(js ''message'',
                          Str (js ''To view the content, open this URL in your browser: https://w3s.link/ipfs/bafy'')),
                         (js ''url'', Str (js ''https://w3s.link/ipfs/bafy''))])))
   \<and> execs (handleW3Open host0 (Obj [(js ''cid'', Str (js ''bafy''))])) = []"
  by (simp add: W3OpenArgsSchema_def handleW3Open_def Let_def io_return_def js_append [symmetric]
      execs_nil)

section \<open>The space listing\<close>

lemma trimEnd_Cons:
  "trimEnd (c # l) = (if is_ws c \<and> list_all is_ws l then [] else c # trimEnd l)"
proof (cases "list_all is_ws l")
  case True
  then have "dropWhile is_ws (rev l @ [c]) = dropWhile is_ws [c]"
    by (intro dropWhile_append2) (simp add: list_all_iff)
  moreover have "trimEnd l = []" using True by (simp add: trimEnd_def list_all_iff)
  ultimately show ?thesis using True by (simp add: trimEnd_def)
next
  case False
  then obtain x where "x \<in> set (rev l)" "\<not> is_ws x" by (auto simp: list_all_iff)
  then have "dropWhile is_ws (rev l @ [c]) = dropWhile is_ws (rev l) @ [c]"
    by (rule dropWhile_append1)
  then show ?thesis using False by (simp add: trimEnd_def)
qed

lemma trimStart_all: "list_all is_ws l \<Longrightarrow> trimStart l = []"
  by (simp add: trimStart_def list_all_iff)

lemma trim_comm: "trimStart (trimEnd l) = trimEnd (trimStart l)"
proof (induction l)
  case Nil
  show ?case by (simp add: trimStart_def trimEnd_def)
next
  case (Cons c l)
  show ?case
  proof (cases "is_ws c")
    case True
    show ?thesis
    proof (cases "list_all is_ws l")
      case all: True
      then show ?thesis using True
        by (simp add: trimEnd_Cons trimStart_all) (simp add: trimStart_def trimEnd_def)
    next
      case False
      then show ?thesis using True Cons
        by (simp add: trimEnd_Cons) (simp add: trimStart_def)
    qed
  next
    case False
    then show ?thesis by (simp add: trimEnd_Cons) (simp add: trimStart_def trimEnd_Cons)
  qed
qed

lemma trim_trimStart: "trim (trimStart l) = trim l"
  by (simp add: trim_def trimStart_def)

lemma trimEnd_idem: "trimEnd (trimEnd l) = trimEnd l"
  by (simp add: trimEnd_def)

lemma trim_trimEnd: "trim (trimEnd l) = trim l"
  by (simp add: trim_def trim_comm trimEnd_idem)

lemma trim_trim: "trim (trim l) = trim l"
proof -
  have "trim (trim l) = trim (trimEnd (trimStart l))" by (simp add: trim_def)
  also have "\<dots> = trim (trimStart l)" by (rule trim_trimEnd)
  also have "\<dots> = trim l" by (rule trim_trimStart)
  finally show ?thesis .
qed

lemma map_trim_nonblank: "map trim (nonblank_lines (trim s)) = map trim (nonblank_lines s)"
proof -
  have 1: "map trim (nonblank_lines (trimStart s)) = map trim (nonblank_lines s)"
    by (cases "nonblank_lines s") (simp_all add: nonblank_trimStart trim_trimStart)
  have 2: "map trim (nonblank_lines (trimEnd t)) = map trim (nonblank_lines t)" for t
    by (cases "nonblank_lines t" rule: rev_cases) (simp_all add: nonblank_trimEnd trim_trimEnd)
  have 3: "trim s = trimEnd (trimStart s)" by (simp add: trim_def)
  show ?thesis by (simp only: 3 2 1)
qed

lemma line_records_unfold:
  "line_records line =
     (if trim line = [] then []
      else (case split_ws (unstarred line) of
              [] \<Rightarrow> []
            | did # rest \<Rightarrow>
                if did \<noteq> [] \<and> startsWith did (js ''did:key:'')
                then [Obj [(js ''did'', Str did),
                           (js ''name'', if rest \<noteq> [] then Str (join (js '' '') rest) else Undefined),
                           (js ''isCurrent'', Bool (startsWith (trim line) (js ''*'')))]]
                else []))"
  by (simp add: line_records_def unstarred_def Let_def split: list.splits)

lemma space_ls_step:
  "space_ls_loop (line # lines) spaces = space_ls_loop lines (spaces @ line_records line)"
  by (simp add: line_records_unfold unstarred_def Let_def split: list.splits)

lemma space_ls_concat: "space_ls_loop lines spaces = spaces @ concat (map line_records lines)"
proof (induction lines arbitrary: spaces)
  case Nil
  show ?case by simp
next
  case (Cons line lines)
  show ?case by (simp only: space_ls_step Cons.IH) simp
qed

lemma line_records_blank: "blank l \<Longrightarrow> line_records l = []"
  by (simp add: line_records_unfold trim_eq_Nil)

lemma line_records_trim: "line_records (trim l) = line_records l"
  unfolding line_records_unfold unstarred_def trim_trim by (rule refl)

lemma concat_nonblank: "concat (map line_records (nonblank_lines s)) = concat (map line_records (split_nl s))"
proof -
  have "concat (map line_records (filter (\<lambda>l. \<not> blank l) xs)) = concat (map line_records xs)" for xs
    by (induction xs) (simp_all add: line_records_blank)
  then show ?thesis by (simp add: nonblank_lines_def)
qed

lemma spaces_by_line:
  "space_ls_loop (split_nl (trim s)) [] = concat (map line_records (split_nl s))"
proof -
  have t: "map line_records xs = map line_records (map trim xs)" for xs
    by (simp add: line_records_trim)
  have "space_ls_loop (split_nl (trim s)) [] = concat (map line_records (nonblank_lines (trim s)))"
    by (simp add: space_ls_concat concat_nonblank)
  also have "\<dots> = concat (map line_records (map trim (nonblank_lines (trim s))))"
    by (simp only: t [symmetric])
  also have "\<dots> = concat (map line_records (map trim (nonblank_lines s)))"
    by (simp only: map_trim_nonblank)
  also have "\<dots> = concat (map line_records (nonblank_lines s))"
    by (simp only: t [symmetric])
  finally show ?thesis by (simp only: concat_nonblank)
qed

lemma handleW3SpaceLs_ok:
  assumes "args = Obj kvs" and "exec env (js ''w3 space ls'') = Inr (stdout, stderr)"
  shows "snd (handleW3SpaceLs env args) =
     Inr (text_response env
            (Obj [(js ''spaces'', Arr (concat (map line_records (split_nl stdout))))]))"
proof -
  have "exec env (js ''w3 '' @ js ''space ls'') = Inr (stdout, stderr)"
    using assms(2) by (simp add: js_append [symmetric])
  then have "snd (runW3Command env (js ''space ls'')) = Inr (stdout, stderr)"
    by (rule runW3Command_ok)
  then show ?thesis
    using assms(1)
    by (simp add: handleW3SpaceLs_def W3SpaceLsArgsSchema_def io_bind_def io_return_def
        spaces_by_line)
qed

lemma line_records_did: "list_all has_did_key (line_records line)"
  by (simp add: line_records_unfold has_did_key_def split: list.splits)

lemma line_records_dropped:
  "\<not> startsWith (did_token line) (js ''did:key:'') \<Longrightarrow> line_records line = []"
  by (simp add: line_records_unfold did_token_def split: list.splits)

lemma example_lines:
  "split_nl (js ''did:key:abc  my-space\<newline>foo bar\<newline>'') = [js ''did:key:abc  my-space'', js ''foo bar'', []]"
  by (simp add: js_def)

lemma example_records:
  "line_records (js ''did:key:abc  my-space'') =
     [Obj [(js ''did'', Str (js ''did:key:abc'')), (js ''name'', Str (js ''my-space'')),
           (js ''isCurrent'', Bool False)]]"
  "line_records (js ''foo bar'') = []"
  "line_records [] = []"
  "did_token (js ''foo bar'') = js ''foo''"
  "line_records (js ''* did:key:abc'') =
     [Obj [(js ''did'', Str (js ''did:key:abc'')), (js ''name'', Undefined),
           (js ''isCurrent'', Bool True)]]"
  by (simp_all add: line_records_def did_token_def unstarred_def trim_def trimStart_def
      trimEnd_def js_def is_ws_def split_ws_def)

text \<open>
  C5. Called with an arguments object, when the command \<open>w3 space ls\<close> succeeds and its
  stdout is the line \<open>did:key:abc  my-space\<close> and a line feed, the handler of
  \<open>w3_space_ls\<close> replies with exactly one record:
  \<open>{did: "did:key:abc", name: "my-space", isCurrent: false}\<close>.
\<close>

theorem space_ls_example:
  assumes "args = Obj kvs"
    and "exec env (js ''w3 space ls'') = Inr (js ''did:key:abc  my-space\<newline>'', stderr)"
  shows "snd (handleW3SpaceLs env args) =
     Inr (text_response env
            (Obj [(js ''spaces'',
                   Arr [Obj [(js ''did'', Str (js ''did:key:abc'')),
                             (js ''name'', Str (js ''my-space'')),
                             (js ''isCurrent'', Bool False)]])]))"
proof -
  have "space_ls_loop (split_nl (trim (js ''did:key:abc  my-space\<newline>''))) [] =
      [Obj [(js ''did'', Str (js ''did:key:abc'')), (js ''name'', Str (js ''my-space'')),
            (js ''isCurrent'', Bool False)]]"
    by (simp add: trim_def trimStart_def trimEnd_def js_def is_ws_def split_ws_def)
  then have "concat (map line_records (split_nl (js ''did:key:abc  my-space\<newline>''))) =
      [Obj [(js ''did'', Str (js ''did:key:abc'')), (js ''name'', Str (js ''my-space'')),
            (js ''isCurrent'', Bool False)]]"
    by (simp only: spaces_by_line)
  then show ?thesis using handleW3SpaceLs_ok [OF assms] by simp
qed

theorem space_ls_example_witness:
  "snd (handleW3SpaceLs (host_with_stdout (js ''did:key:abc  my-space\<newline>'')) (Obj [])) =
     Inr (text_response (host_with_stdout (js ''did:key:abc  my-space\<newline>''))
            (Obj [(js ''spaces'',
                   Arr [Obj [(js ''did'', Str (js ''did:key:abc'')),
                             (js ''name'', Str (js ''my-space'')),
                             (js ''isCurrent'', Bool False)]])]))"
  by (rule space_ls_example [OF refl host_with_stdout_exec])

text \<open>
  C6. The handler of \<open>w3_space_ls\<close> replies with the records of the lines of stdout, line
  by line. For a line of stdout that begins with a star once trimmed, the star is
  removed and the rest trimmed before the line is split into DID and name, and the
  record the line gives (it gives one when the DID starts with \<open>did:key:\<close>) has
  \<open>isCurrent\<close> true.
\<close>

theorem starred_line_is_current:
  assumes "args = Obj kvs"
    and "exec env (js ''w3 space ls'') = Inr (stdout, stderr)"
    and "line \<in> set (split_nl stdout)"
    and "startsWith (trim line) (js ''*'')"
  shows "snd (handleW3SpaceLs env args) =
           Inr (text_response env
                  (Obj [(js ''spaces'', Arr (concat (map line_records (split_nl stdout))))]))
     \<and> line_records line =
         (case split_ws (trim (drop 1 (trim line))) of
            [] \<Rightarrow> []
          | did # rest \<Rightarrow>
              if did \<noteq> [] \<and> startsWith did (js ''did:key:'')
              then [Obj [(js ''did'', Str did),
                         (js ''name'', if rest \<noteq> [] then Str (join (js '' '') rest) else Undefined),
                         (js ''isCurrent'', Bool True)]]
              else [])"
proof -
  have "trim line \<noteq> []" using assms(4) by (auto simp: js_def)
  then have "line_records line =
         (case split_ws (trim (drop 1 (trim line))) of
            [] \<Rightarrow> []
          | did # rest \<Rightarrow>
              if did \<noteq> [] \<and> startsWith did (js ''did:key:'')
              then [Obj [(js ''did'', Str did),
                         (js ''name'', if rest \<noteq> [] then Str (join (js '' '') rest) else Undefined),
                         (js ''isCurrent'', Bool True)]]
              else [])"
    using assms(4) by (simp add: line_records_unfold unstarred_def split: list.splits)
  then show ?thesis using handleW3SpaceLs_ok [OF assms(1,2)] by simp
qed

theorem starred_line_is_current_witness:
  "js ''* did:key:abc home base'' \<in> set (split_nl (js ''  did:key:def\<newline>* did:key:abc home base\<newline>''))
   \<and> startsWith (trim (js ''* did:key:abc home base'')) (js ''*'')
   \<and> line_records (js ''* did:key:abc home base'') =
        [Obj [(js ''did'', Str (js ''did:key:abc'')), (js ''name'', Str (js ''home base'')),
              (js ''isCurrent'', Bool True)]]"
proof -
  have a: "js ''* did:key:abc home base'' \<in> set (split_nl (js ''  did:key:def\<newline>* did:key:abc home base\<newline>''))"
    by (simp add: js_def)
  have t: "trim (js ''* did:key:abc home base'') = js ''* did:key:abc home base''"
    by (simp add: trim_def trimStart_def trimEnd_def js_def is_ws_def)
  have b: "startsWith (trim (js ''* did:key:abc home base'')) (js ''*'')"
    unfolding t by (simp add: js_def)
  have s: "split_ws (trim (drop 1 (trim (js ''* did:key:abc home base'')))) =
           [js ''did:key:abc'', js ''home'', js ''base'']"
    unfolding t by (simp add: trim_def trimStart_def trimEnd_def js_def is_ws_def split_ws_def)
  have d: "startsWith (js ''did:key:abc'') (js ''did:key:'')" "js ''did:key:abc'' \<noteq> []"
    "join (js '' '') [js ''home'', js ''base''] = js ''home base''"
    by (simp_all add: js_def)
  show ?thesis
    using starred_line_is_current [OF refl host_with_stdout_exec a b, unfolded s] a b
    by (simp add: d js_append2 js_append [symmetric])
qed

text \<open>
  C8, as amended. Every record in the list the handler of \<open>w3_space_ls\<close> replies with has
  a \<open>did\<close> that starts with \<open>did:key:\<close>; and a line of stdout gives no record unless
  its first piece between white space, taken after the line is trimmed and a leading
  star is removed, starts with \<open>did:key:\<close>.
\<close>

theorem listed_dids:
  assumes "args = Obj kvs"
    and "exec env (js ''w3 space ls'') = Inr (stdout, stderr)"
  shows "snd (handleW3SpaceLs env args) =
           Inr (text_response env
                  (Obj [(js ''spaces'', Arr (concat (map line_records (split_nl stdout))))]))
     \<and> list_all has_did_key (concat (map line_records (split_nl stdout)))
     \<and> list_all (\<lambda>line. startsWith (did_token line) (js ''did:key:'') \<or> line_records line = [])
          (split_nl stdout)"
proof -
  have "list_all has_did_key (concat (map line_records ls))" for ls
    by (induction ls) (simp_all add: line_records_did)
  moreover have "list_all (\<lambda>line. startsWith (did_token line) (js ''did:key:'') \<or> line_records line = []) ls" for ls
    using line_records_dropped by (auto simp: list_all_iff)
  ultimately show ?thesis using handleW3SpaceLs_ok [OF assms] by simp
qed

theorem listed_dids_witness:
  "snd (handleW3SpaceLs (host_with_stdout (js ''did:key:abc  my-space\<newline>foo bar\<newline>'')) (Obj [])) =
     Inr (text_response (host_with_stdout (js ''did:key:abc  my-space\<newline>foo bar\<newline>''))
            (Obj [(js ''spaces'',
                   Arr [Obj [(js ''did'', Str (js ''did:key:abc'')),
                             (js ''name'', Str (js ''my-space'')),
                             (js ''isCurrent'', Bool False)]])]))
   \<and> has_did_key (Obj [(js ''did'', Str (js ''did:key:abc'')),
                        (js ''name'', Str (js ''my-space'')),
                        (js ''isCurrent'', Bool False)])
   \<and> did_token (js ''foo bar'') = js ''foo''
   \<and> line_records (js ''foo bar'') = []"
  using listed_dids [where kvs = "[]", OF refl
      host_with_stdout_exec [of "js ''did:key:abc  my-space\<newline>foo bar\<newline>''"]]
  by (simp add: example_lines example_records)

text \<open>
  C8 as stated fails on a starred line. For the stdout \<open>* did:key:abc\<close> and a line
  feed, the first piece of the line \<open>* did:key:abc\<close> between white space is the star,
  which does not start with \<open>did:key:\<close>; the line gives a record all the same, and the
  array \<open>spaces\<close> the handler's loop builds from that stdout holds it.
\<close>

theorem listed_dids_counterexample:
  "split_nl (js ''* did:key:abc\<newline>'') = [js ''* did:key:abc'', []]
   \<and> split_ws (js ''* did:key:abc'') = [js ''*'', js ''did:key:abc'']
   \<and> \<not> startsWith (js ''*'') (js ''did:key:'')
   \<and> line_records (js ''* did:key:abc'') =
       [Obj [(js ''did'', Str (js ''did:key:abc'')), (js ''name'', Undefined),
             (js ''isCurrent'', Bool True)]]
   \<and> space_ls_loop (split_nl (trim (js ''* did:key:abc\<newline>''))) [] =
       [Obj [(js ''did'', Str (js ''did:key:abc'')), (js ''name'', Undefined),
             (js ''isCurrent'', Bool True)]]"
proof -
  have l: "split_nl (js ''* did:key:abc\<newline>'') = [js ''* did:key:abc'', []]"
    by (simp add: js_def)
  have 1: "split_ws (js ''* did:key:abc'') = [js ''*'', js ''did:key:abc'']"
    by (simp add: split_ws_def js_def is_ws_def)
  have 2: "\<not> startsWith (js ''*'') (js ''did:key:'')"
    by (simp add: js_def)
  have 3: "line_records (js ''* did:key:abc'') =
       [Obj [(js ''did'', Str (js ''did:key:abc'')), (js ''name'', Undefined),
             (js ''isCurrent'', Bool True)]]"
    by (rule example_records(5))
  have 4: "space_ls_loop (split_nl (trim (js ''* did:key:abc\<newline>''))) [] =
       [Obj [(js ''did'', Str (js ''did:key:abc'')), (js ''name'', Undefined),
             (js ''isCurrent'', Bool True)]]"
    by (simp add: spaces_by_line l example_records)
  show ?thesis using l 1 2 3 4 by simp
qed

end
